theory Spec2Isabelle
  imports Main
begin

section \<open>Values, errors and the outside world\<close>

text \<open>
  The program moves decoded JSON around as Python values (\<open>dict\<close>, \<open>list\<close>, \<open>str\<close>,
  \<open>int\<close>, \<open>bool\<close>, \<open>None\<close>). A \<open>dict\<close> is an association list read with \<open>map_of\<close>.
  JSON numbers are integers here; the program never computes with them.
\<close>

datatype json =
    JNull
  | JBool bool
  | JNum int
  | JStr string
  | JArr "json list"
  | JObj "(string \<times> json) list"

text \<open>
  An f-string is kept as its parts, literal text and interpolated values, in order.
  The text that Python's \<open>str()\<close> gives an interpolated value is not computed.
\<close>

datatype fpart = Lit string | Fmt json

type_synonym fstring = "fpart list"

text \<open>
  The body of an HTTP response: \<open>response.text\<close> is empty, or it is the text of the
  JSON value that \<open>response.json()\<close> decodes, or it is text that does not decode.
\<close>

datatype body = Empty | Json json | Undecodable

text \<open>
  What \<open>requests.request\<close> does: it raises without a response (connection or
  transport failure), or it returns a response with a status code and a body.
\<close>

datatype http_outcome = TransportFailure | HttpResponse nat body

text \<open>
  The exceptions the program can meet. \<open>HTTPError\<close> is what
  \<open>raise_for_status\<close> raises; it carries the response. \<open>ConnectionError\<close> and
  \<open>JSONDecodeError\<close> are the \<open>RequestException\<close>s whose \<open>response\<close> is \<open>None\<close>.
\<close>

datatype py_error =
    AttributeError
  | TypeError
  | NameError
  | ValueError
  | ConnectionError
  | HTTPError nat body
  | JSONDecodeError
  | OSError

datatype level = DEBUG | INFO | WARNING | ERROR

text \<open>One constructor for each logging call of the source, with the values it formats.\<close>

datatype log_msg =
    MakingRequest string fstring
  | ApiRequestFailed py_error
  | ResponseLine json
  | WouldDisablePattern json string
  | DisabledPatterns nat
  | CreatingStandard string
  | WouldCreateStandard
  | CreatedStandard json
  | FetchingTools
  | NoToolsFound
  | SkippingTool json
  | ProcessingTool json
  | EnabledTool json
  | WouldEnableTool json
  | ErrorProcessingTool json py_error
  | PromotingStandard
  | SettingDefault
  | ConfiguredStandard
  | FailedToCreate py_error

record request =
  http_method :: string
  url :: fstring
  headers :: "(string \<times> string) list"
  json_body :: "json option"
  data :: "string option"
  params :: "(string \<times> json) list option"

text \<open>
  The state the program changes: the requests sent so far, the records handed to the
  logger \<open>codacy_standard\<close> (the API client and the orchestrator share it), and the
  seconds spent in \<open>time.sleep\<close>.
\<close>

record state =
  sent :: "request list"
  logged :: "(level \<times> log_msg) list"
  slept :: nat

text \<open>
  The remote service, as the client sees it: the outcome of the request number \<open>k\<close> of the run
  (counted from 0). The client is sequential and deterministic, so a run against any
  service is fixed by this sequence.
\<close>

type_synonym server = "nat \<Rightarrow> http_outcome"

definition emit :: "level \<Rightarrow> log_msg \<Rightarrow> state \<Rightarrow> state" where
  "emit l m st = st\<lparr>logged := logged st @ [(l, m)]\<rparr>"

definition sleep :: "nat \<Rightarrow> state \<Rightarrow> state" where
  "sleep n st = st\<lparr>slept := slept st + n\<rparr>"

definition requests_request :: "server \<Rightarrow> request \<Rightarrow> state \<Rightarrow> http_outcome \<times> state" where
  "requests_request srv rq st = (srv (length (sent st)), st\<lparr>sent := sent st @ [rq]\<rparr>)"

section \<open>Python operations on values\<close>

text \<open>\<open>d.get(k, default)\<close>: only a dict has \<open>get\<close>.\<close>

fun py_get :: "json \<Rightarrow> string \<Rightarrow> json \<Rightarrow> py_error + json" where
  "py_get (JObj kvs) k dflt = Inr (case map_of kvs k of None \<Rightarrow> dflt | Some v \<Rightarrow> v)"
| "py_get _ k dflt = Inl AttributeError"

text \<open>Truth value of a value, as \<open>if x\<close> and \<open>not x\<close> test it.\<close>

fun truthy :: "json \<Rightarrow> bool" where
  "truthy JNull = False"
| "truthy (JBool b) = b"
| "truthy (JNum n) = (n \<noteq> 0)"
| "truthy (JStr s) = (s \<noteq> [])"
| "truthy (JArr xs) = (xs \<noteq> [])"
| "truthy (JObj kvs) = (kvs \<noteq> [])"

text \<open>
  Iteration (\<open>for x in v\<close>, \<open>list.extend(v)\<close>): a list gives its items, a string its
  characters, a dict its keys; the other values are not iterable.
\<close>

fun py_iter :: "json \<Rightarrow> py_error + json list" where
  "py_iter (JArr xs) = Inr xs"
| "py_iter (JStr s) = Inr (map (\<lambda>c. JStr [c]) s)"
| "py_iter (JObj kvs) = Inr (map JStr (remdups (map fst kvs)))"
| "py_iter _ = Inl TypeError"

fun is_substring :: "string \<Rightarrow> string \<Rightarrow> bool" where
  "is_substring p [] = (p = [])"
| "is_substring p (c # cs) = (take (length p) (c # cs) = p \<or> is_substring p cs)"

text \<open>\<open>k in v\<close> for a string \<open>k\<close>: key of a dict, item of a list, substring of a string.\<close>

fun py_in :: "string \<Rightarrow> json \<Rightarrow> py_error + bool" where
  "py_in k (JObj kvs) = Inr (map_of kvs k \<noteq> None)"
| "py_in k (JArr xs) = Inr (JStr k \<in> set xs)"
| "py_in k (JStr s) = Inr (is_substring k s)"
| "py_in k _ = Inl TypeError"

text \<open>\<open>v[k]\<close> for a string \<open>k\<close>, used only after \<open>k in v\<close> held.\<close>

fun py_getitem :: "json \<Rightarrow> string \<Rightarrow> py_error + json" where
  "py_getitem (JObj kvs) k = (case map_of kvs k of None \<Rightarrow> Inl TypeError | Some v \<Rightarrow> Inr v)"
| "py_getitem _ k = Inl TypeError"

text \<open>
  \<open>str.lower\<close> on the letters A to Z. No string with a character outside ASCII
  lower-cases to \<open>info\<close> or \<open>minor\<close>, so the other bytes stay as they are.
\<close>

definition lower_char :: "char \<Rightarrow> char" where
  "lower_char c =
     (if (65::nat) \<le> of_char c \<and> (of_char c :: nat) \<le> 90
      then char_of ((of_char c :: nat) + 32) else c)"

fun py_lower :: "json \<Rightarrow> py_error + string" where
  "py_lower (JStr s) = Inr (map lower_char s)"
| "py_lower _ = Inl AttributeError"

section \<open>Settings and the API client\<close>

text \<open>
  The settings, as \<open>config/settings.py\<close> has read them from the environment when the
  module is imported, before the command runs; \<open>log_level\<close> is the text of \<open>LOG_LEVEL\<close>,
  \<open>INFO\<close> when the variable is not set.
\<close>

record settings =
  api_token :: string
  org_name :: string
  provider :: string
  api_url :: string
  log_level :: string

record codacy_api =
  base_url :: string
  api_headers :: "(string \<times> string) list"
  api_provider :: string
  api_org_name :: string

definition rstrip_slash :: "string \<Rightarrow> string" where
  "rstrip_slash s = rev (dropWhile (\<lambda>c. c = CHR ''/'') (rev s))"

text \<open>\<open>s.replace(p, '')\<close> for a non-empty \<open>p\<close>: the occurrences of \<open>p\<close>, left to right, are removed.\<close>

function remove_all :: "string \<Rightarrow> string \<Rightarrow> string" where
  "remove_all p [] = []"
| "remove_all p (c # cs) =
     (if p \<noteq> [] \<and> take (length p) (c # cs) = p
      then remove_all p (drop (length p) (c # cs))
      else c # remove_all p cs)"
  by pat_completeness auto
termination
  by (relation "measure (\<lambda>(p, s). length s)") auto

definition CodacyAPI :: "settings \<Rightarrow> codacy_api" where
  "CodacyAPI cfg =
     (let b = rstrip_slash (api_url cfg);
          authority = remove_all ''http://'' (remove_all ''https://'' b)
      in \<lparr>base_url = b,
          api_headers =
            [(''authority'', authority),
             (''Content-Type'', ''application/json''),
             (''Accept'', ''application/json''),
             (''api-token'', api_token cfg),
             (''x-requested-with'', ''XMLHttpRequest'')],
          api_provider = provider cfg,
          api_org_name = org_name cfg\<rparr>)"

text \<open>
  \<open>endpoint.lstrip('/')\<close> on the parts of an f-string. An interpolated value that is
  not a string never prints as text that starts with a slash.
\<close>

fun lstrip_slash :: "fstring \<Rightarrow> fstring" where
  "lstrip_slash [] = []"
| "lstrip_slash (Lit s # r) =
     (case dropWhile (\<lambda>c. c = CHR ''/'') s of [] \<Rightarrow> lstrip_slash r | c # cs \<Rightarrow> Lit (c # cs) # r)"
| "lstrip_slash (Fmt (JStr s) # r) =
     (case dropWhile (\<lambda>c. c = CHR ''/'') s of [] \<Rightarrow> lstrip_slash r | c # cs \<Rightarrow> Fmt (JStr (c # cs)) # r)"
| "lstrip_slash (Fmt v # r) = Fmt v # r"

text \<open>\<open>raise_for_status\<close> raises for the client and server error codes, 400 to 599.\<close>

definition is_error_status :: "nat \<Rightarrow> bool" where
  "is_error_status code = (400 \<le> code \<and> code < 600)"

text \<open>
  \<open>_make_request\<close>. A \<open>RequestException\<close> is logged and raised again. When its response
  has a \<open>json\<close> method (an \<open>HTTPError\<close> has a response, the others have \<open>None\<close>), the
  handler decodes the error body to log it; a body that does not decode raises
  \<open>JSONDecodeError\<close> from inside the handler.
\<close>

definition make_request ::
  "codacy_api \<Rightarrow> server \<Rightarrow> string \<Rightarrow> fstring \<Rightarrow> json option \<Rightarrow> string option \<Rightarrow>
   (string \<times> json) list option \<Rightarrow> state \<Rightarrow> (py_error + json) \<times> state" where
  "make_request api srv meth endpoint js dat ps st =
     (let u = [Lit (base_url api), Lit ''/''] @ lstrip_slash endpoint;
          st1 = emit DEBUG (MakingRequest meth u) st;
          rq = \<lparr>http_method = meth, url = u, headers = api_headers api,
                json_body = js, data = dat, params = ps\<rparr>
      in case requests_request srv rq st1 of
           (TransportFailure, st2) \<Rightarrow>
             (Inl ConnectionError, emit ERROR (ApiRequestFailed ConnectionError) st2)
         | (HttpResponse code b, st2) \<Rightarrow>
             if is_error_status code then
               (let st3 = emit ERROR (ApiRequestFailed (HTTPError code b)) st2
                in case b of
                     Json j \<Rightarrow> (Inl (HTTPError code b), emit ERROR (ResponseLine j) st3)
                   | _ \<Rightarrow> (Inl JSONDecodeError, st3))
             else
               (case b of
                  Empty \<Rightarrow> (Inr (JObj []), st2)
                | Json j \<Rightarrow> (Inr j, st2)
                | Undecodable \<Rightarrow>
                    (Inl JSONDecodeError, emit ERROR (ApiRequestFailed JSONDecodeError) st2)))"

definition languages :: "string list" where
  "languages =
     [''CSharp'', ''Java'', ''Go'', ''Kotlin'', ''Ruby'', ''Scala'', ''Python'', ''TypeScript'',
      ''Javascript'', ''CoffeeScript'', ''Swift'', ''JSP'', ''VisualBasic'', ''PHP'', ''PLSQL'',
      ''SQL'', ''TSQL'', ''Crystal'', ''Haskell'', ''Elixir'', ''Groovy'', ''Apex'', ''VisualForce'',
      ''Velocity'', ''CSS'', ''HTML'', ''LESS'', ''SASS'', ''Dockerfile'', ''Terraform'', ''Shell'',
      ''JSON'', ''XML'', ''Perl'', ''Lua'', ''Powershell'', ''YAML'', ''Cobol'', ''Rust'', ''Erlang'',
      ''ABAP'', ''Objective C'', ''Markdown'', ''Julia'', ''Scratch'', ''FSharp'', ''Lisp'',
      ''Prolog'', ''R'', ''Solidity'', ''Elm'', ''Fortran'', ''Dart'', ''OCaml'', ''Clojure'',
      ''C'', ''CPP'']"

definition create_coding_standard ::
  "codacy_api \<Rightarrow> server \<Rightarrow> string \<Rightarrow> state \<Rightarrow> (py_error + json) \<times> state" where
  "create_coding_standard api srv name st =
     (let endpoint = [Lit ''api/v3/organizations/'', Lit (api_provider api), Lit ''/'',
                      Lit (api_org_name api), Lit ''/coding-standards''];
          dat = JObj [(''name'', JStr name), (''languages'', JArr (map JStr languages))]
      in make_request api srv ''POST'' endpoint (Some dat) None None st)"

definition get_coding_standards ::
  "codacy_api \<Rightarrow> server \<Rightarrow> state \<Rightarrow> (py_error + json) \<times> state" where
  "get_coding_standards api srv st =
     (let endpoint = [Lit ''api/v3/organizations/'', Lit (api_provider api), Lit ''/'',
                      Lit (api_org_name api), Lit ''/coding-standards'']
      in case make_request api srv ''GET'' endpoint None None None st of
           (Inl e, st1) \<Rightarrow> (Inl e, st1)
         | (Inr response, st1) \<Rightarrow> (py_get response ''data'' (JArr []), st1))"

definition get_available_tools ::
  "codacy_api \<Rightarrow> server \<Rightarrow> state \<Rightarrow> (py_error + json) \<times> state" where
  "get_available_tools api srv st =
     (let endpoint = [Lit ''api/v3/tools'']
      in case make_request api srv ''GET'' endpoint None None None st of
           (Inl e, st1) \<Rightarrow> (Inl e, st1)
         | (Inr response, st1) \<Rightarrow> (py_get response ''data'' (JArr []), st1))"

definition enable_tool ::
  "codacy_api \<Rightarrow> server \<Rightarrow> json \<Rightarrow> json \<Rightarrow> state \<Rightarrow> (py_error + json) \<times> state" where
  "enable_tool api srv coding_standard_id tool_uuid st =
     (let endpoint = [Lit ''api/v3/organizations/'', Lit (api_provider api), Lit ''/'',
                      Lit (api_org_name api), Lit ''/coding-standards/'', Fmt coding_standard_id,
                      Lit ''/tools/'', Fmt tool_uuid];
          dat = JObj [(''enabled'', JBool True), (''patterns'', JArr [])]
      in case make_request api srv ''PATCH'' endpoint (Some dat) None None st of
           (Inl e, st1) \<Rightarrow> (Inl e, st1)
         | (Inr response, st1) \<Rightarrow> (Inr response, sleep 2 st1))"

definition update_patterns ::
  "codacy_api \<Rightarrow> server \<Rightarrow> json \<Rightarrow> json \<Rightarrow> json list \<Rightarrow> state \<Rightarrow> (py_error + json) \<times> state" where
  "update_patterns api srv coding_standard_id tool_uuid patterns st =
     (let endpoint = [Lit ''api/v3/organizations/'', Lit (api_provider api), Lit ''/'',
                      Lit (api_org_name api), Lit ''/coding-standards/'', Fmt coding_standard_id,
                      Lit ''/tools/'', Fmt tool_uuid];
          dat = JObj [(''enabled'', JBool True), (''patterns'', JArr patterns)]
      in case make_request api srv ''PATCH'' endpoint (Some dat) None None st of
           (Inl e, st1) \<Rightarrow> (Inl e, st1)
         | (Inr response, st1) \<Rightarrow> (Inr response, sleep 2 st1))"

definition promote_draft ::
  "codacy_api \<Rightarrow> server \<Rightarrow> json \<Rightarrow> state \<Rightarrow> (py_error + json) \<times> state" where
  "promote_draft api srv coding_standard_id st =
     (let endpoint = [Lit ''api/v3/organizations/'', Lit (api_provider api), Lit ''/'',
                      Lit (api_org_name api), Lit ''/coding-standards/'', Fmt coding_standard_id,
                      Lit ''/promote'']
      in make_request api srv ''POST'' endpoint None None None st)"

definition set_default ::
  "codacy_api \<Rightarrow> server \<Rightarrow> json \<Rightarrow> state \<Rightarrow> (py_error + json) \<times> state" where
  "set_default api srv coding_standard_id st =
     (let endpoint = [Lit ''api/v3/organizations/'', Lit (api_provider api), Lit ''/'',
                      Lit (api_org_name api), Lit ''/coding-standards/'', Fmt coding_standard_id,
                      Lit ''/setDefault''];
          dat = JObj [(''isDefault'', JBool True)]
      in make_request api srv ''POST'' endpoint (Some dat) None None st)"

section \<open>Pagination\<close>

text \<open>
  \<open>get_patterns\<close>. The \<open>while\<close> loop may run for ever, so it takes fuel: one unit for
  each pass, and the result \<open>None\<close> when the fuel runs out before the loop ends. The state
  reached is returned in every case.
\<close>

fun get_patterns_loop ::
  "nat \<Rightarrow> codacy_api \<Rightarrow> server \<Rightarrow> json \<Rightarrow> json \<Rightarrow> json \<Rightarrow> json list \<Rightarrow> json \<Rightarrow> state \<Rightarrow>
   (py_error + json list) option \<times> state" where
  "get_patterns_loop 0 api srv coding_standard_id tool_uuid limit patterns cursor st = (None, st)"
| "get_patterns_loop (Suc fuel) api srv coding_standard_id tool_uuid limit patterns cursor st =
     (let endpoint = [Lit ''api/v3/organizations/'', Lit (api_provider api), Lit ''/'',
                      Lit (api_org_name api), Lit ''/coding-standards/'', Fmt coding_standard_id,
                      Lit ''/tools/'', Fmt tool_uuid, Lit ''/patterns''];
          ps = [(''limit'', limit)] @ (if truthy cursor then [(''cursor'', cursor)] else [])
      in case make_request api srv ''GET'' endpoint None None (Some ps) st of
           (Inl e, st1) \<Rightarrow> (Some (Inl e), st1)
         | (Inr response, st1) \<Rightarrow>
             (case py_get response ''data'' (JArr []) of
                Inl e \<Rightarrow> (Some (Inl e), st1)
              | Inr d \<Rightarrow>
                  (case py_iter d of
                     Inl e \<Rightarrow> (Some (Inl e), st1)
                   | Inr items \<Rightarrow>
                       (case py_get response ''pagination'' (JObj []) of
                          Inl e \<Rightarrow> (Some (Inl e), st1)
                        | Inr pagination \<Rightarrow>
                            (case py_in ''cursor'' pagination of
                               Inl e \<Rightarrow> (Some (Inl e), st1)
                             | Inr has_next_page \<Rightarrow>
                                 if has_next_page then
                                   (case py_getitem pagination ''cursor'' of
                                      Inl e \<Rightarrow> (Some (Inl e), st1)
                                    | Inr c \<Rightarrow>
                                        get_patterns_loop fuel api srv coding_standard_id tool_uuid
                                          limit (patterns @ items) c st1)
                                 else (Some (Inr (patterns @ items)), st1))))))"

definition get_patterns ::
  "nat \<Rightarrow> codacy_api \<Rightarrow> server \<Rightarrow> json \<Rightarrow> json \<Rightarrow> json \<Rightarrow> state \<Rightarrow>
   (py_error + json list) option \<times> state" where
  "get_patterns fuel api srv coding_standard_id tool_uuid limit st =
     get_patterns_loop fuel api srv coding_standard_id tool_uuid limit [] (JStr []) st"

section \<open>The orchestrator\<close>

text \<open>Lines 29 to 31 of \<open>process_patterns\<close>: the id and the lower-cased severity of a pattern.\<close>

definition pattern_id_severity :: "json \<Rightarrow> py_error + (json \<times> string)" where
  "pattern_id_severity pattern =
     (case py_get pattern ''patternDefinition'' (JObj []) of
        Inl e \<Rightarrow> Inl e
      | Inr pattern_def \<Rightarrow>
          (case py_get pattern_def ''id'' JNull of
             Inl e \<Rightarrow> Inl e
           | Inr pattern_id \<Rightarrow>
               (case py_get pattern_def ''severityLevel'' (JStr []) of
                  Inl e \<Rightarrow> Inl e
                | Inr sev \<Rightarrow>
                    (case py_lower sev of
                       Inl e \<Rightarrow> Inl e
                     | Inr severity \<Rightarrow> Inr (pattern_id, severity)))))"

text \<open>The first loop of \<open>process_patterns\<close>, with \<open>patterns_to_update\<close> as accumulator.\<close>

fun select_patterns ::
  "bool \<Rightarrow> json list \<Rightarrow> json list \<Rightarrow> state \<Rightarrow> (py_error + json list) \<times> state" where
  "select_patterns dry_run [] patterns_to_update st = (Inr patterns_to_update, st)"
| "select_patterns dry_run (pattern # rest) patterns_to_update st =
     (case pattern_id_severity pattern of
        Inl e \<Rightarrow> (Inl e, st)
      | Inr (pattern_id, severity) \<Rightarrow>
          if severity \<in> set [''info'', ''minor''] then
            select_patterns dry_run rest
              (patterns_to_update @ [JObj [(''id'', pattern_id), (''enabled'', JBool False)]])
              (if dry_run then emit INFO (WouldDisablePattern pattern_id severity) st else st)
          else select_patterns dry_run rest patterns_to_update st)"

text \<open>\<open>range(start, stop, step)\<close> for a positive step.\<close>

function py_range :: "nat \<Rightarrow> nat \<Rightarrow> nat \<Rightarrow> nat list" where
  "py_range i n k = (if 0 < k \<and> i < n then i # py_range (i + k) n k else [])"
  by pat_completeness auto
termination
  by (relation "measure (\<lambda>(i, n, k). n - i)") auto

declare py_range.simps [simp del]

text \<open>The second loop of \<open>process_patterns\<close>, over the start indices of the batches.\<close>

fun update_batches ::
  "codacy_api \<Rightarrow> server \<Rightarrow> json \<Rightarrow> json \<Rightarrow> json list \<Rightarrow> nat list \<Rightarrow> state \<Rightarrow>
   (py_error + unit) \<times> state" where
  "update_batches api srv standard_id tool_uuid patterns_to_update [] st = (Inr (), st)"
| "update_batches api srv standard_id tool_uuid patterns_to_update (i # rest) st =
     (let batch = take 500 (drop i patterns_to_update)
      in case update_patterns api srv standard_id tool_uuid batch st of
           (Inl e, st1) \<Rightarrow> (Inl e, st1)
         | (Inr r, st1) \<Rightarrow>
             update_batches api srv standard_id tool_uuid patterns_to_update rest
               (emit INFO (DisabledPatterns (length batch)) st1))"

definition process_patterns ::
  "nat \<Rightarrow> codacy_api \<Rightarrow> server \<Rightarrow> json \<Rightarrow> json \<Rightarrow> bool \<Rightarrow> state \<Rightarrow>
   (py_error + unit) option \<times> state" where
  "process_patterns fuel api srv standard_id tool_uuid dry_run st =
     (case get_patterns fuel api srv standard_id tool_uuid (JNum 100) st of
        (None, st1) \<Rightarrow> (None, st1)
      | (Some (Inl e), st1) \<Rightarrow> (Some (Inl e), st1)
      | (Some (Inr patterns), st1) \<Rightarrow>
          (case select_patterns dry_run patterns [] st1 of
             (Inl e, st2) \<Rightarrow> (Some (Inl e), st2)
           | (Inr patterns_to_update, st2) \<Rightarrow>
               if patterns_to_update \<noteq> [] \<and> \<not> dry_run then
                 (case update_batches api srv standard_id tool_uuid patterns_to_update
                         (py_range 0 (length patterns_to_update) 500) st2 of
                    (r, st3) \<Rightarrow> (Some r, st3))
               else (Some (Inr ()), st2)))"

text \<open>
  The body of the \<open>try\<close> inside the tool loop. The variable \<open>tool_name\<close> outlives a pass
  of the loop: it is \<open>None\<close> while unbound, and the handler of the loop reads it.
\<close>

definition tool_body ::
  "nat \<Rightarrow> codacy_api \<Rightarrow> server \<Rightarrow> json \<Rightarrow> bool \<Rightarrow> json \<Rightarrow> json option \<Rightarrow> state \<Rightarrow>
   (py_error + unit) option \<times> json option \<times> state" where
  "tool_body fuel api srv standard_id dry_run tool bound_name st =
     (case py_get tool ''uuid'' JNull of
        Inl e \<Rightarrow> (Some (Inl e), bound_name, st)
      | Inr tool_uuid \<Rightarrow>
          (case py_get tool ''name'' JNull of
             Inl e \<Rightarrow> (Some (Inl e), bound_name, st)
           | Inr tool_name \<Rightarrow>
               if \<not> truthy tool_uuid \<or> \<not> truthy tool_name then
                 (Some (Inr ()), Some tool_name, emit WARNING (SkippingTool tool) st)
               else
                 (let st1 = emit INFO (ProcessingTool tool_name) st
                  in if \<not> dry_run then
                       (case enable_tool api srv standard_id tool_uuid st1 of
                          (Inl e, st2) \<Rightarrow> (Some (Inl e), Some tool_name, st2)
                        | (Inr r, st2) \<Rightarrow>
                            (case process_patterns fuel api srv standard_id tool_uuid dry_run
                                    (emit INFO (EnabledTool tool_name) st2) of
                               (res, st3) \<Rightarrow> (res, Some tool_name, st3)))
                     else
                       (case process_patterns fuel api srv standard_id tool_uuid dry_run
                               (emit INFO (WouldEnableTool tool_name) st1) of
                          (res, st3) \<Rightarrow> (res, Some tool_name, st3)))))"

text \<open>
  The tool loop with its handler. The handler formats \<open>tool_name\<close>; while that variable is
  unbound, reading it raises \<open>UnboundLocalError\<close> (a \<open>NameError\<close>) out of the loop.
\<close>

fun tool_loop ::
  "nat \<Rightarrow> codacy_api \<Rightarrow> server \<Rightarrow> json \<Rightarrow> bool \<Rightarrow> json list \<Rightarrow> json option \<Rightarrow> state \<Rightarrow>
   (py_error + unit) option \<times> state" where
  "tool_loop fuel api srv standard_id dry_run [] bound_name st = (Some (Inr ()), st)"
| "tool_loop fuel api srv standard_id dry_run (tool # rest) bound_name st =
     (case tool_body fuel api srv standard_id dry_run tool bound_name st of
        (None, bound1, st1) \<Rightarrow> (None, st1)
      | (Some (Inr u), bound1, st1) \<Rightarrow> tool_loop fuel api srv standard_id dry_run rest bound1 st1
      | (Some (Inl e), bound1, st1) \<Rightarrow>
          (case bound1 of
             None \<Rightarrow> (Some (Inl NameError), st1)
           | Some tool_name \<Rightarrow>
               tool_loop fuel api srv standard_id dry_run rest bound1
                 (emit ERROR (ErrorProcessingTool tool_name e) st1)))"

text \<open>The body of the outer \<open>try\<close> of \<open>create_standard\<close>, in its three stages.\<close>

definition obtain_standard_id ::
  "codacy_api \<Rightarrow> server \<Rightarrow> string \<Rightarrow> bool \<Rightarrow> state \<Rightarrow> (py_error + json) \<times> state" where
  "obtain_standard_id api srv project_name dry_run st =
     (let st1 = emit INFO (CreatingStandard project_name) st
      in if dry_run then (Inr (JStr ''dry-run-id''), emit INFO WouldCreateStandard st1)
         else
           (case create_coding_standard api srv project_name st1 of
              (Inl e, st2) \<Rightarrow> (Inl e, st2)
            | (Inr response, st2) \<Rightarrow>
                (case py_get response ''data'' (JObj []) of
                   Inl e \<Rightarrow> (Inl e, st2)
                 | Inr d \<Rightarrow>
                     (case py_get d ''id'' JNull of
                        Inl e \<Rightarrow> (Inl e, st2)
                      | Inr standard_id \<Rightarrow>
                          if \<not> truthy standard_id then (Inl ValueError, st2)
                          else (Inr standard_id, emit INFO (CreatedStandard standard_id) st2)))))"

definition finish_standard ::
  "codacy_api \<Rightarrow> server \<Rightarrow> json \<Rightarrow> bool \<Rightarrow> state \<Rightarrow> (py_error + unit) \<times> state" where
  "finish_standard api srv standard_id dry_run st =
     (if \<not> dry_run then
        (case promote_draft api srv standard_id (emit INFO PromotingStandard st) of
           (Inl e, st1) \<Rightarrow> (Inl e, st1)
         | (Inr r, st1) \<Rightarrow>
             (case set_default api srv standard_id (emit INFO SettingDefault st1) of
                (Inl e, st2) \<Rightarrow> (Inl e, st2)
              | (Inr r2, st2) \<Rightarrow> (Inr (), emit INFO ConfiguredStandard st2)))
      else (Inr (), emit INFO ConfiguredStandard st))"

definition workflow ::
  "nat \<Rightarrow> codacy_api \<Rightarrow> server \<Rightarrow> string \<Rightarrow> bool \<Rightarrow> state \<Rightarrow> (py_error + unit) option \<times> state" where
  "workflow fuel api srv project_name dry_run st =
     (case obtain_standard_id api srv project_name dry_run st of
        (Inl e, st1) \<Rightarrow> (Some (Inl e), st1)
      | (Inr standard_id, st1) \<Rightarrow>
          (case get_available_tools api srv (emit INFO FetchingTools st1) of
             (Inl e, st2) \<Rightarrow> (Some (Inl e), st2)
           | (Inr tools, st2) \<Rightarrow>
               if \<not> truthy tools then (Some (Inr ()), emit WARNING NoToolsFound st2)
               else
                 (case py_iter tools of
                    Inl e \<Rightarrow> (Some (Inl e), st2)
                  | Inr tool_list \<Rightarrow>
                      (case tool_loop fuel api srv standard_id dry_run tool_list None st2 of
                         (None, st3) \<Rightarrow> (None, st3)
                       | (Some (Inl e), st3) \<Rightarrow> (Some (Inl e), st3)
                       | (Some (Inr u), st3) \<Rightarrow>
                           (case finish_standard api srv standard_id dry_run st3 of
                              (r, st4) \<Rightarrow> (Some r, st4))))))"

section \<open>The logger and the command\<close>

text \<open>
  What \<open>setup_logger\<close> needs from outside the program. \<open>logging_attribute\<close> is what
  \<open>setLevel(getattr(logging, name))\<close> gives for a name that is not one of the level
  constants of the module: a level, or the exception (\<open>AttributeError\<close> when the module has
  no such attribute, \<open>TypeError\<close> or \<open>ValueError\<close> when the attribute is not a level).
  \<open>logs_directory\<close> tells whether \<open>Path("logs").mkdir(exist_ok=True)\<close> succeeds, and
  \<open>log_file\<close> whether \<open>logging.FileHandler\<close> can open the log file: \<open>None\<close> stands for the
  daily file under \<open>logs\<close>, \<open>Some p\<close> for the path \<open>p\<close> given with \<open>--output\<close>.
\<close>

record environment =
  logging_attribute :: "string \<Rightarrow> py_error + nat"
  logs_directory :: bool
  log_file :: "string option \<Rightarrow> bool"

definition level_constants :: "(string \<times> nat) list" where
  "level_constants =
     [(''CRITICAL'', 50), (''FATAL'', 50), (''ERROR'', 40), (''WARNING'', 30), (''WARN'', 30),
      (''INFO'', 20), (''DEBUG'', 10), (''NOTSET'', 0)]"

definition logging_level :: "environment \<Rightarrow> string \<Rightarrow> py_error + nat" where
  "logging_level env name =
     (case map_of level_constants name of
        Some n \<Rightarrow> Inr n
      | None \<Rightarrow> logging_attribute env name)"

text \<open>
  \<open>setup_logger\<close>: it sets the level of the logger and of the console handler (the same
  expression, so the second call raises only if the first did), makes the directory
  \<open>logs\<close> when no path is given, and opens the log file. It returns the level of the logger;
  it logs nothing and sends nothing.
\<close>

definition setup_logger :: "settings \<Rightarrow> environment \<Rightarrow> string option \<Rightarrow> bool \<Rightarrow> py_error + nat" where
  "setup_logger cfg env output_path verbose =
     (case (if verbose then Inr 10 else logging_level env (log_level cfg)) of
        Inl e \<Rightarrow> Inl e
      | Inr lvl \<Rightarrow>
          if output_path = None \<or> output_path = Some [] then
            (if \<not> logs_directory env then Inl OSError
             else if \<not> log_file env None then Inl OSError
             else Inr lvl)
          else if \<not> log_file env output_path then Inl OSError
          else Inr lvl)"

text \<open>
  \<open>create_standard\<close> sets up the logger and the client before its \<open>try\<close>: an exception of
  \<open>setup_logger\<close> leaves \<open>create_standard\<close> with nothing logged. The level of the logger
  decides which of the records handed to it its handlers write; \<open>logged\<close> holds every
  record, with the level of the call. After the setup \<open>create_standard\<close> ends by
  returning or by \<open>sys.exit(1)\<close> from its handler. \<open>main\<close> turns the ending into the exit
  status of the process: 0 for a command that returns, the code of \<open>sys.exit\<close>, 1 for an
  exception that nothing catches.
\<close>

datatype ending = Returned | SysExit nat | Raised py_error

definition create_standard ::
  "nat \<Rightarrow> settings \<Rightarrow> environment \<Rightarrow> server \<Rightarrow> string \<Rightarrow> bool \<Rightarrow> bool \<Rightarrow> string option \<Rightarrow>
   state \<Rightarrow> ending option \<times> state" where
  "create_standard fuel cfg env srv project_name dry_run verbose output st =
     (case setup_logger cfg env output verbose of
        Inl e \<Rightarrow> (Some (Raised e), st)
      | Inr logger_level \<Rightarrow>
          (let api = CodacyAPI cfg
           in case workflow fuel api srv project_name dry_run st of
                (None, st1) \<Rightarrow> (None, st1)
              | (Some (Inr u), st1) \<Rightarrow> (Some Returned, st1)
              | (Some (Inl e), st1) \<Rightarrow>
                  (Some (SysExit 1), emit ERROR (FailedToCreate e) st1)))"

definition main ::
  "nat \<Rightarrow> settings \<Rightarrow> environment \<Rightarrow> server \<Rightarrow> string \<Rightarrow> bool \<Rightarrow> bool \<Rightarrow> string option \<Rightarrow>
   state \<Rightarrow> nat option \<times> state" where
  "main fuel cfg env srv project_name dry_run verbose output st =
     (case create_standard fuel cfg env srv project_name dry_run verbose output st of
        (None, st1) \<Rightarrow> (None, st1)
      | (Some Returned, st1) \<Rightarrow> (Some 0, st1)
      | (Some (SysExit code), st1) \<Rightarrow> (Some code, st1)
      | (Some (Raised e), st1) \<Rightarrow> (Some 1, st1))"

section \<open>Derived notions used in the statements\<close>

text \<open>The initial state: nothing sent, nothing logged.\<close>

definition st0 :: state where
  "st0 = \<lparr>sent = [], logged = [], slept = 0\<rparr>"

text \<open>
  What the first loop of \<open>process_patterns\<close> does with one pattern, read off
  \<open>pattern_id_severity\<close>: whether it can be read without an exception, whether it is
  selected, the entry it adds to \<open>patterns_to_update\<close>, and the line a dry run logs.
\<close>

definition readable :: "json \<Rightarrow> bool" where
  "readable pattern = (case pattern_id_severity pattern of Inl e \<Rightarrow> False | Inr r \<Rightarrow> True)"

definition is_selected :: "json \<Rightarrow> bool" where
  "is_selected pattern =
     (case pattern_id_severity pattern of
        Inl e \<Rightarrow> False
      | Inr (pattern_id, severity) \<Rightarrow> severity = ''info'' \<or> severity = ''minor'')"

definition disable_entry :: "json \<Rightarrow> json" where
  "disable_entry pattern =
     JObj [(''id'', case pattern_id_severity pattern of
                      Inl e \<Rightarrow> JNull
                    | Inr (pattern_id, severity) \<Rightarrow> pattern_id),
           (''enabled'', JBool False)]"

definition would_disable :: "json \<Rightarrow> level \<times> log_msg" where
  "would_disable pattern =
     (case pattern_id_severity pattern of
        Inl e \<Rightarrow> (INFO, WouldDisablePattern JNull [])
      | Inr (pattern_id, severity) \<Rightarrow> (INFO, WouldDisablePattern pattern_id severity))"

text \<open>
  The request that \<open>_make_request\<close> hands to \<open>requests.request\<close>, and the requests of
  \<open>enable_tool\<close> and \<open>update_patterns\<close> (the same \<open>PATCH\<close>, with the patterns given).
\<close>

definition built_request ::
  "codacy_api \<Rightarrow> string \<Rightarrow> fstring \<Rightarrow> json option \<Rightarrow> string option \<Rightarrow>
   (string \<times> json) list option \<Rightarrow> request" where
  "built_request api meth endpoint js dat ps =
     \<lparr>http_method = meth, url = [Lit (base_url api), Lit ''/''] @ lstrip_slash endpoint,
      headers = api_headers api, json_body = js, data = dat, params = ps\<rparr>"

text \<open>
  An outcome that \<open>_make_request\<close> returns from: a response outside the error codes
  whose body is empty or decodes. Its decoded body is what \<open>_make_request\<close> returns.
\<close>

fun accepted :: "http_outcome \<Rightarrow> bool" where
  "accepted TransportFailure = False"
| "accepted (HttpResponse code b) = (\<not> is_error_status code \<and> b \<noteq> Undecodable)"

fun decoded :: "http_outcome \<Rightarrow> json" where
  "decoded (HttpResponse code (Json j)) = j"
| "decoded _ = JObj []"

definition tool_endpoint :: "codacy_api \<Rightarrow> json \<Rightarrow> json \<Rightarrow> fstring" where
  "tool_endpoint api standard_id tool_uuid =
     [Lit ''api/v3/organizations/'', Lit (api_provider api), Lit ''/'',
      Lit (api_org_name api), Lit ''/coding-standards/'', Fmt standard_id,
      Lit ''/tools/'', Fmt tool_uuid]"

definition patch_tool_request :: "codacy_api \<Rightarrow> json \<Rightarrow> json \<Rightarrow> json list \<Rightarrow> request" where
  "patch_tool_request api standard_id tool_uuid patterns =
     built_request api ''PATCH'' (tool_endpoint api standard_id tool_uuid)
       (Some (JObj [(''enabled'', JBool True), (''patterns'', JArr patterns)])) None None"

text \<open>The slices \<open>patterns_to_update[i:i + 500]\<close> that the second loop of \<open>process_patterns\<close> takes.\<close>

definition batches :: "json list \<Rightarrow> json list list" where
  "batches patterns_to_update =
     map (\<lambda>i. take 500 (drop i patterns_to_update)) (py_range 0 (length patterns_to_update) 500)"

text \<open>The request of one pass of the loop of \<open>get_patterns\<close>, for the cursor it holds.\<close>

definition patterns_request :: "codacy_api \<Rightarrow> json \<Rightarrow> json \<Rightarrow> json \<Rightarrow> json \<Rightarrow> request" where
  "patterns_request api standard_id tool_uuid limit cursor =
     built_request api ''GET''
       (tool_endpoint api standard_id tool_uuid @ [Lit ''/patterns'']) None None
       (Some ([(''limit'', limit)] @ (if truthy cursor then [(''cursor'', cursor)] else [])))"

text \<open>
  A paginated response, as the interface describes it: a response that
  \<open>_make_request\<close> accepts, whose body is an object with the array \<open>data\<close> (no \<open>data\<close>
  counts as the empty array) and the block \<open>pagination\<close>, which may hold a \<open>cursor\<close>
  (no block counts as a block without cursor). \<open>page_of\<close> gives its items and its cursor.
\<close>

definition page_of :: "http_outcome \<Rightarrow> (json list \<times> json option) option" where
  "page_of out =
     (if accepted out then
        (case decoded out of
           JObj kvs \<Rightarrow>
             (case (case map_of kvs ''data'' of
                      None \<Rightarrow> Some []
                    | Some (JArr xs) \<Rightarrow> Some xs
                    | Some other \<Rightarrow> None) of
                None \<Rightarrow> None
              | Some xs \<Rightarrow>
                  (case map_of kvs ''pagination'' of
                     None \<Rightarrow> Some (xs, None)
                   | Some (JObj pg) \<Rightarrow> Some (xs, map_of pg ''cursor'')
                   | Some other \<Rightarrow> None))
         | other \<Rightarrow> None)
      else None)"

text \<open>The state after one pass of the loop that was answered by a page.\<close>

definition sent_page :: "codacy_api \<Rightarrow> json \<Rightarrow> json \<Rightarrow> json \<Rightarrow> json \<Rightarrow> state \<Rightarrow> state" where
  "sent_page api standard_id tool_uuid limit cursor st =
     st\<lparr>sent := sent st @ [patterns_request api standard_id tool_uuid limit cursor],
        logged := logged st @
          [(DEBUG, MakingRequest ''GET'' (url (patterns_request api standard_id tool_uuid limit cursor)))]\<rparr>"


text \<open>Example inputs for the concrete runs below.\<close>

definition example_settings :: settings where
  "example_settings =
     \<lparr>api_token = ''secret'', org_name = ''acme'', provider = ''gh'',
      api_url = ''https://app.codacy.com'', log_level = ''INFO''\<rparr>"

text \<open>
  An environment in which the logger can be set up: the directory and every log file can
  be opened; the lower-case names of the logging functions are attributes that are not
  levels, and no other name is an attribute of the module.
\<close>

definition example_environment :: environment where
  "example_environment =
     \<lparr>logging_attribute =
        (\<lambda>name. if name \<in> set [''debug'', ''info'', ''warning'', ''error'', ''critical'']
                then Inl TypeError else Inl AttributeError),
      logs_directory = True,
      log_file = (\<lambda>path. True)\<rparr>"

definition example_pattern :: "string \<Rightarrow> string \<Rightarrow> json" where
  "example_pattern i s =
     JObj [(''patternDefinition'', JObj [(''id'', JStr i), (''severityLevel'', JStr s)])]"

definition page_response :: "json list \<Rightarrow> json option \<Rightarrow> http_outcome" where
  "page_response xs c =
     HttpResponse 200
       (Json (JObj [(''data'', JArr xs),
                    (''pagination'', JObj (case c of None \<Rightarrow> [] | Some v \<Rightarrow> [(''cursor'', v)]))]))"

definition two_pages :: server where
  "two_pages k =
     (if k = 0 then page_response [example_pattern ''a'' ''Minor'', example_pattern ''b'' ''major'']
                      (Some (JStr ''c1''))
      else page_response [example_pattern ''c'' ''info''] None)"

definition empty_cursor_forever :: server where
  "empty_cursor_forever k = page_response [] (Some (JStr []))"

definition many_minor_patterns :: server where
  "many_minor_patterns k =
     (if k = 0 then page_response (replicate 1200 (example_pattern ''p'' ''minor'')) None
      else HttpResponse 200 Empty)"

text \<open>The requests of the other operations of the client.\<close>

definition standards_endpoint :: "codacy_api \<Rightarrow> fstring" where
  "standards_endpoint api =
     [Lit ''api/v3/organizations/'', Lit (api_provider api), Lit ''/'',
      Lit (api_org_name api), Lit ''/coding-standards'']"

definition create_request :: "codacy_api \<Rightarrow> string \<Rightarrow> request" where
  "create_request api name =
     built_request api ''POST'' (standards_endpoint api)
       (Some (JObj [(''name'', JStr name), (''languages'', JArr (map JStr languages))])) None None"

definition standards_request :: "codacy_api \<Rightarrow> request" where
  "standards_request api = built_request api ''GET'' (standards_endpoint api) None None None"

definition tools_request :: "codacy_api \<Rightarrow> request" where
  "tools_request api = built_request api ''GET'' [Lit ''api/v3/tools''] None None None"

definition standard_endpoint :: "codacy_api \<Rightarrow> json \<Rightarrow> string \<Rightarrow> fstring" where
  "standard_endpoint api standard_id action =
     [Lit ''api/v3/organizations/'', Lit (api_provider api), Lit ''/'',
      Lit (api_org_name api), Lit ''/coding-standards/'', Fmt standard_id, Lit action]"

definition promote_request :: "codacy_api \<Rightarrow> json \<Rightarrow> request" where
  "promote_request api standard_id =
     built_request api ''POST'' (standard_endpoint api standard_id ''/promote'') None None None"

definition set_default_request :: "codacy_api \<Rightarrow> json \<Rightarrow> request" where
  "set_default_request api standard_id =
     built_request api ''POST'' (standard_endpoint api standard_id ''/setDefault'')
       (Some (JObj [(''isDefault'', JBool True)])) None None"

text \<open>
  \<open>extends Q P st st'\<close>: the state \<open>st'\<close> is \<open>st\<close> with more requests sent, all of them
  satisfying \<open>Q\<close>, and more lines logged, all of them satisfying \<open>P\<close>.
\<close>

definition extends ::
  "(request \<Rightarrow> bool) \<Rightarrow> (level \<times> log_msg \<Rightarrow> bool) \<Rightarrow> state \<Rightarrow> state \<Rightarrow> bool" where
  "extends Q P st st' =
     (take (length (sent st)) (sent st') = sent st \<and>
      list_all Q (drop (length (sent st)) (sent st')) \<and>
      take (length (logged st)) (logged st') = logged st \<and>
      list_all P (drop (length (logged st)) (logged st')))"

text \<open>The lines that the API client logs itself.\<close>

fun is_api_line :: "log_msg \<Rightarrow> bool" where
  "is_api_line (MakingRequest m u) = True"
| "is_api_line (ApiRequestFailed e) = True"
| "is_api_line (ResponseLine j) = True"
| "is_api_line other = False"

text \<open>The lines that \<open>process_patterns\<close> can log, in a dry run and otherwise.\<close>

fun is_pattern_line :: "bool \<Rightarrow> log_msg \<Rightarrow> bool" where
  "is_pattern_line dry_run (WouldDisablePattern i s) = dry_run"
| "is_pattern_line dry_run (DisabledPatterns n) = (\<not> dry_run)"
| "is_pattern_line dry_run other = is_api_line other"

text \<open>A request that changes nothing on the service: a \<open>GET\<close> without a body.\<close>

definition read_only :: "request \<Rightarrow> bool" where
  "read_only rq = (http_method rq = ''GET'' \<and> json_body rq = None \<and> data rq = None)"


text \<open>
  The line that opens the pass of the tool loop for a tool that is an object
  (\<open>Skipping tool\<close> or \<open>Processing tool\<close>), and the lines that can follow it in that pass.
\<close>

fun is_tool_start :: "log_msg \<Rightarrow> bool" where
  "is_tool_start (SkippingTool t) = True"
| "is_tool_start (ProcessingTool n) = True"
| "is_tool_start other = False"

fun is_tool_line :: "bool \<Rightarrow> log_msg \<Rightarrow> bool" where
  "is_tool_line dry_run (EnabledTool n) = (\<not> dry_run)"
| "is_tool_line dry_run (WouldEnableTool n) = dry_run"
| "is_tool_line dry_run other = is_pattern_line dry_run other"

fun is_loop_line :: "bool \<Rightarrow> log_msg \<Rightarrow> bool" where
  "is_loop_line dry_run (ErrorProcessingTool n e) = True"
| "is_loop_line dry_run (SkippingTool t) = True"
| "is_loop_line dry_run (ProcessingTool n) = True"
| "is_loop_line dry_run other = is_tool_line dry_run other"

fun tool_start_lines :: "json \<Rightarrow> (level \<times> log_msg) list" where
  "tool_start_lines (JObj kvs) =
     (let tool_uuid = (case map_of kvs ''uuid'' of None \<Rightarrow> JNull | Some v \<Rightarrow> v);
          tool_name = (case map_of kvs ''name'' of None \<Rightarrow> JNull | Some v \<Rightarrow> v)
      in if \<not> truthy tool_uuid \<or> \<not> truthy tool_name then [(WARNING, SkippingTool (JObj kvs))]
         else [(INFO, ProcessingTool tool_name)])"
| "tool_start_lines other = []"

fun is_dict :: "json \<Rightarrow> bool" where
  "is_dict (JObj kvs) = True"
| "is_dict other = False"

text \<open>
  The lines a run can log after the two lines about the creation of the standard,
  and the requests a run may send: a dry run only reads.
\<close>

fun is_run_line :: "bool \<Rightarrow> log_msg \<Rightarrow> bool" where
  "is_run_line dry_run FetchingTools = True"
| "is_run_line dry_run NoToolsFound = True"
| "is_run_line dry_run PromotingStandard = (\<not> dry_run)"
| "is_run_line dry_run SettingDefault = (\<not> dry_run)"
| "is_run_line dry_run ConfiguredStandard = True"
| "is_run_line dry_run (FailedToCreate e) = True"
| "is_run_line dry_run other = is_loop_line dry_run other"

definition may_send :: "bool \<Rightarrow> request \<Rightarrow> bool" where
  "may_send dry_run rq = (dry_run \<longrightarrow> read_only rq)"

text \<open>A service that answers from a script, and refuses the connection when the script is over.\<close>

definition scripted :: "http_outcome list \<Rightarrow> server" where
  "scripted outs k = (if k < length outs then outs ! k else TransportFailure)"

definition example_tool :: "string \<Rightarrow> string \<Rightarrow> json" where
  "example_tool u n = JObj [(''uuid'', JStr u), (''name'', JStr n)]"

definition created_response :: http_outcome where
  "created_response = HttpResponse 201 (Json (JObj [(''data'', JObj [(''id'', JStr ''s1'')])]))"

definition tools_response :: "json list \<Rightarrow> http_outcome" where
  "tools_response tools = HttpResponse 200 (Json (JObj [(''data'', JArr tools)]))"

definition server_error :: http_outcome where
  "server_error = HttpResponse 500 (Json (JObj [(''error'', JStr ''boom'')]))"

text \<open>
  Three tools without patterns; the service answers the \<open>enable_tool\<close> call for the
  second tool with status 500.
\<close>

definition second_enable_fails :: server where
  "second_enable_fails =
     scripted [created_response,
               tools_response [example_tool ''u1'' ''T1'', example_tool ''u2'' ''T2'',
                               example_tool ''u3'' ''T3''],
               HttpResponse 200 Empty, page_response [] None,
               server_error,
               HttpResponse 200 Empty, page_response [] None,
               HttpResponse 200 Empty, HttpResponse 200 Empty]"


text \<open>The same, seen from the tool loop alone (the first request is the first \<open>enable_tool\<close>).\<close>

definition second_tool_refused :: server where
  "second_tool_refused =
     scripted [HttpResponse 200 Empty, page_response [] None,
               server_error,
               HttpResponse 200 Empty, page_response [] None]"

text \<open>The messages logged at level \<open>ERROR\<close>, in order.\<close>

fun error_lines :: "(level \<times> log_msg) list \<Rightarrow> log_msg list" where
  "error_lines [] = []"
| "error_lines ((l, m) # rest) = (if l = ERROR then m # error_lines rest else error_lines rest)"

text \<open>An empty tool catalog, for a dry run and for a real run.\<close>

definition empty_catalog_dry :: server where
  "empty_catalog_dry = scripted [tools_response []]"

definition empty_catalog :: server where
  "empty_catalog = scripted [created_response, tools_response []]"


text \<open>
  A catalog with one tool without patterns, for a real run and for a dry run, and a
  catalog with one tool with two pages of patterns for a dry run.
\<close>

definition one_tool :: server where
  "one_tool =
     scripted [created_response, tools_response [example_tool ''u1'' ''T1''],
               HttpResponse 200 Empty, page_response [] None,
               HttpResponse 200 Empty, HttpResponse 200 Empty]"

definition one_tool_dry :: server where
  "one_tool_dry = scripted [tools_response [example_tool ''u1'' ''T1''], page_response [] None]"

definition one_tool_two_pages_dry :: server where
  "one_tool_two_pages_dry =
     scripted [tools_response [example_tool ''u1'' ''T1''],
               page_response [example_pattern ''a'' ''Minor'', example_pattern ''b'' ''major'']
                 (Some (JStr ''c1'')),
               page_response [example_pattern ''c'' ''info''] None]"

text \<open>The messages of the lines marked \<open>[DRY RUN]\<close>, in order.\<close>

fun dry_run_lines :: "(level \<times> log_msg) list \<Rightarrow> log_msg list" where
  "dry_run_lines [] = []"
| "dry_run_lines ((l, WouldCreateStandard) # rest) = WouldCreateStandard # dry_run_lines rest"
| "dry_run_lines ((l, WouldEnableTool n) # rest) = WouldEnableTool n # dry_run_lines rest"
| "dry_run_lines ((l, WouldDisablePattern i s) # rest) = WouldDisablePattern i s # dry_run_lines rest"
| "dry_run_lines ((l, other) # rest) = dry_run_lines rest"

text \<open>
  Runs that fail: the creation is refused, the created standard has no id, the catalog
  is refused, the promotion is refused.
\<close>

definition create_refused :: server where
  "create_refused = scripted [server_error]"

definition created_without_id :: server where
  "created_without_id = scripted [HttpResponse 201 (Json (JObj [(''data'', JObj [])]))]"

definition catalog_refused :: server where
  "catalog_refused = scripted [created_response, server_error]"

definition promote_refused :: server where
  "promote_refused =
     scripted [created_response, tools_response [example_tool ''u1'' ''T1''],
               HttpResponse 200 Empty, page_response [] None,
               server_error]"

text \<open>
  The prefix of the path of an operation on the organization:
  \<open>api/v3/organizations/{provider}/{org_name}\<close>, after the base URL.
\<close>

definition organization_prefix :: "codacy_api \<Rightarrow> fstring" where
  "organization_prefix api =
     [Lit (base_url api), Lit ''/'', Lit ''api/v3/organizations/'', Lit (api_provider api),
      Lit ''/'', Lit (api_org_name api)]"

text \<open>Services with a single answer: a redirect status without body, no connection.\<close>

definition not_modified :: server where
  "not_modified = scripted [HttpResponse 304 Empty]"

definition unreachable :: server where
  "unreachable = scripted [TransportFailure]"

text \<open>
  An outcome on which a pass of the loop of \<open>get_patterns\<close> goes on to another request:
  the request is accepted, \<open>data\<close> can be iterated and \<open>pagination\<close> holds a \<open>cursor\<close>.
  On every other outcome the pass returns or raises.
\<close>

definition continues :: "http_outcome \<Rightarrow> bool" where
  "continues out =
     (accepted out \<and>
      (case py_get (decoded out) ''data'' (JArr []) of
         Inl e \<Rightarrow> False
       | Inr d \<Rightarrow>
           (case py_iter d of
              Inl e \<Rightarrow> False
            | Inr items \<Rightarrow>
                (case py_get (decoded out) ''pagination'' (JObj []) of
                   Inl e \<Rightarrow> False
                 | Inr pagination \<Rightarrow>
                     (case py_in ''cursor'' pagination of
                        Inl e \<Rightarrow> False
                      | Inr has_next_page \<Rightarrow>
                          has_next_page \<and>
                          (case py_getitem pagination ''cursor'' of
                             Inl e \<Rightarrow> False
                           | Inr c \<Rightarrow> True))))))"

text \<open>
  Every pagination ends within the fuel: wherever a run of requests starts, one of its
  first \<open>fuel\<close> outcomes does not continue the loop.
\<close>

definition pagination_ends :: "nat \<Rightarrow> server \<Rightarrow> bool" where
  "pagination_ends fuel srv = (\<forall>k. \<exists>j<fuel. \<not> continues (srv (k + j)))"

text \<open>
  What \<open>_make_request\<close> does with an outcome it does not accept: the exception it raises
  and the messages it logs at level \<open>ERROR\<close> before that.
\<close>

fun refusal :: "http_outcome \<Rightarrow> py_error \<times> log_msg list" where
  "refusal TransportFailure = (ConnectionError, [ApiRequestFailed ConnectionError])"
| "refusal (HttpResponse code (Json j)) =
     (if is_error_status code
      then (HTTPError code (Json j), [ApiRequestFailed (HTTPError code (Json j)), ResponseLine j])
      else (JSONDecodeError, [ApiRequestFailed JSONDecodeError]))"
| "refusal (HttpResponse code b) =
     (if is_error_status code
      then (JSONDecodeError, [ApiRequestFailed (HTTPError code b)])
      else (JSONDecodeError, [ApiRequestFailed JSONDecodeError]))"

text \<open>
  The fields of a tool of the catalog as a pass of the tool loop reads them
  (\<open>tool.get(key)\<close>), and a tool that the loop does not skip.
\<close>

fun tool_field :: "json \<Rightarrow> string \<Rightarrow> json" where
  "tool_field (JObj kvs) key = (case map_of kvs key of None \<Rightarrow> JNull | Some v \<Rightarrow> v)"
| "tool_field other key = JNull"

definition complete :: "json \<Rightarrow> bool" where
  "complete tool =
     (is_dict tool \<and> truthy (tool_field tool ''uuid'') \<and> truthy (tool_field tool ''name''))"

text \<open>
  The lines of the tool loop itself: the line that opens the pass of a tool and the line
  with which the handler of the loop reports an exception. For one tool they are the
  opening line and, when the pass raised \<open>e\<close>, the line of the handler.
\<close>

fun is_loop_mark :: "log_msg \<Rightarrow> bool" where
  "is_loop_mark (ErrorProcessingTool n e) = True"
| "is_loop_mark (SkippingTool t) = True"
| "is_loop_mark (ProcessingTool n) = True"
| "is_loop_mark other = False"

fun loop_lines :: "json \<times> py_error option \<Rightarrow> (level \<times> log_msg) list" where
  "loop_lines (tool, None) = tool_start_lines tool"
| "loop_lines (tool, Some e) =
     tool_start_lines tool @ [(ERROR, ErrorProcessingTool (tool_field tool ''name'') e)]"

text \<open>
  The pages of patterns that the service hands out for one tool, each with its items and
  its cursor: a last page without cursor after pages with one. \<open>serves srv k ps\<close>: the
  outcomes of the requests from the \<open>k\<close>-th on are the pages \<open>ps\<close>; \<open>page_requests\<close>: the
  requests that fetch them, the first without cursor and each later one with the cursor of
  the page before.
\<close>

type_synonym page = "json list \<times> json option"

definition well_paged :: "page list \<Rightarrow> bool" where
  "well_paged ps = (ps \<noteq> [] \<and> snd (last ps) = None \<and> list_all (\<lambda>p. snd p \<noteq> None) (butlast ps))"

definition serves :: "server \<Rightarrow> nat \<Rightarrow> page list \<Rightarrow> bool" where
  "serves srv k ps = list_all (\<lambda>j. page_of (srv (k + j)) = Some (ps ! j)) [0..<length ps]"

definition page_requests :: "codacy_api \<Rightarrow> json \<Rightarrow> json \<Rightarrow> page list \<Rightarrow> request list" where
  "page_requests api standard_id tool_uuid ps =
     map (\<lambda>j. patterns_request api standard_id tool_uuid (JNum 100)
                (case j of 0 \<Rightarrow> JStr [] | Suc i \<Rightarrow> the (snd (ps ! i))))
       [0..<length ps]"

text \<open>
  A catalog of tools that are objects, each with the pages of its patterns, served one
  tool after the other from the \<open>k\<close>-th request on: a complete tool has its pages, with
  patterns that can be read and no more pages than the fuel; a tool that the loop skips
  has none. Then what a dry run sends and logs in the pass of one tool.
\<close>

fun dry_served :: "nat \<Rightarrow> server \<Rightarrow> nat \<Rightarrow> (json \<times> page list) list \<Rightarrow> bool" where
  "dry_served fuel srv k [] = True"
| "dry_served fuel srv k ((tool, ps) # rest) =
     (is_dict tool \<and>
      (if complete tool
       then well_paged ps \<and> length ps \<le> fuel \<and> serves srv k ps \<and>
            list_all readable (concat (map fst ps))
       else ps = []) \<and>
      dry_served fuel srv (k + length ps) rest)"

fun dry_requests :: "codacy_api \<Rightarrow> json \<times> page list \<Rightarrow> request list" where
  "dry_requests api (tool, ps) =
     page_requests api (JStr ''dry-run-id'') (tool_field tool ''uuid'') ps"

fun dry_pass_lines :: "codacy_api \<Rightarrow> json \<times> page list \<Rightarrow> (level \<times> log_msg) list" where
  "dry_pass_lines api (tool, ps) =
     (if complete tool then
        [(INFO, ProcessingTool (tool_field tool ''name'')),
         (INFO, WouldEnableTool (tool_field tool ''name''))] @
        replicate (length ps)
          (DEBUG, MakingRequest ''GET''
             (url (patterns_request api (JStr ''dry-run-id'') (tool_field tool ''uuid'')
                     (JNum 100) (JStr [])))) @
        map would_disable (filter is_selected (concat (map fst ps)))
      else [(WARNING, SkippingTool tool)])"

text \<open>
  Settings with the log level written in lower case (\<open>LOG_LEVEL=info\<close>), and an
  environment in which no log file can be opened.
\<close>

definition lower_case_level :: settings where
  "lower_case_level = example_settings\<lparr>log_level := ''info''\<rparr>"

definition unwritable_logs :: environment where
  "unwritable_logs = example_environment\<lparr>log_file := (\<lambda>path. False)\<rparr>"

section \<open>Properties\<close>

subsection \<open>Selecting patterns\<close>

lemma select_patterns_readable:
  "list_all readable ps \<Longrightarrow>
   select_patterns dry_run ps acc st =
     (Inr (acc @ map disable_entry (filter is_selected ps)),
      st\<lparr>logged := logged st @ (if dry_run then map would_disable (filter is_selected ps) else [])\<rparr>)"
proof (induction ps arbitrary: acc st)
  case Nil
  then show ?case by simp
next
  case (Cons p ps)
  from Cons.prems obtain i s where ps: "pattern_id_severity p = Inr (i, s)"
    by (auto simp: readable_def split: sum.splits)
  from Cons.prems have rest: "list_all readable ps" by simp
  show ?case
    using ps Cons.IH [OF rest]
    by (simp add: is_selected_def disable_entry_def would_disable_def emit_def)
qed

lemma lower_char_idem: "lower_char (lower_char c) = lower_char c"
proof (cases "(65::nat) \<le> of_char c \<and> (of_char c :: nat) \<le> 90")
  case True
  then have "(of_char (lower_char c) :: nat) = of_char c + 32"
    by (simp add: lower_char_def)
  with True show ?thesis by (simp add: lower_char_def)
next
  case False
  then show ?thesis by (auto simp: lower_char_def)
qed

lemma map_lower_char_idem: "map lower_char (map lower_char s) = map lower_char s"
  by (induction s) (simp_all add: lower_char_idem)

lemma pattern_id_severity_shape:
  "map_of kvs ''patternDefinition'' = Some (JObj d) \<Longrightarrow> map_of d ''severityLevel'' = Some (JStr s) \<Longrightarrow>
   pattern_id_severity (JObj kvs) =
     Inr (case map_of d ''id'' of None \<Rightarrow> JNull | Some v \<Rightarrow> v, map lower_char s)"
  by (simp add: pattern_id_severity_def)

lemma is_selected_shape:
  "map_of kvs ''patternDefinition'' = Some (JObj d) \<Longrightarrow> map_of d ''severityLevel'' = Some (JStr s) \<Longrightarrow>
   is_selected (JObj kvs) \<longleftrightarrow> map lower_char s = ''info'' \<or> map lower_char s = ''minor''"
  by (simp add: is_selected_def pattern_id_severity_shape)

lemma readable_filter: "list_all readable ps \<Longrightarrow> list_all readable (filter P ps)"
  by (induction ps) auto

text \<open>
  Claim C3. The severity filter of \<open>process_patterns\<close> is case-insensitive and idempotent.
  On patterns that can be read, the loop returns the entries of exactly the selected
  patterns, in order, and running it on the selected patterns alone gives the same result
  and the same state. A pattern with a string severity is selected if and only if its
  lower-cased severity is \<open>info\<close> or \<open>minor\<close>, and lower-casing the severity first never
  changes that. \<open>Minor\<close>, \<open>minor\<close> and \<open>MINOR\<close> are selected; \<open>major\<close> and \<open>critical\<close>
  are not.
\<close>

theorem severity_filter_case_insensitive_idempotent:
  "list_all readable ps \<Longrightarrow>
   fst (select_patterns dry_run ps [] st) = Inr (map disable_entry (filter is_selected ps)) \<and>
   select_patterns dry_run (filter is_selected ps) [] st = select_patterns dry_run ps [] st \<and>
   (\<forall>kvs d s. map_of kvs ''patternDefinition'' = Some (JObj d) \<and>
        map_of d ''severityLevel'' = Some (JStr s) \<longrightarrow>
        (is_selected (JObj kvs) \<longleftrightarrow> map lower_char s = ''info'' \<or> map lower_char s = ''minor'') \<and>
        (is_selected (JObj kvs) \<longleftrightarrow>
           is_selected (JObj [(''patternDefinition'',
                               JObj [(''severityLevel'', JStr (map lower_char s))])]))) \<and>
   (\<forall>i. is_selected (JObj [(''patternDefinition'', JObj [(''id'', i), (''severityLevel'', JStr ''Minor'')])]) \<and>
        is_selected (JObj [(''patternDefinition'', JObj [(''id'', i), (''severityLevel'', JStr ''minor'')])]) \<and>
        is_selected (JObj [(''patternDefinition'', JObj [(''id'', i), (''severityLevel'', JStr ''MINOR'')])]) \<and>
        \<not> is_selected (JObj [(''patternDefinition'', JObj [(''id'', i), (''severityLevel'', JStr ''major'')])]) \<and>
        \<not> is_selected (JObj [(''patternDefinition'', JObj [(''id'', i), (''severityLevel'', JStr ''critical'')])]))"
proof (intro conjI allI impI)
  assume r: "list_all readable ps"
  show "fst (select_patterns dry_run ps [] st) = Inr (map disable_entry (filter is_selected ps))"
    by (simp add: select_patterns_readable [OF r])
  show "select_patterns dry_run (filter is_selected ps) [] st = select_patterns dry_run ps [] st"
    by (simp add: select_patterns_readable [OF r] select_patterns_readable [OF readable_filter [OF r]])
next
  fix kvs d s
  assume h: "map_of kvs ''patternDefinition'' = Some (JObj d) \<and> map_of d ''severityLevel'' = Some (JStr s)"
  then show "is_selected (JObj kvs) \<longleftrightarrow> map lower_char s = ''info'' \<or> map lower_char s = ''minor''"
    by (simp add: is_selected_shape)
  have "is_selected (JObj [(''patternDefinition'', JObj [(''severityLevel'', JStr (map lower_char s))])])
          \<longleftrightarrow> map lower_char s = ''info'' \<or> map lower_char s = ''minor''"
    by (simp add: is_selected_def pattern_id_severity_def map_lower_char_idem del: map_map)
  with h show "is_selected (JObj kvs) \<longleftrightarrow>
      is_selected (JObj [(''patternDefinition'', JObj [(''severityLevel'', JStr (map lower_char s))])])"
    by (simp add: is_selected_shape)
next
  fix i
  show "is_selected (JObj [(''patternDefinition'', JObj [(''id'', i), (''severityLevel'', JStr ''Minor'')])])"
    by (simp add: is_selected_def pattern_id_severity_def lower_char_def char_of_eq_iff)
  show "is_selected (JObj [(''patternDefinition'', JObj [(''id'', i), (''severityLevel'', JStr ''minor'')])])"
    by (simp add: is_selected_def pattern_id_severity_def lower_char_def char_of_eq_iff)
  show "is_selected (JObj [(''patternDefinition'', JObj [(''id'', i), (''severityLevel'', JStr ''MINOR'')])])"
    by (simp add: is_selected_def pattern_id_severity_def lower_char_def char_of_eq_iff)
  show "\<not> is_selected (JObj [(''patternDefinition'', JObj [(''id'', i), (''severityLevel'', JStr ''major'')])])"
    by (simp add: is_selected_def pattern_id_severity_def lower_char_def char_of_eq_iff)
  show "\<not> is_selected (JObj [(''patternDefinition'', JObj [(''id'', i), (''severityLevel'', JStr ''critical'')])])"
    by (simp add: is_selected_def pattern_id_severity_def lower_char_def char_of_eq_iff)
qed

theorem severity_filter_witness:
  "list_all readable
     [JObj [(''patternDefinition'', JObj [(''id'', JStr ''a''), (''severityLevel'', JStr ''Minor'')])],
      JObj [(''patternDefinition'', JObj [(''id'', JStr ''b''), (''severityLevel'', JStr ''major'')])],
      JObj [(''patternDefinition'', JObj [(''id'', JStr ''c''), (''severityLevel'', JStr ''INFO'')])]] \<and>
   fst (select_patterns False
     [JObj [(''patternDefinition'', JObj [(''id'', JStr ''a''), (''severityLevel'', JStr ''Minor'')])],
      JObj [(''patternDefinition'', JObj [(''id'', JStr ''b''), (''severityLevel'', JStr ''major'')])],
      JObj [(''patternDefinition'', JObj [(''id'', JStr ''c''), (''severityLevel'', JStr ''INFO'')])]] [] st0) =
   Inr [JObj [(''id'', JStr ''a''), (''enabled'', JBool False)],
        JObj [(''id'', JStr ''c''), (''enabled'', JBool False)]]"
proof -
  let ?ps = "[JObj [(''patternDefinition'', JObj [(''id'', JStr ''a''), (''severityLevel'', JStr ''Minor'')])],
      JObj [(''patternDefinition'', JObj [(''id'', JStr ''b''), (''severityLevel'', JStr ''major'')])],
      JObj [(''patternDefinition'', JObj [(''id'', JStr ''c''), (''severityLevel'', JStr ''INFO'')])]]"
  have r: "list_all readable ?ps"
    by (simp add: readable_def pattern_id_severity_def)
  show ?thesis
    using r severity_filter_case_insensitive_idempotent [OF r, of False st0]
    by (simp add: is_selected_def disable_entry_def pattern_id_severity_def lower_char_def char_of_eq_iff)
qed

text \<open>
  Claim C10. A pattern without \<open>patternDefinition\<close>, or whose definition has no
  \<open>severityLevel\<close>, has severity \<open>''\<close>: the loop raises nothing, selects nothing and goes
  on with the next pattern. A selected pattern whose definition has no \<open>id\<close> adds the
  entry with \<open>id\<close> \<open>None\<close> and \<open>enabled\<close> \<open>False\<close>.
\<close>

theorem missing_fields_never_selected:
  "(map_of kvs ''patternDefinition'' = None \<longrightarrow>
      pattern_id_severity (JObj kvs) = Inr (JNull, []) \<and>
      select_patterns dry_run (JObj kvs # rest) acc st = select_patterns dry_run rest acc st) \<and>
   (map_of kvs ''patternDefinition'' = Some (JObj d) \<and> map_of d ''severityLevel'' = None \<longrightarrow>
      (\<exists>i. pattern_id_severity (JObj kvs) = Inr (i, [])) \<and>
      select_patterns dry_run (JObj kvs # rest) acc st = select_patterns dry_run rest acc st) \<and>
   (map_of kvs ''patternDefinition'' = Some (JObj d) \<and> map_of d ''id'' = None \<and>
    map_of d ''severityLevel'' = Some (JStr s) \<and>
    (map lower_char s = ''info'' \<or> map lower_char s = ''minor'') \<longrightarrow>
      select_patterns dry_run (JObj kvs # rest) acc st =
        select_patterns dry_run rest (acc @ [JObj [(''id'', JNull), (''enabled'', JBool False)]])
          (if dry_run then emit INFO (WouldDisablePattern JNull (map lower_char s)) st else st))"
  by (auto simp: pattern_id_severity_def)

theorem missing_fields_witness:
  "map_of [(''enabled'', JBool True)] ''patternDefinition'' = None \<and>
   select_patterns False [JObj [(''enabled'', JBool True)]] [] st0 = (Inr [], st0) \<and>
   map_of [(''patternDefinition'', JObj [(''id'', JStr ''x'')])] ''patternDefinition'' = Some (JObj [(''id'', JStr ''x'')]) \<and>
   map_of [(''id'', JStr ''x'')] ''severityLevel'' = None \<and>
   select_patterns False [JObj [(''patternDefinition'', JObj [(''id'', JStr ''x'')])]] [] st0 = (Inr [], st0) \<and>
   select_patterns False [JObj [(''patternDefinition'', JObj [(''severityLevel'', JStr ''Info'')])]] [] st0 =
     (Inr [JObj [(''id'', JNull), (''enabled'', JBool False)]], st0)"
  using missing_fields_never_selected [of "[(''enabled'', JBool True)]" False "[]" "[]" st0 "[]" "[]"]
    missing_fields_never_selected [of "[(''patternDefinition'', JObj [(''id'', JStr ''x'')])]" False "[]" "[]" st0 "[(''id'', JStr ''x'')]" "[]"]
    missing_fields_never_selected [of "[(''patternDefinition'', JObj [(''severityLevel'', JStr ''Info'')])]" False "[]" "[]" st0 "[(''severityLevel'', JStr ''Info'')]" "''Info''"]
  by (simp add: lower_char_def char_of_eq_iff)

subsection \<open>State and the request primitive\<close>

lemma emit_simps [simp]:
  "sent (emit l m st) = sent st"
  "logged (emit l m st) = logged st @ [(l, m)]"
  "slept (emit l m st) = slept st"
  by (simp_all add: emit_def)

lemma sleep_simps [simp]:
  "sent (sleep n st) = sent st"
  "logged (sleep n st) = logged st"
  "slept (sleep n st) = slept st + n"
  by (simp_all add: sleep_def)

lemma make_request_sent:
  "sent (snd (make_request api srv meth endpoint js dat ps st)) =
     sent st @ [built_request api meth endpoint js dat ps]"
  by (simp add: make_request_def requests_request_def built_request_def Let_def
      split: http_outcome.split body.split)

lemma make_request_slept:
  "slept (snd (make_request api srv meth endpoint js dat ps st)) = slept st"
  by (simp add: make_request_def requests_request_def Let_def
      split: http_outcome.split body.split)

lemma make_request_accepted:
  "accepted (srv (length (sent st))) \<Longrightarrow>
   make_request api srv meth endpoint js dat ps st =
     (Inr (decoded (srv (length (sent st)))),
      st\<lparr>sent := sent st @ [built_request api meth endpoint js dat ps],
         logged := logged st @
           [(DEBUG, MakingRequest meth ([Lit (base_url api), Lit ''/''] @ lstrip_slash endpoint))]\<rparr>)"
  by (cases "srv (length (sent st))")
     (auto simp: make_request_def requests_request_def built_request_def Let_def emit_def
      split: body.split)

lemma make_request_rejected:
  "\<not> accepted (srv (length (sent st))) \<Longrightarrow>
   \<exists>e. fst (make_request api srv meth endpoint js dat ps st) = Inl e"
  by (cases "srv (length (sent st))")
     (auto simp: make_request_def requests_request_def Let_def split: body.split)

lemma update_patterns_accepted:
  "accepted (srv (length (sent st))) \<Longrightarrow>
   update_patterns api srv sid uuid pats st =
     (Inr (decoded (srv (length (sent st)))),
      st\<lparr>sent := sent st @ [patch_tool_request api sid uuid pats],
         logged := logged st @
           [(DEBUG, MakingRequest ''PATCH''
               ([Lit (base_url api), Lit ''/''] @ lstrip_slash (tool_endpoint api sid uuid)))],
         slept := slept st + 2\<rparr>)"
  by (simp add: update_patterns_def make_request_accepted patch_tool_request_def
      tool_endpoint_def sleep_def Let_def)

lemma update_batches_accepted:
  "(\<forall>k < length starts. accepted (srv (length (sent st) + k))) \<Longrightarrow>
   fst (update_batches api srv sid uuid ptu starts st) = Inr () \<and>
   sent (snd (update_batches api srv sid uuid ptu starts st)) =
     sent st @ map (\<lambda>i. patch_tool_request api sid uuid (take 500 (drop i ptu))) starts \<and>
   map snd (filter (\<lambda>(l, m). l = INFO) (logged (snd (update_batches api srv sid uuid ptu starts st)))) =
     map snd (filter (\<lambda>(l, m). l = INFO) (logged st)) @
       map (\<lambda>i. DisabledPatterns (length (take 500 (drop i ptu)))) starts"
proof (induction starts arbitrary: st)
  case Nil
  then show ?case by simp
next
  case (Cons i starts)
  from Cons.prems have a0: "accepted (srv (length (sent st)))" by force
  let ?b = "take 500 (drop i ptu)"
  obtain st1 where up: "update_patterns api srv sid uuid ?b st = (Inr (decoded (srv (length (sent st)))), st1)"
    and s1: "sent st1 = sent st @ [patch_tool_request api sid uuid ?b]"
    and l1: "logged st1 = logged st @ [(DEBUG, MakingRequest ''PATCH''
               ([Lit (base_url api), Lit ''/''] @ lstrip_slash (tool_endpoint api sid uuid)))]"
    using a0 update_patterns_accepted [of srv st api sid uuid ?b] by simp
  let ?st2 = "emit INFO (DisabledPatterns (length ?b)) st1"
  have rest: "\<forall>k < length starts. accepted (srv (length (sent ?st2) + k))"
  proof (intro allI impI)
    fix k assume "k < length starts"
    then have "Suc k < length (i # starts)" by simp
    with Cons.prems have "accepted (srv (length (sent st) + Suc k))" by blast
    then show "accepted (srv (length (sent ?st2) + k))" by (simp add: s1)
  qed
  show ?case
    using Cons.IH [OF rest] up by (simp add: s1 l1 Let_def)
qed

lemma py_range_closed:
  "0 < k \<Longrightarrow> py_range i n k = map (\<lambda>j. i + k * j) [0 ..< (n - i + (k - 1)) div k]"
proof (induction i n k rule: py_range.induct)
  case (1 i n k)
  show ?case
  proof (cases "i < n")
    case False
    with 1 show ?thesis by (simp add: py_range.simps [of i n k])
  next
    case True
    with "1.prems" have ih: "py_range (i + k) n k = map (\<lambda>j. i + k + k * j) [0 ..< (n - (i + k) + (k - 1)) div k]"
      using "1.IH" by simp
    have cnt: "(n - i + (k - 1)) div k = Suc ((n - (i + k) + (k - 1)) div k)"
    proof -
      define m where "m = n - i - 1"
      from True have m: "n = i + Suc m"
        by (simp add: m_def)
      from "1.prems" obtain k' where k': "k = Suc k'"
        by (cases k) auto
      have "n - i + (k - 1) = m + k"
        by (simp add: m k')
      moreover have "(m + k) div k = Suc (m div k)"
        using "1.prems" by (simp add: div_add_self2)
      ultimately have l: "(n - i + (k - 1)) div k = Suc (m div k)"
        by simp
      have r: "(n - (i + k) + (k - 1)) div k = m div k"
      proof (cases "k \<le> Suc m")
        case True
        then have "n - (i + k) + (k - 1) = m" by (simp add: m k')
        then show ?thesis by simp
      next
        case False
        then have "n - (i + k) + (k - 1) = k'" and "m < k" and "k' < k"
          by (simp_all add: m k')
        then show ?thesis by simp
      qed
      show ?thesis by (simp only: l r)
    qed
    have "py_range i n k = i # py_range (i + k) n k"
      using True "1.prems" by (simp add: py_range.simps [of i n k])
    also have "\<dots> = map (\<lambda>j. i + k * j) [0 ..< Suc ((n - (i + k) + (k - 1)) div k)]"
      by (simp add: ih upt_conv_Cons map_Suc_upt [symmetric] del: upt_Suc)
    finally show ?thesis by (simp only: cnt)
  qed
qed

subsection \<open>Pagination\<close>

lemma get_patterns_loop_page:
  assumes "page_of (srv (length (sent st))) = Some (xs, c)"
  shows "get_patterns_loop (Suc fuel) api srv sid uuid limit acc cur st =
     (case c of
        None \<Rightarrow> (Some (Inr (acc @ xs)), sent_page api sid uuid limit cur st)
      | Some c' \<Rightarrow>
          get_patterns_loop fuel api srv sid uuid limit (acc @ xs) c'
            (sent_page api sid uuid limit cur st))"
proof -
  from assms have acc: "accepted (srv (length (sent st)))"
    by (simp add: page_of_def split: if_splits)
  from assms obtain kvs where d: "decoded (srv (length (sent st))) = JObj kvs"
    by (auto simp: page_of_def split: if_splits json.splits)
  from assms d acc have dat: "py_get (JObj kvs) ''data'' (JArr []) = Inr (JArr xs)"
    by (auto simp: page_of_def split: option.splits json.splits)
  from assms d acc have pg: "(map_of kvs ''pagination'' = None \<and> c = None) \<or>
      (\<exists>pg. map_of kvs ''pagination'' = Some (JObj pg) \<and> c = map_of pg ''cursor'')"
    by (auto simp: page_of_def split: option.splits json.splits)
  have mr: "make_request api srv ''GET'' (tool_endpoint api sid uuid @ [Lit ''/patterns'']) None None
        (Some ([(''limit'', limit)] @ (if truthy cur then [(''cursor'', cur)] else []))) st =
      (Inr (JObj kvs), sent_page api sid uuid limit cur st)"
    using acc d
    by (simp add: make_request_accepted sent_page_def patterns_request_def built_request_def tool_endpoint_def)
  from pg show ?thesis
  proof
    assume "map_of kvs ''pagination'' = None \<and> c = None"
    then show ?thesis
      using mr dat by (simp add: tool_endpoint_def Let_def)
  next
    assume "\<exists>pg. map_of kvs ''pagination'' = Some (JObj pg) \<and> c = map_of pg ''cursor''"
    then obtain pg where "map_of kvs ''pagination'' = Some (JObj pg)" "c = map_of pg ''cursor''"
      by blast
    then show ?thesis
      using mr dat by (cases "map_of pg ''cursor''") (simp_all add: tool_endpoint_def Let_def)
  qed
qed


declare get_patterns_loop.simps(2) [simp del]

lemma sent_page_simps [simp]:
  "sent (sent_page api sid uuid limit cur st) = sent st @ [patterns_request api sid uuid limit cur]"
  "logged (sent_page api sid uuid limit cur st) =
     logged st @ [(DEBUG, MakingRequest ''GET'' (url (patterns_request api sid uuid limit cur)))]"
  "slept (sent_page api sid uuid limit cur st) = slept st"
  by (simp_all add: sent_page_def)

lemma url_patterns_request:
  "url (patterns_request api sid uuid limit c1) = url (patterns_request api sid uuid limit c2)"
  by (simp add: patterns_request_def built_request_def)

lemma pages_run:
  "\<lbrakk>\<forall>k\<le>n. page_of (srv (length (sent st) + k)) = Some (items k, cur k);
    \<forall>k<n. cur k \<noteq> None; cur n = None; n < fuel\<rbrakk> \<Longrightarrow>
   fst (get_patterns_loop fuel api srv sid uuid limit acc c st) =
     Some (Inr (acc @ concat (map items [0..<Suc n]))) \<and>
   sent (snd (get_patterns_loop fuel api srv sid uuid limit acc c st)) =
     sent st @ map (\<lambda>k. patterns_request api sid uuid limit
                           (case k of 0 \<Rightarrow> c | Suc j \<Rightarrow> the (cur j))) [0..<Suc n] \<and>
   logged (snd (get_patterns_loop fuel api srv sid uuid limit acc c st)) =
     logged st @ replicate (Suc n)
       (DEBUG, MakingRequest ''GET'' (url (patterns_request api sid uuid limit c))) \<and>
   slept (snd (get_patterns_loop fuel api srv sid uuid limit acc c st)) = slept st"
proof (induction n arbitrary: fuel acc c st items cur)
  case 0
  then obtain f where f: "fuel = Suc f" by (cases fuel) auto
  from 0 have p: "page_of (srv (length (sent st))) = Some (items 0, None)" by simp
  show ?case
    using p by (simp add: f get_patterns_loop_page)
next
  case (Suc n)
  then obtain f where f: "fuel = Suc f" by (cases fuel) auto
  from Suc.prems obtain c0 where c0: "cur 0 = Some c0" by (cases "cur 0") auto
  from Suc.prems have p: "page_of (srv (length (sent st))) = Some (items 0, Some c0)"
    using c0 by force
  let ?st1 = "sent_page api sid uuid limit c st"
  have a: "\<forall>k\<le>n. page_of (srv (length (sent ?st1) + k)) = Some ((items \<circ> Suc) k, (cur \<circ> Suc) k)"
  proof (intro allI impI)
    fix k assume "k \<le> n"
    then have "Suc k \<le> Suc n" by simp
    with Suc.prems(1) have "page_of (srv (length (sent st) + Suc k)) = Some (items (Suc k), cur (Suc k))"
      by blast
    then show "page_of (srv (length (sent ?st1) + k)) = Some ((items \<circ> Suc) k, (cur \<circ> Suc) k)"
      by simp
  qed
  have b: "\<forall>k<n. (cur \<circ> Suc) k \<noteq> None" using Suc.prems(2) by simp
  have c: "(cur \<circ> Suc) n = None" using Suc.prems(3) by simp
  have d: "n < f" using Suc.prems(4) f by simp
  note ih = Suc.IH [where acc = "acc @ items 0" and c = c0, OF a b c d]
  have step: "get_patterns_loop fuel api srv sid uuid limit acc c st =
      get_patterns_loop f api srv sid uuid limit (acc @ items 0) c0 ?st1"
    using p by (simp add: f get_patterns_loop_page)
  have m1: "map items [0..<Suc (Suc n)] = items 0 # map (items \<circ> Suc) [0..<Suc n]"
    by (simp only: map_upt_Suc [of items "Suc n"] comp_def)
  have m2: "map (\<lambda>k. patterns_request api sid uuid limit (case k of 0 \<Rightarrow> c | Suc j \<Rightarrow> the (cur j)))
              [0..<Suc (Suc n)] =
            patterns_request api sid uuid limit c #
            map (\<lambda>k. patterns_request api sid uuid limit
                       (case k of 0 \<Rightarrow> c0 | Suc j \<Rightarrow> the ((cur \<circ> Suc) j))) [0..<Suc n]"
    unfolding map_upt_Suc [of _ "Suc n"]
    by (auto simp: c0 split: nat.splits)
  have u: "url (patterns_request api sid uuid limit c0) = url (patterns_request api sid uuid limit c)"
    by (rule url_patterns_request)
  show ?case
    unfolding step m1 m2 using ih
    by (simp add: u comp_def del: upt_Suc)
qed

lemma pages_never_end_requests:
  "\<forall>k. page_of (srv (length (sent st) + k)) = Some (items k, cur k) \<and> cur k \<noteq> None \<Longrightarrow>
   fst (get_patterns_loop fuel api srv sid uuid limit acc c st) = None \<and>
   sent (snd (get_patterns_loop fuel api srv sid uuid limit acc c st)) =
     sent st @ map (\<lambda>k. patterns_request api sid uuid limit
                           (case k of 0 \<Rightarrow> c | Suc j \<Rightarrow> the (cur j))) [0..<fuel]"
proof (induction fuel arbitrary: acc c st items cur)
  case 0
  then show ?case by simp
next
  case (Suc fuel)
  from Suc.prems have "page_of (srv (length (sent st) + 0)) = Some (items 0, cur 0) \<and> cur 0 \<noteq> None"
    by blast
  then obtain c0 where c0: "cur 0 = Some c0"
    and p: "page_of (srv (length (sent st))) = Some (items 0, Some c0)"
    by (cases "cur 0") auto
  let ?st1 = "sent_page api sid uuid limit c st"
  have a: "\<forall>k. page_of (srv (length (sent ?st1) + k)) = Some ((items \<circ> Suc) k, (cur \<circ> Suc) k) \<and>
              (cur \<circ> Suc) k \<noteq> None"
  proof
    fix k
    from Suc.prems have "page_of (srv (length (sent st) + Suc k)) = Some (items (Suc k), cur (Suc k)) \<and>
        cur (Suc k) \<noteq> None"
      by blast
    then show "page_of (srv (length (sent ?st1) + k)) = Some ((items \<circ> Suc) k, (cur \<circ> Suc) k) \<and>
              (cur \<circ> Suc) k \<noteq> None"
      by simp
  qed
  note ih = Suc.IH [where acc = "acc @ items 0" and c = c0, OF a]
  have step: "get_patterns_loop (Suc fuel) api srv sid uuid limit acc c st =
      get_patterns_loop fuel api srv sid uuid limit (acc @ items 0) c0 ?st1"
    using p by (simp add: get_patterns_loop_page)
  have m2: "map (\<lambda>k. patterns_request api sid uuid limit (case k of 0 \<Rightarrow> c | Suc j \<Rightarrow> the (cur j)))
              [0..<Suc fuel] =
            patterns_request api sid uuid limit c #
            map (\<lambda>k. patterns_request api sid uuid limit
                       (case k of 0 \<Rightarrow> c0 | Suc j \<Rightarrow> the ((cur \<circ> Suc) j))) [0..<fuel]"
    unfolding map_upt_Suc [of _ fuel]
    by (auto simp: c0 split: nat.splits)
  show ?case
    unfolding step m2 using ih by simp
qed

text \<open>
  Claim C1. Let the outcomes of the next requests be pages: the pages 0 to \<open>n - 1\<close> carry a
  cursor and page \<open>n\<close> is the first without one. Then \<open>get_patterns\<close> (given fuel for
  \<open>n + 1\<close> passes) returns the items of the pages 0 to \<open>n\<close> concatenated in order, so as
  many items as the pages hold together; it sends exactly \<open>n + 1\<close> requests, one for each page,
  the first without a cursor and each later one with the cursor of the page before.
\<close>

theorem get_patterns_concatenates_pages:
  "\<lbrakk>\<forall>k\<le>n. page_of (srv (length (sent st) + k)) = Some (items k, cur k);
    \<forall>k<n. cur k \<noteq> None; cur n = None; n < fuel\<rbrakk> \<Longrightarrow>
   fst (get_patterns fuel api srv sid uuid limit st) = Some (Inr (concat (map items [0..<Suc n]))) \<and>
   length (concat (map items [0..<Suc n])) = sum_list (map (\<lambda>k. length (items k)) [0..<Suc n]) \<and>
   sent (snd (get_patterns fuel api srv sid uuid limit st)) =
     sent st @ map (\<lambda>k. patterns_request api sid uuid limit
                           (case k of 0 \<Rightarrow> JStr [] | Suc j \<Rightarrow> the (cur j))) [0..<Suc n] \<and>
   length (sent (snd (get_patterns fuel api srv sid uuid limit st))) = length (sent st) + Suc n"
proof -
  assume a: "\<forall>k\<le>n. page_of (srv (length (sent st) + k)) = Some (items k, cur k)"
    and b: "\<forall>k<n. cur k \<noteq> None" and c: "cur n = None" and d: "n < fuel"
  note run = pages_run [where acc = "[]" and c = "JStr []", OF a b c d]
  have len: "length (concat (map items [0..<Suc n])) = sum_list (map (\<lambda>k. length (items k)) [0..<Suc n])"
    by (simp only: length_concat map_map comp_def)
  from run [of api sid uuid limit] len show ?thesis
    by (simp add: get_patterns_def del: upt_Suc)
qed


lemma page_of_page_response: "page_of (page_response xs c) = Some (xs, c)"
  by (cases c) (simp_all add: page_of_def page_response_def is_error_status_def)

theorem get_patterns_two_pages_witness:
  "page_of (two_pages (length (sent st0))) =
     Some ([example_pattern ''a'' ''Minor'', example_pattern ''b'' ''major''], Some (JStr ''c1'')) \<and>
   page_of (two_pages (length (sent st0) + 1)) = Some ([example_pattern ''c'' ''info''], None) \<and>
   fst (get_patterns 2 (CodacyAPI example_settings) two_pages (JStr ''s1'') (JStr ''u1'') (JNum 100) st0) =
     Some (Inr [example_pattern ''a'' ''Minor'', example_pattern ''b'' ''major'',
                example_pattern ''c'' ''info'']) \<and>
   map params (sent (snd (get_patterns 2 (CodacyAPI example_settings) two_pages
                       (JStr ''s1'') (JStr ''u1'') (JNum 100) st0))) =
     [Some [(''limit'', JNum 100)], Some [(''limit'', JNum 100), (''cursor'', JStr ''c1'')]]"
proof -
  let ?items = "\<lambda>k::nat. if k = 0 then [example_pattern ''a'' ''Minor'', example_pattern ''b'' ''major'']
            else [example_pattern ''c'' ''info'']"
  let ?cur = "\<lambda>k::nat. if k = 0 then Some (JStr ''c1'') else None"
  have a: "\<forall>k\<le>1. page_of (two_pages (length (sent st0) + k)) = Some (?items k, ?cur k)"
    by (simp add: two_pages_def page_of_page_response st0_def)
  have b: "\<forall>k<1. ?cur k \<noteq> None" by simp
  have c: "?cur 1 = None" by simp
  have d: "(1::nat) < 2" by simp
  show ?thesis
    using a [rule_format, of 0] a [rule_format, of 1]
      get_patterns_concatenates_pages [where items = ?items and cur = ?cur and n = 1
        and fuel = 2 and api = "CodacyAPI example_settings" and sid = "JStr ''s1''"
        and uuid = "JStr ''u1''" and limit = "JNum 100", OF a b c d]
    by (simp add: st0_def patterns_request_def built_request_def)
qed

text \<open>
  Claim C9. When every outcome is a page, \<open>get_patterns\<close> returns for some amount of fuel if
  and only if some page has no cursor. A page whose cursor is the empty string keeps the
  loop running, and the request after it has no \<open>cursor\<close> parameter, like the first one: when
  every page has the cursor \<open>''\<close>, the loop never returns and sends the first request over and
  over.
\<close>

theorem get_patterns_returns_iff_cursor_free_page:
  "\<forall>k. page_of (srv (length (sent st) + k)) = Some (items k, cur k) \<Longrightarrow>
   ((\<exists>fuel. fst (get_patterns fuel api srv sid uuid limit st) \<noteq> None) \<longleftrightarrow> (\<exists>k. cur k = None)) \<and>
   ((\<forall>k. cur k = Some (JStr [])) \<longrightarrow>
      (\<forall>fuel. fst (get_patterns fuel api srv sid uuid limit st) = None \<and>
         sent (snd (get_patterns fuel api srv sid uuid limit st)) =
           sent st @ replicate fuel (patterns_request api sid uuid limit (JStr [])))) \<and>
   params (patterns_request api sid uuid limit (JStr [])) = Some [(''limit'', limit)]"
proof (intro conjI impI allI)
  assume pages: "\<forall>k. page_of (srv (length (sent st) + k)) = Some (items k, cur k)"
  show "(\<exists>fuel. fst (get_patterns fuel api srv sid uuid limit st) \<noteq> None) \<longleftrightarrow> (\<exists>k. cur k = None)"
  proof
    assume "\<exists>fuel. fst (get_patterns fuel api srv sid uuid limit st) \<noteq> None"
    then obtain fuel where r: "fst (get_patterns fuel api srv sid uuid limit st) \<noteq> None" ..
    show "\<exists>k. cur k = None"
    proof (rule ccontr)
      assume "\<not> (\<exists>k. cur k = None)"
      with pages have "\<forall>k. page_of (srv (length (sent st) + k)) = Some (items k, cur k) \<and> cur k \<noteq> None"
        by simp
      from pages_never_end_requests [where acc = "[]" and c = "JStr []", OF this] r show False
        by (simp add: get_patterns_def)
    qed
  next
    assume "\<exists>k. cur k = None"
    then obtain n where n: "cur n = None" and least: "\<forall>k<n. cur k \<noteq> None"
      using exists_least_iff [of "\<lambda>k. cur k = None"] by auto
    from pages have a: "\<forall>k\<le>n. page_of (srv (length (sent st) + k)) = Some (items k, cur k)"
      by simp
    have d: "n < Suc n" by simp
    from pages_run [where acc = "[]" and c = "JStr []", OF a least n d]
    have "fst (get_patterns (Suc n) api srv sid uuid limit st) \<noteq> None"
      by (simp add: get_patterns_def del: upt_Suc)
    then show "\<exists>fuel. fst (get_patterns fuel api srv sid uuid limit st) \<noteq> None" ..
  qed
next
  fix fuel
  assume pages: "\<forall>k. page_of (srv (length (sent st) + k)) = Some (items k, cur k)"
    and e: "\<forall>k. cur k = Some (JStr [])"
  then have "\<forall>k. page_of (srv (length (sent st) + k)) = Some (items k, cur k) \<and> cur k \<noteq> None"
    by simp
  note ne = pages_never_end_requests [where acc = "[]" and c = "JStr []" and fuel = fuel, OF this]
  have m: "map (\<lambda>k. patterns_request api sid uuid limit
                       (case k of 0 \<Rightarrow> JStr [] | Suc j \<Rightarrow> the (cur j))) [0..<fuel] =
           replicate fuel (patterns_request api sid uuid limit (JStr []))"
  proof -
    have "(\<lambda>k. patterns_request api sid uuid limit
                 (case k of 0 \<Rightarrow> JStr [] | Suc j \<Rightarrow> the (cur j))) =
          (\<lambda>k. patterns_request api sid uuid limit (JStr []))"
      by (auto simp: e split: nat.split)
    then show ?thesis by (simp add: map_replicate_const)
  qed
  from ne [of api sid uuid limit]
  show "fst (get_patterns fuel api srv sid uuid limit st) = None"
    by (simp add: get_patterns_def)
  from ne [of api sid uuid limit]
  show "sent (snd (get_patterns fuel api srv sid uuid limit st)) =
           sent st @ replicate fuel (patterns_request api sid uuid limit (JStr []))"
    by (simp only: get_patterns_def m)
next
  show "params (patterns_request api sid uuid limit (JStr [])) = Some [(''limit'', limit)]"
    by (simp add: patterns_request_def built_request_def)
qed

theorem get_patterns_cursor_witness:
  "(\<forall>k. page_of (empty_cursor_forever (length (sent st0) + k)) = Some ([], Some (JStr []))) \<and>
   (\<forall>fuel. fst (get_patterns fuel (CodacyAPI example_settings) empty_cursor_forever
              (JStr ''s1'') (JStr ''u1'') (JNum 100) st0) = None) \<and>
   (\<forall>k. page_of (two_pages (length (sent st0) + k)) =
      Some (if k = 0 then [example_pattern ''a'' ''Minor'', example_pattern ''b'' ''major'']
            else [example_pattern ''c'' ''info''],
            if k = 0 then Some (JStr ''c1'') else None)) \<and>
   (\<exists>fuel. fst (get_patterns fuel (CodacyAPI example_settings) two_pages
              (JStr ''s1'') (JStr ''u1'') (JNum 100) st0) \<noteq> None)"
proof -
  have a: "\<forall>k. page_of (empty_cursor_forever (length (sent st0) + k)) =
      Some ((\<lambda>k. []) k, (\<lambda>k. Some (JStr [])) k)"
    by (simp add: empty_cursor_forever_def page_of_page_response)
  let ?items = "\<lambda>k::nat. if k = 0 then [example_pattern ''a'' ''Minor'', example_pattern ''b'' ''major'']
            else [example_pattern ''c'' ''info'']"
  let ?cur = "\<lambda>k::nat. if k = 0 then Some (JStr ''c1'') else None"
  have b: "\<forall>k. page_of (two_pages (length (sent st0) + k)) = Some (?items k, ?cur k)"
    by (simp add: two_pages_def page_of_page_response st0_def)
  have c: "\<exists>k. ?cur k = None"
    by (rule exI [of _ 1]) simp
  show ?thesis
    using a b c
      get_patterns_returns_iff_cursor_free_page [where items = "\<lambda>k. []" and cur = "\<lambda>k. Some (JStr [])"
        and api = "CodacyAPI example_settings" and sid = "JStr ''s1''"
        and uuid = "JStr ''u1''" and limit = "JNum 100", OF a]
      get_patterns_returns_iff_cursor_free_page [where items = ?items and cur = ?cur
        and api = "CodacyAPI example_settings" and sid = "JStr ''s1''"
        and uuid = "JStr ''u1''" and limit = "JNum 100", OF b]
    by simp
qed

subsection \<open>Batches of updates\<close>

lemma batches_closed:
  "batches xs = map (\<lambda>j. take 500 (drop (500 * j) xs)) [0 ..< (length xs + 499) div 500]"
  by (simp add: batches_def py_range_closed comp_def)

lemma concat_slices:
  "concat (map (\<lambda>j. take k (drop (k * j) xs)) [0 ..< m]) = take (k * m) xs"
proof (induction m)
  case 0
  then show ?case by simp
next
  case (Suc m)
  have "take (k * m + k) xs = take (k * m) xs @ take k (drop (k * m) xs)"
    by (rule take_add)
  moreover have "k * Suc m = k * m + k" by simp
  ultimately have "take (k * Suc m) xs = take (k * m) xs @ take k (drop (k * m) xs)"
    by (simp only:)
  with Suc show ?case by simp
qed

lemma ceil_500:
  fixes n :: nat
  shows "n \<le> 500 * ((n + 499) div 500)" and "j < (n + 499) div 500 \<Longrightarrow> 500 * j < n"
proof -
  define q where "q = (n + 499) div 500"
  define r where "r = (n + 499) mod 500"
  have r: "r < 500" by (simp add: r_def)
  have e: "n + 499 = 500 * q + r" by (simp add: q_def r_def)
  from r e show "n \<le> 500 * ((n + 499) div 500)"
    unfolding q_def [symmetric] by linarith
  assume "j < (n + 499) div 500"
  then have "j < q" by (simp add: q_def)
  then have "500 * j + 500 \<le> 500 * q" by simp
  with r e show "500 * j < n" by linarith
qed

lemma batches_cover: "length xs \<le> 500 * ((length xs + 499) div 500)"
  by (rule ceil_500(1))

lemma concat_batches: "concat (batches xs) = xs"
  by (simp add: batches_closed concat_slices batches_cover)

lemma length_batches: "length (batches xs) = (length xs + 499) div 500"
  by (simp add: batches_closed)

lemma nth_batches: "j < length (batches xs) \<Longrightarrow> batches xs ! j = take 500 (drop (500 * j) xs)"
  by (simp add: batches_closed)

lemma batch_bounds: "b \<in> set (batches xs) \<Longrightarrow> b \<noteq> [] \<and> length b \<le> 500"
proof -
  assume "b \<in> set (batches xs)"
  then obtain j where j: "j < (length xs + 499) div 500" and b: "b = take 500 (drop (500 * j) xs)"
    by (auto simp: batches_closed)
  from j have "500 * j < length xs" by (rule ceil_500(2))
  with b show ?thesis by simp
qed

lemma sum_length_batches: "sum_list (map length (batches xs)) = length xs"
proof -
  have "sum_list (map length (batches xs)) = length (concat (batches xs))"
    by (simp add: length_concat)
  then show ?thesis by (simp add: concat_batches)
qed

lemma upt_3: "[0..<3] = [0, 1, 2]"
  by (simp add: numeral_3_eq_3 upt_rec)

lemma batches_1200: "length xs = 1200 \<Longrightarrow> map length (batches xs) = [500, 500, 200]"
  by (simp add: batches_closed upt_3)


lemma length_py_range_500: "length (py_range 0 n 500) = (n + 499) div 500"
  by (simp add: py_range_closed)

lemma map_patch_batches:
  "map (\<lambda>i. patch_tool_request api sid uuid (take 500 (drop i ptu))) (py_range 0 (length ptu) 500) =
   map (patch_tool_request api sid uuid) (batches ptu)"
  by (simp add: batches_def comp_def)

text \<open>
  Claim C2. Let \<open>get_patterns\<close> return patterns that can be read and of which \<open>N > 0\<close> are
  selected, and let the service accept the update requests. Then \<open>process_patterns\<close> (not a
  dry run) sends, after the requests of \<open>get_patterns\<close>, exactly one \<open>update_patterns\<close>
  request for each batch, in order. There are \<open>ceil(N / 500)\<close> batches, none empty and none
  longer than 500, their lengths add up to \<open>N\<close>, batch \<open>j\<close> is the slice of 500 entries
  from index \<open>500 * j\<close>, and together they are the list of selected entries; for \<open>N = 1200\<close>
  the lengths are 500, 500, 200.
\<close>

theorem process_patterns_batches_of_500:
  "\<lbrakk>get_patterns fuel api srv sid uuid (JNum 100) st = (Some (Inr ps), st1);
    list_all readable ps; filter is_selected ps \<noteq> [];
    \<forall>k < (length (filter is_selected ps) + 499) div 500. accepted (srv (length (sent st1) + k))\<rbrakk> \<Longrightarrow>
   fst (process_patterns fuel api srv sid uuid False st) = Some (Inr ()) \<and>
   sent (snd (process_patterns fuel api srv sid uuid False st)) =
     sent st1 @ map (patch_tool_request api sid uuid)
                  (batches (map disable_entry (filter is_selected ps))) \<and>
   length (batches (map disable_entry (filter is_selected ps))) =
     (length (filter is_selected ps) + 499) div 500 \<and>
   (\<forall>b \<in> set (batches (map disable_entry (filter is_selected ps))). b \<noteq> [] \<and> length b \<le> 500) \<and>
   sum_list (map length (batches (map disable_entry (filter is_selected ps)))) =
     length (filter is_selected ps) \<and>
   concat (batches (map disable_entry (filter is_selected ps))) =
     map disable_entry (filter is_selected ps) \<and>
   (\<forall>j < length (batches (map disable_entry (filter is_selected ps))).
      batches (map disable_entry (filter is_selected ps)) ! j =
        take 500 (drop (500 * j) (map disable_entry (filter is_selected ps)))) \<and>
   (length (filter is_selected ps) = 1200 \<longrightarrow>
      map length (batches (map disable_entry (filter is_selected ps))) = [500, 500, 200])"
proof -
  assume g: "get_patterns fuel api srv sid uuid (JNum 100) st = (Some (Inr ps), st1)"
    and r: "list_all readable ps" and ne: "filter is_selected ps \<noteq> []"
    and ok: "\<forall>k < (length (filter is_selected ps) + 499) div 500. accepted (srv (length (sent st1) + k))"
  let ?ptu = "map disable_entry (filter is_selected ps)"
  have sel: "select_patterns False ps [] st1 = (Inr ?ptu, st1)"
    by (simp add: select_patterns_readable [OF r])
  have ok': "\<forall>k < length (py_range 0 (length ?ptu) 500). accepted (srv (length (sent st1) + k))"
    using ok by (simp add: length_py_range_500)
  note ub = update_batches_accepted [where ptu = ?ptu and api = api and sid = sid and uuid = uuid, OF ok']
  have pp: "process_patterns fuel api srv sid uuid False st =
      (Some (fst (update_batches api srv sid uuid ?ptu (py_range 0 (length ?ptu) 500) st1)),
       snd (update_batches api srv sid uuid ?ptu (py_range 0 (length ?ptu) 500) st1))"
    using ne by (simp add: process_patterns_def g sel split: prod.split)
  have 1: "fst (process_patterns fuel api srv sid uuid False st) = Some (Inr ())"
    using ub by (simp add: pp)
  have 2: "sent (snd (process_patterns fuel api srv sid uuid False st)) =
     sent st1 @ map (patch_tool_request api sid uuid) (batches ?ptu)"
    using ub by (simp only: pp snd_conv map_patch_batches)
  have 3: "length (batches ?ptu) = (length (filter is_selected ps) + 499) div 500"
    by (simp add: length_batches)
  have 4: "\<forall>b \<in> set (batches ?ptu). b \<noteq> [] \<and> length b \<le> 500"
    using batch_bounds by blast
  have 5: "sum_list (map length (batches ?ptu)) = length (filter is_selected ps)"
    by (simp add: sum_length_batches)
  have 6: "concat (batches ?ptu) = ?ptu"
    by (rule concat_batches)
  have 7: "\<forall>j < length (batches ?ptu). batches ?ptu ! j = take 500 (drop (500 * j) ?ptu)"
    using nth_batches by blast
  have 8: "length (filter is_selected ps) = 1200 \<longrightarrow> map length (batches ?ptu) = [500, 500, 200]"
    by (simp add: batches_1200)
  from 1 2 3 4 5 6 7 8 show ?thesis by blast
qed

lemma readable_example_pattern: "readable (example_pattern i s)"
  by (simp add: readable_def example_pattern_def pattern_id_severity_def)

lemma selected_minor: "is_selected (example_pattern i ''minor'')"
  by (simp add: is_selected_def example_pattern_def pattern_id_severity_def lower_char_def
      char_of_eq_iff)

lemma disable_entry_example:
  "disable_entry (example_pattern i s) = JObj [(''id'', JStr i), (''enabled'', JBool False)]"
  by (simp add: disable_entry_def example_pattern_def pattern_id_severity_def)

lemma batches_replicate_1200:
  "batches (replicate 1200 x) = [replicate 500 x, replicate 500 x, replicate 200 x]"
  by (simp add: batches_closed upt_3)

theorem process_patterns_1200_witness:
  "get_patterns 1 (CodacyAPI example_settings) many_minor_patterns (JStr ''s1'') (JStr ''u1'')
       (JNum 100) st0 =
     (Some (Inr (replicate 1200 (example_pattern ''p'' ''minor''))),
      sent_page (CodacyAPI example_settings) (JStr ''s1'') (JStr ''u1'') (JNum 100) (JStr []) st0) \<and>
   list_all readable (replicate 1200 (example_pattern ''p'' ''minor'')) \<and>
   filter is_selected (replicate 1200 (example_pattern ''p'' ''minor'')) \<noteq> [] \<and>
   accepted (many_minor_patterns 1) \<and> accepted (many_minor_patterns 2) \<and>
   accepted (many_minor_patterns 3) \<and>
   fst (process_patterns 1 (CodacyAPI example_settings) many_minor_patterns
          (JStr ''s1'') (JStr ''u1'') False st0) = Some (Inr ()) \<and>
   sent (snd (process_patterns 1 (CodacyAPI example_settings) many_minor_patterns
          (JStr ''s1'') (JStr ''u1'') False st0)) =
     [patterns_request (CodacyAPI example_settings) (JStr ''s1'') (JStr ''u1'') (JNum 100) (JStr []),
      patch_tool_request (CodacyAPI example_settings) (JStr ''s1'') (JStr ''u1'')
        (replicate 500 (JObj [(''id'', JStr ''p''), (''enabled'', JBool False)])),
      patch_tool_request (CodacyAPI example_settings) (JStr ''s1'') (JStr ''u1'')
        (replicate 500 (JObj [(''id'', JStr ''p''), (''enabled'', JBool False)])),
      patch_tool_request (CodacyAPI example_settings) (JStr ''s1'') (JStr ''u1'')
        (replicate 200 (JObj [(''id'', JStr ''p''), (''enabled'', JBool False)]))]"
proof -
  let ?api = "CodacyAPI example_settings"
  let ?ps = "replicate 1200 (example_pattern ''p'' ''minor'')"
  let ?st1 = "sent_page ?api (JStr ''s1'') (JStr ''u1'') (JNum 100) (JStr []) st0"
  have p: "page_of (many_minor_patterns (length (sent st0))) = Some (?ps, None)"
    by (simp add: many_minor_patterns_def st0_def page_of_page_response)
  have g: "get_patterns 1 ?api many_minor_patterns (JStr ''s1'') (JStr ''u1'') (JNum 100) st0 =
      (Some (Inr ?ps), ?st1)"
    using p by (simp add: get_patterns_def get_patterns_loop_page)
  have r: "list_all readable ?ps"
    by (simp add: list_all_iff readable_example_pattern)
  have f: "filter is_selected ?ps = ?ps"
    by (simp add: selected_minor)
  have ne: "filter is_selected ?ps \<noteq> []"
    by (simp add: f)
  have acc: "accepted (many_minor_patterns 1)" "accepted (many_minor_patterns 2)"
    "accepted (many_minor_patterns 3)"
    by (simp_all add: many_minor_patterns_def is_error_status_def)
  have ok: "\<forall>k < (length (filter is_selected ?ps) + 499) div 500.
      accepted (many_minor_patterns (length (sent ?st1) + k))"
    by (simp add: f many_minor_patterns_def is_error_status_def st0_def)
  show ?thesis
    using g r ne acc process_patterns_batches_of_500 [OF g r ne ok]
    by (simp add: f disable_entry_example batches_replicate_1200 st0_def)
qed

subsection \<open>What a run sends and logs\<close>

lemma extendsI:
  "sent st' = sent st @ rs \<Longrightarrow> logged st' = logged st @ ls \<Longrightarrow> list_all Q rs \<Longrightarrow> list_all P ls \<Longrightarrow>
   extends Q P st st'"
  by (simp add: extends_def)

lemma extendsE:
  assumes "extends Q P st st'"
  obtains rs ls where "sent st' = sent st @ rs" "logged st' = logged st @ ls"
    "list_all Q rs" "list_all P ls"
proof -
  from assms have "sent st' = sent st @ drop (length (sent st)) (sent st')"
    by (metis append_take_drop_id extends_def)
  moreover from assms have "logged st' = logged st @ drop (length (logged st)) (logged st')"
    by (metis append_take_drop_id extends_def)
  ultimately show thesis
    using assms that by (simp add: extends_def)
qed

lemma extends_refl: "extends Q P st st"
  by (simp add: extends_def)

lemma extends_trans:
  assumes "extends Q P st st1" and "extends Q P st1 st2"
  shows "extends Q P st st2"
proof -
  from assms(1) obtain rs ls where 1: "sent st1 = sent st @ rs" "logged st1 = logged st @ ls"
    "list_all Q rs" "list_all P ls"
    by (rule extendsE)
  from assms(2) obtain rs' ls' where 2: "sent st2 = sent st1 @ rs'" "logged st2 = logged st1 @ ls'"
    "list_all Q rs'" "list_all P ls'"
    by (rule extendsE)
  from 1 2 show ?thesis
    by (intro extendsI [where rs = "rs @ rs'" and ls = "ls @ ls'"]) simp_all
qed

lemma extends_emit: "P (l, m) \<Longrightarrow> extends Q P st (emit l m st)"
  by (rule extendsI [where rs = "[]" and ls = "[(l, m)]"]) simp_all

lemma extends_sleep: "extends Q P st (sleep n st)"
  by (rule extendsI [where rs = "[]" and ls = "[]"]) simp_all

lemma extends_emit_after: "extends Q P st st1 \<Longrightarrow> P (l, m) \<Longrightarrow> extends Q P st (emit l m st1)"
  by (blast intro: extends_trans extends_emit)

lemma make_request_extends:
  assumes "make_request api srv meth endpoint js dat ps st = (r, st')"
    and "Q (built_request api meth endpoint js dat ps)"
    and "\<And>l m. is_api_line m \<Longrightarrow> P (l, m)"
  shows "extends Q P st st'"
proof -
  have s: "sent st' = sent st @ [built_request api meth endpoint js dat ps]"
    using make_request_sent [of api srv meth endpoint js dat ps st] assms(1) by simp
  have "\<exists>ls. logged st' = logged st @ ls \<and> list_all P ls"
    using assms(1) assms(3)
    by (auto simp: make_request_def requests_request_def Let_def
        split: http_outcome.splits body.splits if_splits)
  then obtain ls where "logged st' = logged st @ ls" "list_all P ls" by blast
  with s assms(2) show ?thesis
    by (intro extendsI [where rs = "[built_request api meth endpoint js dat ps]" and ls = ls]) simp_all
qed


lemma create_coding_standard_extends:
  assumes "create_coding_standard api srv name st = (r, st')"
    and "Q (create_request api name)" and "\<And>l m. is_api_line m \<Longrightarrow> P (l, m)"
  shows "extends Q P st st'"
  using assms(1)
  by (auto simp: create_coding_standard_def Let_def create_request_def standards_endpoint_def
      intro!: make_request_extends assms(3) assms(2) [unfolded create_request_def standards_endpoint_def])

lemma get_available_tools_extends:
  assumes "get_available_tools api srv st = (r, st')"
    and "Q (tools_request api)" and "\<And>l m. is_api_line m \<Longrightarrow> P (l, m)"
  shows "extends Q P st st'"
proof -
  obtain r1 st1 where m: "make_request api srv ''GET'' [Lit ''api/v3/tools''] None None None st = (r1, st1)"
    by fastforce
  from make_request_extends [OF m] assms(2,3) have "extends Q P st st1"
    by (simp add: tools_request_def)
  moreover from assms(1) m have "st' = st1"
    by (auto simp: get_available_tools_def Let_def split: sum.splits)
  ultimately show ?thesis by simp
qed

lemma enable_tool_extends:
  assumes "enable_tool api srv sid uuid st = (r, st')"
    and "Q (patch_tool_request api sid uuid [])" and "\<And>l m. is_api_line m \<Longrightarrow> P (l, m)"
  shows "extends Q P st st'"
proof -
  obtain r1 st1 where m: "make_request api srv ''PATCH'' (tool_endpoint api sid uuid)
      (Some (JObj [(''enabled'', JBool True), (''patterns'', JArr [])])) None None st = (r1, st1)"
    by fastforce
  from make_request_extends [OF m] assms(2,3) have e: "extends Q P st st1"
    by (simp add: patch_tool_request_def)
  from assms(1) m have "st' = st1 \<or> st' = sleep 2 st1"
    by (auto simp: enable_tool_def tool_endpoint_def Let_def split: sum.splits)
  with e show ?thesis
    using extends_sleep extends_trans by blast
qed

lemma update_patterns_extends:
  assumes "update_patterns api srv sid uuid b st = (r, st')"
    and "Q (patch_tool_request api sid uuid b)" and "\<And>l m. is_api_line m \<Longrightarrow> P (l, m)"
  shows "extends Q P st st'"
proof -
  obtain r1 st1 where m: "make_request api srv ''PATCH'' (tool_endpoint api sid uuid)
      (Some (JObj [(''enabled'', JBool True), (''patterns'', JArr b)])) None None st = (r1, st1)"
    by fastforce
  from make_request_extends [OF m] assms(2,3) have e: "extends Q P st st1"
    by (simp add: patch_tool_request_def)
  from assms(1) m have "st' = st1 \<or> st' = sleep 2 st1"
    by (auto simp: update_patterns_def tool_endpoint_def Let_def split: sum.splits)
  with e show ?thesis
    using extends_sleep extends_trans by blast
qed

lemma promote_draft_extends:
  assumes "promote_draft api srv sid st = (r, st')"
    and "Q (promote_request api sid)" and "\<And>l m. is_api_line m \<Longrightarrow> P (l, m)"
  shows "extends Q P st st'"
  using assms(1)
  by (auto simp: promote_draft_def Let_def
      intro!: make_request_extends assms(3)
        assms(2) [unfolded promote_request_def standard_endpoint_def])

lemma set_default_extends:
  assumes "set_default api srv sid st = (r, st')"
    and "Q (set_default_request api sid)" and "\<And>l m. is_api_line m \<Longrightarrow> P (l, m)"
  shows "extends Q P st st'"
  using assms(1)
  by (auto simp: set_default_def Let_def
      intro!: make_request_extends assms(3)
        assms(2) [unfolded set_default_request_def standard_endpoint_def])

lemma get_patterns_loop_extends:
  assumes "\<And>c. Q (patterns_request api sid uuid limit c)" and "\<And>l m. is_api_line m \<Longrightarrow> P (l, m)"
  shows "get_patterns_loop fuel api srv sid uuid limit acc c st = (r, st') \<Longrightarrow> extends Q P st st'"
proof (induction fuel arbitrary: acc c st)
  case 0
  then show ?case by (simp add: extends_refl)
next
  case (Suc fuel)
  obtain r1 st1 where m: "make_request api srv ''GET''
      [Lit ''api/v3/organizations/'', Lit (api_provider api), Lit ''/'',
       Lit (api_org_name api), Lit ''/coding-standards/'', Fmt sid,
       Lit ''/tools/'', Fmt uuid, Lit ''/patterns''] None None
      (Some ([(''limit'', limit)] @ (if truthy c then [(''cursor'', c)] else []))) st = (r1, st1)"
    by fastforce
  from make_request_extends [OF m] assms have e: "extends Q P st st1"
    by (simp add: patterns_request_def tool_endpoint_def)
  from Suc.prems m have "st' = st1 \<or>
      (\<exists>acc' c'. get_patterns_loop fuel api srv sid uuid limit acc' c' st1 = (r, st'))"
    by (auto simp: get_patterns_loop.simps(2) Let_def split: sum.splits if_splits)
  then show ?case
  proof
    assume "st' = st1"
    with e show ?thesis by simp
  next
    assume "\<exists>acc' c'. get_patterns_loop fuel api srv sid uuid limit acc' c' st1 = (r, st')"
    then obtain acc' c' where "get_patterns_loop fuel api srv sid uuid limit acc' c' st1 = (r, st')"
      by blast
    from Suc.IH [OF this] e show ?thesis
      by (rule extends_trans [rotated])
  qed
qed

lemma select_patterns_extends:
  assumes "\<And>i s. dry_run \<Longrightarrow> P (INFO, WouldDisablePattern i s)"
  shows "select_patterns dry_run ps acc st = (r, st') \<Longrightarrow> extends Q P st st'"
proof (induction ps arbitrary: acc st)
  case Nil
  then show ?case by (simp add: extends_refl)
next
  case (Cons p ps)
  show ?case
  proof (cases "pattern_id_severity p")
    case (Inl e)
    with Cons.prems show ?thesis by (simp add: extends_refl)
  next
    case (Inr b)
    obtain i s where b: "b = (i, s)" by (cases b)
    show ?thesis
    proof (cases "s = ''info'' \<or> s = ''minor''")
      case False
      with Cons.prems Inr b have "select_patterns dry_run ps acc st = (r, st')" by simp
      then show ?thesis by (rule Cons.IH)
    next
      case True
      let ?st1 = "if dry_run then emit INFO (WouldDisablePattern i s) st else st"
      from True Cons.prems Inr b have "select_patterns dry_run ps
          (acc @ [JObj [(''id'', i), (''enabled'', JBool False)]]) ?st1 = (r, st')"
        by auto
      then have "extends Q P ?st1 st'" by (rule Cons.IH)
      moreover have "extends Q P st ?st1"
        using assms by (simp add: extends_refl extends_emit)
      ultimately show ?thesis by (rule extends_trans [rotated])
    qed
  qed
qed

lemma update_batches_extends:
  assumes "\<And>b. Q (patch_tool_request api sid uuid b)" and "\<And>l m. is_api_line m \<Longrightarrow> P (l, m)"
    and "\<And>n. P (INFO, DisabledPatterns n)"
  shows "update_batches api srv sid uuid ptu starts st = (r, st') \<Longrightarrow> extends Q P st st'"
proof (induction starts arbitrary: st)
  case Nil
  then show ?case by (simp add: extends_refl)
next
  case (Cons i starts)
  let ?b = "take 500 (drop i ptu)"
  obtain r1 st1 where u: "update_patterns api srv sid uuid ?b st = (r1, st1)"
    by fastforce
  from update_patterns_extends [OF u] assms(1,2) have e: "extends Q P st st1" by blast
  show ?case
  proof (cases r1)
    case (Inl err)
    with Cons.prems u have "st' = st1" by (simp add: Let_def)
    with e show ?thesis by simp
  next
    case (Inr v)
    with Cons.prems u have "update_batches api srv sid uuid ptu starts
        (emit INFO (DisabledPatterns (length ?b)) st1) = (r, st')"
      by (simp add: Let_def)
    then have "extends Q P (emit INFO (DisabledPatterns (length ?b)) st1) st'"
      by (rule Cons.IH)
    moreover have "extends Q P st (emit INFO (DisabledPatterns (length ?b)) st1)"
      using e assms(3) by (rule extends_emit_after)
    ultimately show ?thesis by (rule extends_trans [rotated])
  qed
qed

lemma process_patterns_extends:
  assumes "process_patterns fuel api srv sid uuid dry_run st = (r, st')"
    and "\<And>c. Q (patterns_request api sid uuid (JNum 100) c)"
    and "\<And>b. \<not> dry_run \<Longrightarrow> Q (patch_tool_request api sid uuid b)"
    and "\<And>l m. is_pattern_line dry_run m \<Longrightarrow> P (l, m)"
  shows "extends Q P st st'"
proof -
  have api: "\<And>l m. is_api_line m \<Longrightarrow> P (l, m)"
  proof -
    fix l m assume "is_api_line m"
    then have "is_pattern_line dry_run m" by (cases m) simp_all
    then show "P (l, m)" by (rule assms(4))
  qed
  obtain r1 st1 where g: "get_patterns fuel api srv sid uuid (JNum 100) st = (r1, st1)"
    by fastforce
  then have e1: "extends Q P st st1"
    unfolding get_patterns_def
    by (rule get_patterns_loop_extends [rotated 2]) (simp_all add: assms(2) api)
  show ?thesis
  proof (cases r1)
    case None
    with assms(1) g e1 show ?thesis by (simp add: process_patterns_def)
  next
    case (Some res)
    show ?thesis
    proof (cases res)
      case (Inl err)
      with Some assms(1) g e1 show ?thesis by (simp add: process_patterns_def)
    next
      case (Inr patterns)
      obtain r2 st2 where s: "select_patterns dry_run patterns [] st1 = (r2, st2)"
        by fastforce
      then have e2: "extends Q P st1 st2"
        by (rule select_patterns_extends [rotated]) (simp add: assms(4))
      from e1 e2 have e12: "extends Q P st st2" by (rule extends_trans)
      show ?thesis
      proof (cases r2)
        case (Inl err)
        with Some Inr assms(1) g s e12 show ?thesis by (simp add: process_patterns_def)
      next
        case ptu: (Inr ptu)
        show ?thesis
        proof (cases "ptu \<noteq> [] \<and> \<not> dry_run")
          case False
          with ptu Some Inr assms(1) g s e12 show ?thesis
            by (auto simp: process_patterns_def)
        next
          case True
          obtain r3 st3 where u: "update_batches api srv sid uuid ptu
              (py_range 0 (length ptu) 500) st2 = (r3, st3)"
            by fastforce
          then have "extends Q P st2 st3"
            by (rule update_batches_extends [rotated 3]) (simp_all add: assms(3,4) api True)
          with e12 have "extends Q P st st3" by (rule extends_trans)
          moreover from True ptu Some Inr assms(1) g s u have "st' = st3"
            by (auto simp: process_patterns_def)
          ultimately show ?thesis by simp
        qed
      qed
    qed
  qed
qed


lemma may_send_simps [simp]:
  "may_send dry_run (patterns_request api sid uuid limit c)"
  "may_send dry_run (tools_request api)"
  "may_send False rq"
  by (simp_all add: may_send_def read_only_def patterns_request_def tools_request_def built_request_def)

lemma api_line_pattern_line: "is_api_line m \<Longrightarrow> is_pattern_line dry_run m"
  by (cases m) simp_all

lemma pattern_line_tool_line: "is_pattern_line dry_run m \<Longrightarrow> is_tool_line dry_run m"
  by (cases m) simp_all

lemma tool_line_loop_line: "is_tool_line dry_run m \<Longrightarrow> is_loop_line dry_run m"
  by (cases m) simp_all

lemma loop_line_run_line: "is_loop_line dry_run m \<Longrightarrow> is_run_line dry_run m"
  by (cases m) simp_all

lemma tool_line_not_start: "is_tool_line dry_run m \<Longrightarrow> \<not> is_tool_start m"
  by (cases m) simp_all

lemma tool_body_not_dict:
  "\<not> is_dict tool \<Longrightarrow>
   tool_body fuel api srv sid dry_run tool bound st = (Some (Inl AttributeError), bound, st)"
  by (cases tool) (simp_all add: tool_body_def)

lemma tool_body_skip:
  "\<lbrakk>py_get (JObj kvs) ''uuid'' JNull = Inr u; py_get (JObj kvs) ''name'' JNull = Inr n;
    \<not> truthy u \<or> \<not> truthy n\<rbrakk> \<Longrightarrow>
   tool_body fuel api srv sid dry_run (JObj kvs) bound st =
     (Some (Inr ()), Some n, emit WARNING (SkippingTool (JObj kvs)) st)"
  by (auto simp: tool_body_def)

lemma tool_body_valid:
  assumes u: "py_get (JObj kvs) ''uuid'' JNull = Inr u" and n: "py_get (JObj kvs) ''name'' JNull = Inr n"
    and t: "truthy u" "truthy n"
    and b: "tool_body fuel api srv sid dry_run (JObj kvs) bound st = (r, bound', st')"
    and P: "\<And>l m. is_tool_line dry_run m \<Longrightarrow> P (l, m)"
  shows "bound' = Some n \<and> extends (may_send dry_run) P (emit INFO (ProcessingTool n) st) st'"
proof -
  let ?st1 = "emit INFO (ProcessingTool n) st"
  have Ppat: "\<And>l m. is_pattern_line dry_run m \<Longrightarrow> P (l, m)"
    by (rule P) (rule pattern_line_tool_line)
  have Papi: "\<And>l m. is_api_line m \<Longrightarrow> P (l, m)"
    by (rule Ppat) (rule api_line_pattern_line)
  show ?thesis
  proof (cases dry_run)
    case True
    let ?st2 = "emit INFO (WouldEnableTool n) ?st1"
    obtain r3 st3 where pp: "process_patterns fuel api srv sid u dry_run ?st2 = (r3, st3)"
      by fastforce
    from pp have "extends (may_send dry_run) P ?st2 st3"
      by (rule process_patterns_extends) (simp_all add: Ppat True)
    moreover have "extends (may_send dry_run) P ?st1 ?st2"
      by (rule extends_emit) (simp add: P True)
    ultimately have "extends (may_send dry_run) P ?st1 st3" by (rule extends_trans [rotated])
    moreover from b u n t True pp have "bound' = Some n \<and> st' = st3"
      using u n by (auto simp: tool_body_def Let_def)
    ultimately show ?thesis by simp
  next
    case False
    obtain r2 st2 where en: "enable_tool api srv sid u ?st1 = (r2, st2)"
      by fastforce
    from en have e1: "extends (may_send dry_run) P ?st1 st2"
      by (rule enable_tool_extends) (simp_all add: Papi False)
    show ?thesis
    proof (cases r2)
      case (Inl e)
      with b u n t False en have "bound' = Some n \<and> st' = st2"
        by (auto simp: tool_body_def Let_def)
      with e1 show ?thesis by simp
    next
      case (Inr v)
      let ?st2' = "emit INFO (EnabledTool n) st2"
      obtain r3 st3 where pp: "process_patterns fuel api srv sid u dry_run ?st2' = (r3, st3)"
        by fastforce
      from pp have "extends (may_send dry_run) P ?st2' st3"
        by (rule process_patterns_extends) (simp_all add: Ppat False)
      moreover have "extends (may_send dry_run) P ?st1 ?st2'"
        using e1 by (rule extends_emit_after) (simp add: P False)
      ultimately have "extends (may_send dry_run) P ?st1 st3" by (rule extends_trans [rotated])
      moreover from b u n t False en Inr pp have "bound' = Some n \<and> st' = st3"
        by (auto simp: tool_body_def Let_def)
      ultimately show ?thesis by simp
    qed
  qed
qed


lemma py_get_dict:
  "py_get (JObj kvs) k d = Inr (case map_of kvs k of None \<Rightarrow> d | Some v \<Rightarrow> v)"
  by simp

lemma tool_body_extends:
  assumes b: "tool_body fuel api srv sid dry_run tool bound st = (r, bound', st')"
    and P: "\<And>l m. is_loop_line dry_run m \<Longrightarrow> P (l, m)"
  shows "extends (may_send dry_run) P st st'"
proof (cases tool)
  case (JObj kvs)
  define u where "u = (case map_of kvs ''uuid'' of None \<Rightarrow> JNull | Some v \<Rightarrow> v)"
  define n where "n = (case map_of kvs ''name'' of None \<Rightarrow> JNull | Some v \<Rightarrow> v)"
  have u: "py_get (JObj kvs) ''uuid'' JNull = Inr u" and n: "py_get (JObj kvs) ''name'' JNull = Inr n"
    by (simp_all add: u_def n_def)
  show ?thesis
  proof (cases "\<not> truthy u \<or> \<not> truthy n")
    case True
    from tool_body_skip [OF u n True] b JObj have "st' = emit WARNING (SkippingTool (JObj kvs)) st"
      by simp
    then show ?thesis by (simp add: extends_emit P)
  next
    case False
    then have t: "truthy u" "truthy n" by simp_all
    have tl: "\<And>l m. is_tool_line dry_run m \<Longrightarrow> P (l, m)"
      by (rule P) (rule tool_line_loop_line)
    have "bound' = Some n \<and> extends (may_send dry_run) P (emit INFO (ProcessingTool n) st) st'"
      by (rule tool_body_valid [where P = P, OF u n t b [unfolded JObj]]) (rule tl)
    then have "extends (may_send dry_run) P (emit INFO (ProcessingTool n) st) st'" by simp
    moreover have "extends (may_send dry_run) P st (emit INFO (ProcessingTool n) st)"
      by (simp add: extends_emit P)
    ultimately show ?thesis by (rule extends_trans [rotated])
  qed
qed (use b in \<open>simp_all add: tool_body_def extends_refl\<close>)

lemma tool_loop_extends:
  assumes P: "\<And>l m. is_loop_line dry_run m \<Longrightarrow> P (l, m)"
  shows "tool_loop fuel api srv sid dry_run tools bound st = (r, st') \<Longrightarrow>
         extends (may_send dry_run) P st st'"
proof (induction tools arbitrary: bound st)
  case Nil
  then show ?case by (simp add: extends_refl)
next
  case (Cons tool tools)
  obtain rb bound1 st1 where b: "tool_body fuel api srv sid dry_run tool bound st = (rb, bound1, st1)"
    by (metis prod_cases3)
  have e1: "extends (may_send dry_run) P st st1"
    by (rule tool_body_extends [where P = P, OF b]) (rule P)
  from Cons.prems b have "st' = st1 \<or>
      tool_loop fuel api srv sid dry_run tools bound1 st1 = (r, st') \<or>
      (\<exists>name e. tool_loop fuel api srv sid dry_run tools bound1
                  (emit ERROR (ErrorProcessingTool name e) st1) = (r, st'))"
    by (auto split: option.splits sum.splits)
  then show ?case
  proof (elim disjE exE)
    assume "st' = st1"
    with e1 show ?thesis by simp
  next
    assume "tool_loop fuel api srv sid dry_run tools bound1 st1 = (r, st')"
    from Cons.IH [OF this] e1 show ?thesis by (rule extends_trans [rotated])
  next
    fix name e
    assume "tool_loop fuel api srv sid dry_run tools bound1
              (emit ERROR (ErrorProcessingTool name e) st1) = (r, st')"
    then have "extends (may_send dry_run) P (emit ERROR (ErrorProcessingTool name e) st1) st'"
      by (rule Cons.IH)
    moreover have "extends (may_send dry_run) P st (emit ERROR (ErrorProcessingTool name e) st1)"
      using e1 by (rule extends_emit_after) (simp add: P)
    ultimately show ?thesis by (rule extends_trans [rotated])
  qed
qed

lemma new_lines_step:
  assumes "logged st2 = logged st @ pre" and "extends Q P st2 st'"
  shows "drop (length (logged st)) (logged st') = pre @ drop (length (logged st2)) (logged st')"
proof -
  from assms(2) obtain ls where "logged st' = logged st2 @ ls"
    by (rule extendsE)
  with assms(1) show ?thesis by simp
qed

lemma filter_tool_lines:
  "list_all (\<lambda>(l, m). is_tool_line dry_run m) ls \<Longrightarrow> filter (\<lambda>(l, m). is_tool_start m) ls = []"
  by (induction ls) (auto dest: tool_line_not_start)

lemma tool_loop_dicts:
  "list_all is_dict tools \<Longrightarrow>
   tool_loop fuel api srv sid dry_run tools bound st = (Some r, st') \<Longrightarrow>
   r = Inr () \<and>
   filter (\<lambda>(l, m). is_tool_start m) (drop (length (logged st)) (logged st')) =
     concat (map tool_start_lines tools)"
proof (induction tools arbitrary: bound st)
  case Nil
  then show ?case by simp
next
  case (Cons tool tools)
  from Cons.prems(1) obtain kvs where tool: "tool = JObj kvs" and rest: "list_all is_dict tools"
    by (cases tool) simp_all
  define u where "u = (case map_of kvs ''uuid'' of None \<Rightarrow> JNull | Some v \<Rightarrow> v)"
  define n where "n = (case map_of kvs ''name'' of None \<Rightarrow> JNull | Some v \<Rightarrow> v)"
  have u: "py_get (JObj kvs) ''uuid'' JNull = Inr u" and n: "py_get (JObj kvs) ''name'' JNull = Inr n"
    by (simp_all add: u_def n_def)
  have ext: "\<And>bound st2. tool_loop fuel api srv sid dry_run tools bound st2 = (Some r, st') \<Longrightarrow>
      extends (may_send dry_run) (\<lambda>(l, m). is_loop_line dry_run m) st2 st'"
    by (rule tool_loop_extends [where P = "\<lambda>(l, m). is_loop_line dry_run m"]) simp_all
  show ?case
  proof (cases "\<not> truthy u \<or> \<not> truthy n")
    case True
    let ?st1 = "emit WARNING (SkippingTool (JObj kvs)) st"
    from tool_body_skip [OF u n True] Cons.prems(2) tool
    have run: "tool_loop fuel api srv sid dry_run tools (Some n) ?st1 = (Some r, st')"
      by simp
    note ih = Cons.IH [OF rest run]
    have "drop (length (logged st)) (logged st') =
        [(WARNING, SkippingTool (JObj kvs))] @ drop (length (logged ?st1)) (logged st')"
      by (rule new_lines_step [OF _ ext [OF run]]) simp
    with ih True show ?thesis
      by (simp add: tool u_def n_def)
  next
    case False
    then have t: "truthy u" "truthy n" by simp_all
    obtain rb bound1 st1 where b: "tool_body fuel api srv sid dry_run (JObj kvs) bound st = (rb, bound1, st1)"
      by (metis prod_cases3)
    have "bound1 = Some n \<and> extends (may_send dry_run) (\<lambda>(l, m). is_tool_line dry_run m)
                 (emit INFO (ProcessingTool n) st) st1"
      by (rule tool_body_valid [where P = "\<lambda>(l, m). is_tool_line dry_run m", OF u n t b]) simp
    then have bound1: "bound1 = Some n"
      and e1: "extends (may_send dry_run) (\<lambda>(l, m). is_tool_line dry_run m)
                 (emit INFO (ProcessingTool n) st) st1"
      by simp_all
    from e1 obtain ls1 where l1: "logged st1 = logged st @ (INFO, ProcessingTool n) # ls1"
      and c1: "list_all (\<lambda>(l, m). is_tool_line dry_run m) ls1"
      by (rule extendsE) simp
    from Cons.prems(2) b bound1 tool obtain st2 errs where
      run: "tool_loop fuel api srv sid dry_run tools (Some n) st2 = (Some r, st')"
      and l2: "logged st2 = logged st1 @ errs"
      and errs: "filter (\<lambda>(l, m). is_tool_start m) errs = []"
      by (cases rb) (auto split: sum.splits)
    note ih = Cons.IH [OF rest run]
    have "drop (length (logged st)) (logged st') =
        ((INFO, ProcessingTool n) # ls1 @ errs) @ drop (length (logged st2)) (logged st')"
      by (rule new_lines_step [OF _ ext [OF run]]) (simp add: l1 l2)
    with ih t errs filter_tool_lines [OF c1] show ?thesis
      by (simp add: tool u_def [symmetric] n_def [symmetric])
  qed
qed

subsection \<open>Runs that end\<close>

text \<open>
  The client and the logger of the example runs; what the request primitive does with an
  outcome it refuses; and the loops with fuel: a pass of the loop of \<open>get_patterns\<close> either
  ends the loop or was answered by an outcome that continues it, so on a service where
  every pagination ends within the fuel, \<open>get_patterns\<close>, the tool loop and the workflow
  return.
\<close>

lemma example_api:
  "CodacyAPI example_settings =
     \<lparr>base_url = ''https://app.codacy.com'',
      api_headers =
        [(''authority'', ''app.codacy.com''),
         (''Content-Type'', ''application/json''),
         (''Accept'', ''application/json''),
         (''api-token'', ''secret''),
         (''x-requested-with'', ''XMLHttpRequest'')],
      api_provider = ''gh'', api_org_name = ''acme''\<rparr>"
  by (simp add: CodacyAPI_def example_settings_def rstrip_slash_def Let_def)

lemma example_setup:
  "setup_logger example_settings example_environment None False = Inr 20"
  by (simp add: setup_logger_def logging_level_def level_constants_def example_settings_def
      example_environment_def)

lemmas run_defs =
  create_standard_def main_def workflow_def obtain_standard_id_def finish_standard_def
  create_coding_standard_def get_available_tools_def enable_tool_def update_patterns_def
  promote_draft_def set_default_def make_request_def requests_request_def
  tool_body_def process_patterns_def get_patterns_def get_patterns_loop.simps(2)
  emit_def sleep_def is_error_status_def Let_def st0_def scripted_def
  created_response_def tools_response_def server_error_def page_response_def example_tool_def
  example_setup

lemma make_request_refused:
  assumes "\<not> accepted (srv (length (sent st)))"
  shows "make_request api srv meth endpoint js dat ps st =
     (Inl (fst (refusal (srv (length (sent st))))),
      st\<lparr>sent := sent st @ [built_request api meth endpoint js dat ps],
         logged := logged st @
           (DEBUG, MakingRequest meth (url (built_request api meth endpoint js dat ps))) #
           map (Pair ERROR) (snd (refusal (srv (length (sent st)))))\<rparr>)"
proof (cases "srv (length (sent st))")
  case TransportFailure
  then show ?thesis
    by (simp add: make_request_def requests_request_def built_request_def Let_def emit_def)
next
  case (HttpResponse code b)
  with assms show ?thesis
    by (cases b)
       (simp_all add: make_request_def requests_request_def built_request_def Let_def emit_def)
qed

lemma refusal_lines: "length (snd (refusal out)) = 1 \<or> length (snd (refusal out)) = 2"
  by (cases out rule: refusal.cases) simp_all

lemma get_patterns_loop_stops:
  assumes "\<not> continues (srv (length (sent st)))"
  shows "\<exists>r st1. get_patterns_loop (Suc fuel) api srv sid uuid limit acc c st = (Some r, st1)"
proof (cases "accepted (srv (length (sent st)))")
  case False
  from make_request_refused [where srv = srv and st = st, OF False]
  show ?thesis
    by (simp add: get_patterns_loop.simps(2) Let_def)
next
  case True
  note m = make_request_accepted [where srv = srv and st = st, OF True]
  from assms True show ?thesis
    by (auto simp: get_patterns_loop.simps(2) Let_def m continues_def split: sum.splits)
qed

lemma get_patterns_loop_continues:
  assumes "continues (srv (length (sent st)))"
  shows "\<exists>acc' c'. get_patterns_loop (Suc fuel) api srv sid uuid limit acc c st =
                     get_patterns_loop fuel api srv sid uuid limit acc' c'
                       (sent_page api sid uuid limit c st)"
proof -
  from assms have True: "accepted (srv (length (sent st)))"
    by (simp add: continues_def)
  have mr: "make_request api srv ''GET'' (tool_endpoint api sid uuid @ [Lit ''/patterns'']) None None
        (Some ([(''limit'', limit)] @ (if truthy c then [(''cursor'', c)] else []))) st =
      (Inr (decoded (srv (length (sent st)))), sent_page api sid uuid limit c st)"
    using True
    by (simp add: make_request_accepted sent_page_def patterns_request_def built_request_def
        tool_endpoint_def)
  have unf: "get_patterns_loop (Suc fuel) api srv sid uuid limit acc c st =
     (case py_get (decoded (srv (length (sent st)))) ''data'' (JArr []) of
                Inl e \<Rightarrow> (Some (Inl e), sent_page api sid uuid limit c st)
              | Inr d \<Rightarrow>
                  (case py_iter d of
                     Inl e \<Rightarrow> (Some (Inl e), sent_page api sid uuid limit c st)
                   | Inr items \<Rightarrow>
                       (case py_get (decoded (srv (length (sent st)))) ''pagination'' (JObj []) of
                          Inl e \<Rightarrow> (Some (Inl e), sent_page api sid uuid limit c st)
                        | Inr pagination \<Rightarrow>
                            (case py_in ''cursor'' pagination of
                               Inl e \<Rightarrow> (Some (Inl e), sent_page api sid uuid limit c st)
                             | Inr has_next_page \<Rightarrow>
                                 if has_next_page then
                                   (case py_getitem pagination ''cursor'' of
                                      Inl e \<Rightarrow> (Some (Inl e), sent_page api sid uuid limit c st)
                                    | Inr c' \<Rightarrow>
                                        get_patterns_loop fuel api srv sid uuid
                                          limit (acc @ items) c' (sent_page api sid uuid limit c st))
                                 else (Some (Inr (acc @ items)), sent_page api sid uuid limit c st)))))"
    using mr by (simp add: get_patterns_loop.simps(2) Let_def tool_endpoint_def)
  from assms show ?thesis
    unfolding unf continues_def
    by (auto split: sum.splits)
qed

lemma get_patterns_loop_step:
  "(\<exists>r st1. get_patterns_loop (Suc fuel) api srv sid uuid limit acc c st = (Some r, st1)) \<or>
   (continues (srv (length (sent st))) \<and>
    (\<exists>acc' c' st1. get_patterns_loop (Suc fuel) api srv sid uuid limit acc c st =
                     get_patterns_loop fuel api srv sid uuid limit acc' c' st1 \<and>
                   length (sent st1) = Suc (length (sent st))))"
proof (cases "continues (srv (length (sent st)))")
  case False
  then show ?thesis
    using get_patterns_loop_stops [of srv st fuel api sid uuid limit acc c] by blast
next
  case True
  from get_patterns_loop_continues [where srv = srv and st = st, OF True, of fuel api sid uuid limit acc c]
  obtain acc' c' where "get_patterns_loop (Suc fuel) api srv sid uuid limit acc c st =
      get_patterns_loop fuel api srv sid uuid limit acc' c' (sent_page api sid uuid limit c st)"
    by blast
  moreover have "length (sent (sent_page api sid uuid limit c st)) = Suc (length (sent st))"
    by simp
  ultimately show ?thesis using True by blast
qed

lemma get_patterns_loop_ends:
  "\<exists>j<fuel. \<not> continues (srv (length (sent st) + j)) \<Longrightarrow>
   fst (get_patterns_loop fuel api srv sid uuid limit acc c st) \<noteq> None"
proof (induction fuel arbitrary: acc c st)
  case 0
  then show ?case by simp
next
  case (Suc fuel)
  from get_patterns_loop_step [of fuel api srv sid uuid limit acc c st]
  show ?case
  proof
    assume "\<exists>r st1. get_patterns_loop (Suc fuel) api srv sid uuid limit acc c st = (Some r, st1)"
    then show ?thesis by auto
  next
    assume a: "continues (srv (length (sent st))) \<and>
      (\<exists>acc' c' st1. get_patterns_loop (Suc fuel) api srv sid uuid limit acc c st =
                     get_patterns_loop fuel api srv sid uuid limit acc' c' st1 \<and>
                   length (sent st1) = Suc (length (sent st)))"
    then obtain acc' c' st1 where r: "get_patterns_loop (Suc fuel) api srv sid uuid limit acc c st =
                     get_patterns_loop fuel api srv sid uuid limit acc' c' st1"
      and l: "length (sent st1) = Suc (length (sent st))"
      by blast
    from Suc.prems obtain j where j: "j < Suc fuel" "\<not> continues (srv (length (sent st) + j))"
      by blast
    with a have "j \<noteq> 0" by (cases j) auto
    then obtain j' where "j = Suc j'" by (cases j) auto
    with j l have "\<exists>j<fuel. \<not> continues (srv (length (sent st1) + j))"
      by (intro exI [of _ j']) simp
    from Suc.IH [OF this] r show ?thesis by simp
  qed
qed

lemma process_patterns_ends:
  "pagination_ends fuel srv \<Longrightarrow> fst (process_patterns fuel api srv sid uuid dry_run st) \<noteq> None"
proof -
  assume "pagination_ends fuel srv"
  then have "\<exists>j<fuel. \<not> continues (srv (length (sent st) + j))"
    by (simp add: pagination_ends_def)
  then have "fst (get_patterns fuel api srv sid uuid (JNum 100) st) \<noteq> None"
    unfolding get_patterns_def by (rule get_patterns_loop_ends)
  then show ?thesis
    by (auto simp: process_patterns_def split: prod.splits option.splits sum.splits)
qed

lemma tool_body_ends:
  assumes p: "pagination_ends fuel srv"
  shows "fst (tool_body fuel api srv sid dry_run tool bound st) \<noteq> None"
proof -
  have pp: "\<And>uuid d st2 r st'. process_patterns fuel api srv sid uuid d st2 = (r, st') \<Longrightarrow> r \<noteq> None"
  proof -
    fix uuid d st2 r st'
    assume "process_patterns fuel api srv sid uuid d st2 = (r, st')"
    with process_patterns_ends [OF p, of api sid uuid d st2] show "r \<noteq> None" by simp
  qed
  show ?thesis
    by (auto simp: tool_body_def Let_def split: sum.splits prod.splits dest: pp)
qed

lemma tool_loop_ends:
  "pagination_ends fuel srv \<Longrightarrow> fst (tool_loop fuel api srv sid dry_run tools bound st) \<noteq> None"
proof (induction tools arbitrary: bound st)
  case Nil
  then show ?case by simp
next
  case (Cons tool tools)
  obtain rb bound1 st1 where b: "tool_body fuel api srv sid dry_run tool bound st = (rb, bound1, st1)"
    by (metis prod_cases3)
  with tool_body_ends [OF Cons.prems, of api sid dry_run tool bound st] have "rb \<noteq> None" by simp
  then obtain res where rb: "rb = Some res" by blast
  show ?case
  proof (cases res)
    case (Inr u)
    with b rb Cons.IH [OF Cons.prems] show ?thesis by simp
  next
    case (Inl e)
    with b rb Cons.IH [OF Cons.prems] show ?thesis by (cases bound1) simp_all
  qed
qed

subsection \<open>A failing tool\<close>

lemma scripted_pagination_ends:
  "list_all (\<lambda>out. \<not> continues out) outs \<Longrightarrow> pagination_ends (Suc fuel) (scripted outs)"
proof -
  assume a: "list_all (\<lambda>out. \<not> continues out) outs"
  have "\<not> continues (scripted outs k)" for k
  proof (cases "k < length outs")
    case True
    with a show ?thesis by (simp add: scripted_def list_all_length)
  next
    case False
    then show ?thesis by (simp add: scripted_def continues_def)
  qed
  then have "\<forall>k. \<exists>j<Suc fuel. \<not> continues (scripted outs (k + j))"
    by (intro allI exI [of _ 0]) simp
  then show ?thesis unfolding pagination_ends_def .
qed

lemma tool_line_not_mark: "is_tool_line dry_run m \<Longrightarrow> \<not> is_loop_mark m"
  by (cases m) simp_all

lemma filter_loop_marks:
  "list_all (\<lambda>(l, m). is_tool_line dry_run m) ls \<Longrightarrow> filter (\<lambda>(l, m). is_loop_mark m) ls = []"
  by (induction ls) (auto dest: tool_line_not_mark)

lemma tool_body_raises_bound:
  assumes "tool_body fuel api srv sid dry_run (JObj kvs) bound st = (Some (Inl e), bound1, st1)"
  shows "bound1 = Some (tool_field (JObj kvs) ''name'')"
  using assms
  by (auto simp: tool_body_def Let_def split: if_splits prod.splits sum.splits)

lemma tool_loop_marks:
  "list_all is_dict tools \<Longrightarrow>
   tool_loop fuel api srv sid dry_run tools bound st = (Some r, st') \<Longrightarrow>
   r = Inr () \<and>
   (\<exists>es. length es = length tools \<and>
      filter (\<lambda>(l, m). is_loop_mark m) (drop (length (logged st)) (logged st')) =
        concat (map loop_lines (zip tools es)))"
proof (induction tools arbitrary: bound st)
  case Nil
  then show ?case by simp
next
  case (Cons tool tools)
  from Cons.prems(1) obtain kvs where tool: "tool = JObj kvs" and rest: "list_all is_dict tools"
    by (cases tool) simp_all
  define u where "u = (case map_of kvs ''uuid'' of None \<Rightarrow> JNull | Some v \<Rightarrow> v)"
  define n where "n = (case map_of kvs ''name'' of None \<Rightarrow> JNull | Some v \<Rightarrow> v)"
  have u: "py_get (JObj kvs) ''uuid'' JNull = Inr u" and n: "py_get (JObj kvs) ''name'' JNull = Inr n"
    by (simp_all add: u_def n_def)
  have nf: "tool_field (JObj kvs) ''name'' = n"
    by (simp add: n_def)
  have ext: "\<And>bound st2. tool_loop fuel api srv sid dry_run tools bound st2 = (Some r, st') \<Longrightarrow>
      extends (may_send dry_run) (\<lambda>(l, m). is_loop_line dry_run m) st2 st'"
    by (rule tool_loop_extends [where P = "\<lambda>(l, m). is_loop_line dry_run m"]) simp_all
  show ?case
  proof (cases "\<not> truthy u \<or> \<not> truthy n")
    case True
    let ?st1 = "emit WARNING (SkippingTool (JObj kvs)) st"
    from tool_body_skip [OF u n True] Cons.prems(2) tool
    have run: "tool_loop fuel api srv sid dry_run tools (Some n) ?st1 = (Some r, st')"
      by simp
    from Cons.IH [OF rest run] obtain es where r: "r = Inr ()" and len: "length es = length tools"
      and ih: "filter (\<lambda>(l, m). is_loop_mark m) (drop (length (logged ?st1)) (logged st')) =
        concat (map loop_lines (zip tools es))"
      by blast
    have d: "drop (length (logged st)) (logged st') =
        [(WARNING, SkippingTool (JObj kvs))] @ drop (length (logged ?st1)) (logged st')"
      by (rule new_lines_step [OF _ ext [OF run]]) simp
    have "length (None # es) = length (tool # tools) \<and>
      filter (\<lambda>(l, m). is_loop_mark m) (drop (length (logged st)) (logged st')) =
        concat (map loop_lines (zip (tool # tools) (None # es)))"
      using ih True len by (simp add: d tool u_def n_def)
    with r show ?thesis by blast
  next
    case False
    then have t: "truthy u" "truthy n" by simp_all
    obtain rb bound1 st1 where b: "tool_body fuel api srv sid dry_run (JObj kvs) bound st = (rb, bound1, st1)"
      by (metis prod_cases3)
    have "bound1 = Some n \<and> extends (may_send dry_run) (\<lambda>(l, m). is_tool_line dry_run m)
                 (emit INFO (ProcessingTool n) st) st1"
      by (rule tool_body_valid [where P = "\<lambda>(l, m). is_tool_line dry_run m", OF u n t b]) simp
    then have bound1: "bound1 = Some n"
      and e1: "extends (may_send dry_run) (\<lambda>(l, m). is_tool_line dry_run m)
                 (emit INFO (ProcessingTool n) st) st1"
      by simp_all
    from e1 obtain ls1 where l1: "logged st1 = logged st @ (INFO, ProcessingTool n) # ls1"
      and c1: "list_all (\<lambda>(l, m). is_tool_line dry_run m) ls1"
      by (rule extendsE) simp
    note f1 = filter_loop_marks [OF c1]
    have start: "tool_start_lines (JObj kvs) = [(INFO, ProcessingTool n)]"
      using t by (simp add: u_def [symmetric] n_def [symmetric])
    from Cons.prems(2) b tool have "rb \<noteq> None" by (cases rb) auto
    then obtain res where rb: "rb = Some res" by blast
    show ?thesis
    proof (cases res)
      case (Inr v)
      with Cons.prems(2) b bound1 tool rb
      have run: "tool_loop fuel api srv sid dry_run tools (Some n) st1 = (Some r, st')"
        by simp
      from Cons.IH [OF rest run] obtain es where r: "r = Inr ()" and len: "length es = length tools"
        and ih: "filter (\<lambda>(l, m). is_loop_mark m) (drop (length (logged st1)) (logged st')) =
          concat (map loop_lines (zip tools es))"
        by blast
      have d: "drop (length (logged st)) (logged st') =
          ((INFO, ProcessingTool n) # ls1) @ drop (length (logged st1)) (logged st')"
        by (rule new_lines_step [OF _ ext [OF run]]) (simp add: l1)
      have "length (None # es) = length (tool # tools) \<and>
        filter (\<lambda>(l, m). is_loop_mark m) (drop (length (logged st)) (logged st')) =
          concat (map loop_lines (zip (tool # tools) (None # es)))"
        using ih len f1 by (simp add: d tool start del: tool_start_lines.simps)
      with r show ?thesis by blast
    next
      case (Inl e)
      let ?st2 = "emit ERROR (ErrorProcessingTool n e) st1"
      from Inl Cons.prems(2) b bound1 tool rb
      have run: "tool_loop fuel api srv sid dry_run tools (Some n) ?st2 = (Some r, st')"
        by simp
      from Cons.IH [OF rest run] obtain es where r: "r = Inr ()" and len: "length es = length tools"
        and ih: "filter (\<lambda>(l, m). is_loop_mark m) (drop (length (logged ?st2)) (logged st')) =
          concat (map loop_lines (zip tools es))"
        by blast
      have d: "drop (length (logged st)) (logged st') =
          ((INFO, ProcessingTool n) # ls1 @ [(ERROR, ErrorProcessingTool n e)]) @
          drop (length (logged ?st2)) (logged st')"
        by (rule new_lines_step [OF _ ext [OF run]]) (simp add: l1)
      have "length (Some e # es) = length (tool # tools) \<and>
        filter (\<lambda>(l, m). is_loop_mark m) (drop (length (logged st)) (logged st')) =
          concat (map loop_lines (zip (tool # tools) (Some e # es)))"
        using ih len f1 by (simp add: d tool start nf del: tool_start_lines.simps tool_field.simps)
      with r show ?thesis by blast
    qed
  qed
qed

lemma enable_tool_refused:
  assumes "\<not> accepted (srv (length (sent st)))"
  shows "enable_tool api srv sid uuid st =
     (Inl (fst (refusal (srv (length (sent st))))),
      st\<lparr>sent := sent st @ [patch_tool_request api sid uuid []],
         logged := logged st @
           (DEBUG, MakingRequest ''PATCH'' (url (patch_tool_request api sid uuid []))) #
           map (Pair ERROR) (snd (refusal (srv (length (sent st)))))\<rparr>)"
  using make_request_refused [where srv = srv and st = st, OF assms]
  by (simp add: enable_tool_def patch_tool_request_def tool_endpoint_def Let_def)

lemma tool_loop_enable_refused:
  assumes "map_of kvs ''uuid'' = Some u" "map_of kvs ''name'' = Some n" "truthy u" "truthy n"
    and "\<not> accepted (srv (length (sent st)))"
  shows "tool_loop fuel api srv sid False (JObj kvs # rest) bound st =
     tool_loop fuel api srv sid False rest (Some n)
       (st\<lparr>sent := sent st @ [patch_tool_request api sid u []],
          logged := logged st @
            [(INFO, ProcessingTool n),
             (DEBUG, MakingRequest ''PATCH'' (url (patch_tool_request api sid u [])))] @
            map (Pair ERROR) (snd (refusal (srv (length (sent st))))) @
            [(ERROR, ErrorProcessingTool n (fst (refusal (srv (length (sent st))))))]\<rparr>)"
proof -
  let ?st1 = "emit INFO (ProcessingTool n) st"
  from assms(5) have "\<not> accepted (srv (length (sent ?st1)))" by simp
  note en = enable_tool_refused [where srv = srv and st = ?st1, OF this]
  have "tool_body fuel api srv sid False (JObj kvs) bound st =
     (Some (Inl (fst (refusal (srv (length (sent st)))))), Some n,
      ?st1\<lparr>sent := sent ?st1 @ [patch_tool_request api sid u []],
         logged := logged ?st1 @
           (DEBUG, MakingRequest ''PATCH'' (url (patch_tool_request api sid u []))) #
           map (Pair ERROR) (snd (refusal (srv (length (sent ?st1)))))\<rparr>)"
    using assms(1-4) by (simp add: tool_body_def Let_def en)
  then show ?thesis
    by (simp add: emit_def)
qed

text \<open>
  Claim C5, as the code has it. On a service where every pagination ends within the fuel,
  the loop over a list of tools that are objects ends, and ends normally, whatever is
  raised on the way; of its own lines (the one that opens a pass and the one of its
  handler) it logs, tool after tool in the order of the list, the opening line of the tool
  followed by at most one \<open>Error processing tool\<close> line, which names that tool. An
  exception raised in the pass of a tool that is an object is caught: the loop logs one
  \<open>Error processing tool\<close> line with the name of the tool and goes on with the rest of the
  list from there. When the \<open>enable_tool\<close> call of a tool is refused, nothing else is sent
  for the tool, and its error lines are those of the request primitive, one or two,
  followed by the line of the loop: two or three lines, not one.
\<close>

theorem tool_failure_does_not_stop_the_loop:
  "(list_all is_dict tools \<and> pagination_ends fuel srv \<longrightarrow>
      fst (tool_loop fuel api srv sid dry_run tools bound st) = Some (Inr ()) \<and>
      (\<exists>es. length es = length tools \<and>
         filter (\<lambda>(l, m). is_loop_mark m)
           (drop (length (logged st))
              (logged (snd (tool_loop fuel api srv sid dry_run tools bound st)))) =
         concat (map loop_lines (zip tools es)))) \<and>
   (\<forall>tool e bound1 st1 rest.
      is_dict tool \<and>
      tool_body fuel api srv sid dry_run tool bound st = (Some (Inl e), bound1, st1) \<longrightarrow>
      tool_loop fuel api srv sid dry_run (tool # rest) bound st =
        tool_loop fuel api srv sid dry_run rest (Some (tool_field tool ''name''))
          (emit ERROR (ErrorProcessingTool (tool_field tool ''name'') e) st1)) \<and>
   (\<forall>kvs u n rest.
      map_of kvs ''uuid'' = Some u \<and> map_of kvs ''name'' = Some n \<and> truthy u \<and> truthy n \<and>
      \<not> accepted (srv (length (sent st))) \<longrightarrow>
      tool_loop fuel api srv sid False (JObj kvs # rest) bound st =
        tool_loop fuel api srv sid False rest (Some n)
          (st\<lparr>sent := sent st @ [patch_tool_request api sid u []],
             logged := logged st @
               [(INFO, ProcessingTool n),
                (DEBUG, MakingRequest ''PATCH'' (url (patch_tool_request api sid u [])))] @
               map (Pair ERROR) (snd (refusal (srv (length (sent st))))) @
               [(ERROR, ErrorProcessingTool n (fst (refusal (srv (length (sent st))))))]\<rparr>) \<and>
      (length (snd (refusal (srv (length (sent st))))) = 1 \<or>
       length (snd (refusal (srv (length (sent st))))) = 2))"
proof -
  let ?run = "tool_loop fuel api srv sid dry_run tools bound st"
  have 1: "list_all is_dict tools \<and> pagination_ends fuel srv \<longrightarrow>
      fst ?run = Some (Inr ()) \<and>
      (\<exists>es. length es = length tools \<and>
         filter (\<lambda>(l, m). is_loop_mark m) (drop (length (logged st)) (logged (snd ?run))) =
         concat (map loop_lines (zip tools es)))"
  proof
    assume a: "list_all is_dict tools \<and> pagination_ends fuel srv"
    then have "fst ?run \<noteq> None" by (simp add: tool_loop_ends)
    then obtain r where "fst ?run = Some r" by blast
    then have r: "?run = (Some r, snd ?run)"
      by (simp add: prod_eq_iff)
    from a have d: "list_all is_dict tools" by simp
    from tool_loop_marks [OF d r] r
    show "fst ?run = Some (Inr ()) \<and>
      (\<exists>es. length es = length tools \<and>
         filter (\<lambda>(l, m). is_loop_mark m) (drop (length (logged st)) (logged (snd ?run))) =
         concat (map loop_lines (zip tools es)))"
      by (metis fst_conv)
  qed
  have 2: "\<forall>tool e bound1 st1 rest.
      is_dict tool \<and>
      tool_body fuel api srv sid dry_run tool bound st = (Some (Inl e), bound1, st1) \<longrightarrow>
      tool_loop fuel api srv sid dry_run (tool # rest) bound st =
        tool_loop fuel api srv sid dry_run rest (Some (tool_field tool ''name''))
          (emit ERROR (ErrorProcessingTool (tool_field tool ''name'') e) st1)"
  proof (intro allI impI)
    fix tool e bound1 st1 rest
    assume a: "is_dict tool \<and>
      tool_body fuel api srv sid dry_run tool bound st = (Some (Inl e), bound1, st1)"
    then obtain kvs where tool: "tool = JObj kvs" by (cases tool) simp_all
    with a have b: "tool_body fuel api srv sid dry_run (JObj kvs) bound st = (Some (Inl e), bound1, st1)"
      by simp
    from tool_body_raises_bound [OF b] have "bound1 = Some (tool_field tool ''name'')"
      by (simp only: tool)
    with a show "tool_loop fuel api srv sid dry_run (tool # rest) bound st =
        tool_loop fuel api srv sid dry_run rest (Some (tool_field tool ''name''))
          (emit ERROR (ErrorProcessingTool (tool_field tool ''name'') e) st1)"
      by simp
  qed
  have 3: "\<forall>kvs u n rest.
      map_of kvs ''uuid'' = Some u \<and> map_of kvs ''name'' = Some n \<and> truthy u \<and> truthy n \<and>
      \<not> accepted (srv (length (sent st))) \<longrightarrow>
      tool_loop fuel api srv sid False (JObj kvs # rest) bound st =
        tool_loop fuel api srv sid False rest (Some n)
          (st\<lparr>sent := sent st @ [patch_tool_request api sid u []],
             logged := logged st @
               [(INFO, ProcessingTool n),
                (DEBUG, MakingRequest ''PATCH'' (url (patch_tool_request api sid u [])))] @
               map (Pair ERROR) (snd (refusal (srv (length (sent st))))) @
               [(ERROR, ErrorProcessingTool n (fst (refusal (srv (length (sent st))))))]\<rparr>) \<and>
      (length (snd (refusal (srv (length (sent st))))) = 1 \<or>
       length (snd (refusal (srv (length (sent st))))) = 2)"
    using tool_loop_enable_refused [where srv = srv and st = st] refusal_lines
    by blast
  from 1 2 3 show ?thesis by (intro conjI)
qed


theorem second_tool_refused_witness:
  "list_all is_dict [example_tool ''u1'' ''T1'', example_tool ''u2'' ''T2'', example_tool ''u3'' ''T3''] \<and>
   pagination_ends 1 second_tool_refused \<and>
   fst (tool_loop 1 (CodacyAPI example_settings) second_tool_refused (JStr ''s1'') False
          [example_tool ''u1'' ''T1'', example_tool ''u2'' ''T2'', example_tool ''u3'' ''T3'']
          None st0) = Some (Inr ()) \<and>
   filter (\<lambda>(l, m). is_loop_mark m)
     (logged (snd (tool_loop 1 (CodacyAPI example_settings) second_tool_refused (JStr ''s1'') False
          [example_tool ''u1'' ''T1'', example_tool ''u2'' ''T2'', example_tool ''u3'' ''T3'']
          None st0))) =
     [(INFO, ProcessingTool (JStr ''T1'')), (INFO, ProcessingTool (JStr ''T2'')),
      (ERROR, ErrorProcessingTool (JStr ''T2'')
                (HTTPError 500 (Json (JObj [(''error'', JStr ''boom'')])))),
      (INFO, ProcessingTool (JStr ''T3''))] \<and>
   map http_method
     (sent (snd (tool_loop 1 (CodacyAPI example_settings) second_tool_refused (JStr ''s1'') False
          [example_tool ''u1'' ''T1'', example_tool ''u2'' ''T2'', example_tool ''u3'' ''T3'']
          None st0))) = [''PATCH'', ''GET'', ''PATCH'', ''PATCH'', ''GET''] \<and>
   \<not> accepted (second_tool_refused
        (length (sent (snd (tool_loop 1 (CodacyAPI example_settings) second_tool_refused
                              (JStr ''s1'') False [example_tool ''u1'' ''T1''] None st0))))) \<and>
   error_lines
     (logged (snd (tool_loop 1 (CodacyAPI example_settings) second_tool_refused (JStr ''s1'') False
          [example_tool ''u2'' ''T2'', example_tool ''u3'' ''T3''] (Some (JStr ''T1''))
          (snd (tool_loop 1 (CodacyAPI example_settings) second_tool_refused
                  (JStr ''s1'') False [example_tool ''u1'' ''T1''] None st0))))) =
     [ApiRequestFailed (HTTPError 500 (Json (JObj [(''error'', JStr ''boom'')]))),
      ResponseLine (JObj [(''error'', JStr ''boom'')]),
      ErrorProcessingTool (JStr ''T2'') (HTTPError 500 (Json (JObj [(''error'', JStr ''boom'')])))]"
proof -
  let ?api = "CodacyAPI example_settings"
  let ?tools = "[example_tool ''u1'' ''T1'', example_tool ''u2'' ''T2'', example_tool ''u3'' ''T3'']"
  let ?run = "tool_loop 1 ?api second_tool_refused (JStr ''s1'') False ?tools None st0"
  let ?s1 = "snd (tool_loop 1 ?api second_tool_refused (JStr ''s1'') False
                    [example_tool ''u1'' ''T1''] None st0)"
  have d: "list_all is_dict ?tools"
    by (simp add: example_tool_def)
  have "list_all (\<lambda>out. \<not> continues out)
          [HttpResponse 200 Empty, page_response [] None, server_error,
           HttpResponse 200 Empty, page_response [] None]"
    by (simp add: continues_def page_response_def server_error_def is_error_status_def)
  then have p: "pagination_ends 1 second_tool_refused"
    unfolding second_tool_refused_def One_nat_def by (rule scripted_pagination_ends)
  note all = tool_failure_does_not_stop_the_loop [where tools = ?tools and fuel = 1
      and srv = second_tool_refused and api = ?api and sid = "JStr ''s1''" and dry_run = False
      and bound = None and st = st0]
  from all [THEN conjunct1] d p have r1: "fst ?run = Some (Inr ())"
    by blast
  have f: "filter (\<lambda>(l, m). is_loop_mark m) (logged (snd ?run)) =
     [(INFO, ProcessingTool (JStr ''T1'')), (INFO, ProcessingTool (JStr ''T2'')),
      (ERROR, ErrorProcessingTool (JStr ''T2'')
                (HTTPError 500 (Json (JObj [(''error'', JStr ''boom'')])))),
      (INFO, ProcessingTool (JStr ''T3''))]"
    by (simp add: example_api second_tool_refused_def run_defs)
  have s: "map http_method (sent (snd ?run)) = [''PATCH'', ''GET'', ''PATCH'', ''PATCH'', ''GET'']"
    by (simp add: example_api second_tool_refused_def run_defs)
  have n: "length (sent ?s1) = 2"
    by (simp add: example_api second_tool_refused_def run_defs)
  have a: "\<not> accepted (second_tool_refused (length (sent ?s1)))"
    by (simp add: n second_tool_refused_def run_defs)
  note one = tool_failure_does_not_stop_the_loop [where tools = "[]" and fuel = 1
      and srv = second_tool_refused and api = ?api and sid = "JStr ''s1''" and dry_run = False
      and bound = "Some (JStr ''T1'')" and st = ?s1]
  from one [THEN conjunct2, THEN conjunct2, rule_format,
      of "[(''uuid'', JStr ''u2''), (''name'', JStr ''T2'')]" "JStr ''u2''" "JStr ''T2''"
         "[example_tool ''u3'' ''T3'']"] a
  have step: "tool_loop 1 ?api second_tool_refused (JStr ''s1'') False
        (JObj [(''uuid'', JStr ''u2''), (''name'', JStr ''T2'')] # [example_tool ''u3'' ''T3''])
        (Some (JStr ''T1'')) ?s1 =
      tool_loop 1 ?api second_tool_refused (JStr ''s1'') False [example_tool ''u3'' ''T3'']
        (Some (JStr ''T2''))
        (?s1\<lparr>sent := sent ?s1 @ [patch_tool_request ?api (JStr ''s1'') (JStr ''u2'') []],
             logged := logged ?s1 @
               [(INFO, ProcessingTool (JStr ''T2'')),
                (DEBUG, MakingRequest ''PATCH''
                   (url (patch_tool_request ?api (JStr ''s1'') (JStr ''u2'') [])))] @
               map (Pair ERROR) (snd (refusal (second_tool_refused (length (sent ?s1))))) @
               [(ERROR, ErrorProcessingTool (JStr ''T2'')
                          (fst (refusal (second_tool_refused (length (sent ?s1))))))]\<rparr>)"
    by simp
  have e: "error_lines
     (logged (snd (tool_loop 1 ?api second_tool_refused (JStr ''s1'') False
          [example_tool ''u2'' ''T2'', example_tool ''u3'' ''T3''] (Some (JStr ''T1'')) ?s1))) =
     [ApiRequestFailed (HTTPError 500 (Json (JObj [(''error'', JStr ''boom'')]))),
      ResponseLine (JObj [(''error'', JStr ''boom'')]),
      ErrorProcessingTool (JStr ''T2'') (HTTPError 500 (Json (JObj [(''error'', JStr ''boom'')])))]"
    unfolding example_tool_def [of "''u2''" "''T2''"] step
    by (simp add: n example_api second_tool_refused_def run_defs patch_tool_request_def
        built_request_def tool_endpoint_def)
  from d p r1 f s a e show ?thesis
    by (intro conjI)
qed

text \<open>
  The run of the scenario of claim C5: three tools, the \<open>enable_tool\<close> call of the second is
  answered with status 500. The tools before and after it are processed and the run
  returns, but three lines are logged at level \<open>ERROR\<close> for the second tool: two by the
  request primitive and one by the loop.
\<close>

theorem second_enable_fails_three_error_lines:
  "fst (create_standard 1 example_settings example_environment second_enable_fails ''std'' False False None st0) = Some Returned \<and>
   map http_method (sent (snd (create_standard 1 example_settings example_environment second_enable_fails ''std'' False False None st0))) =
     [''POST'', ''GET'', ''PATCH'', ''GET'', ''PATCH'', ''PATCH'', ''GET'', ''POST'', ''POST''] \<and>
   error_lines
     (logged (snd (create_standard 1 example_settings example_environment second_enable_fails ''std'' False False None st0))) =
     [ApiRequestFailed (HTTPError 500 (Json (JObj [(''error'', JStr ''boom'')]))),
      ResponseLine (JObj [(''error'', JStr ''boom'')]),
      ErrorProcessingTool (JStr ''T2'') (HTTPError 500 (Json (JObj [(''error'', JStr ''boom'')])))]"
  by (simp add: example_api second_enable_fails_def run_defs)

subsection \<open>The workflow: empty catalog and dry run\<close>

lemma obtain_standard_id_dry:
  "obtain_standard_id api srv name True st =
     (Inr (JStr ''dry-run-id''), emit INFO WouldCreateStandard (emit INFO (CreatingStandard name) st))"
  by (simp add: obtain_standard_id_def)

lemma obtain_standard_id_sent:
  "obtain_standard_id api srv name dry_run st = (r, st1) \<Longrightarrow>
   sent st1 = sent st @ (if dry_run then [] else [create_request api name])"
proof (cases dry_run)
  case True
  assume "obtain_standard_id api srv name dry_run st = (r, st1)"
  with True show ?thesis by (auto simp: obtain_standard_id_def)
next
  case False
  assume o: "obtain_standard_id api srv name dry_run st = (r, st1)"
  let ?st0 = "emit INFO (CreatingStandard name) st"
  obtain r2 st2 where c: "create_coding_standard api srv name ?st0 = (r2, st2)"
    by fastforce
  then have "sent st2 = sent st @ [create_request api name]"
    using make_request_sent [of api srv "''POST''" "standards_endpoint api"
        "Some (JObj [(''name'', JStr name), (''languages'', JArr (map JStr languages))])" None None ?st0]
    by (simp add: create_coding_standard_def create_request_def standards_endpoint_def Let_def)
  moreover from o c False have "sent st1 = sent st2"
    by (auto simp: obtain_standard_id_def Let_def split: sum.splits if_splits)
  ultimately show ?thesis using False by simp
qed

lemma get_available_tools_accepted:
  "accepted (srv (length (sent st))) \<Longrightarrow>
   get_available_tools api srv st =
     (py_get (decoded (srv (length (sent st)))) ''data'' (JArr []),
      st\<lparr>sent := sent st @ [tools_request api],
         logged := logged st @ [(DEBUG, MakingRequest ''GET'' (url (tools_request api)))]\<rparr>)"
  by (simp add: get_available_tools_def make_request_accepted tools_request_def built_request_def
      Let_def)

text \<open>
  Claim C6. When the standard is there (created, or the placeholder of a dry run) and
  \<open>get_available_tools\<close> returns an empty catalog, \<open>create_standard\<close> (whose logger has
  been set up) logs the warning
  \<open>No tools found\<close> and returns; the process exits with status 0. The only requests of the
  run are the one that created the standard (none in a dry run) and the one for the
  catalog: nothing is sent for any tool, and nothing to promote the standard or
  make it the default.
\<close>

theorem empty_catalog_returns_quietly:
  "\<lbrakk>setup_logger cfg env output_path verbose = Inr lvl;
    obtain_standard_id (CodacyAPI cfg) srv name dry_run st = (Inr sid, st1);
    accepted (srv (length (sent st1)));
    py_get (decoded (srv (length (sent st1)))) ''data'' (JArr []) = Inr tools;
    \<not> truthy tools\<rbrakk> \<Longrightarrow>
   fst (create_standard fuel cfg env srv name dry_run verbose output_path st) = Some Returned \<and>
   fst (main fuel cfg env srv name dry_run verbose output_path st) = Some 0 \<and>
   sent (snd (create_standard fuel cfg env srv name dry_run verbose output_path st)) =
     sent st @ (if dry_run then [] else [create_request (CodacyAPI cfg) name]) @
       [tools_request (CodacyAPI cfg)] \<and>
   logged (snd (create_standard fuel cfg env srv name dry_run verbose output_path st)) =
     logged st1 @ [(INFO, FetchingTools),
                   (DEBUG, MakingRequest ''GET'' (url (tools_request (CodacyAPI cfg)))),
                   (WARNING, NoToolsFound)]"
proof -
  assume lg: "setup_logger cfg env output_path verbose = Inr lvl"
    and o: "obtain_standard_id (CodacyAPI cfg) srv name dry_run st = (Inr sid, st1)"
    and a: "accepted (srv (length (sent st1)))"
    and d: "py_get (decoded (srv (length (sent st1)))) ''data'' (JArr []) = Inr tools"
    and e: "\<not> truthy tools"
  let ?api = "CodacyAPI cfg"
  let ?st2 = "emit INFO FetchingTools st1"
  from a have a2: "accepted (srv (length (sent ?st2)))" by simp
  have g: "get_available_tools ?api srv ?st2 =
     (Inr tools, ?st2\<lparr>sent := sent ?st2 @ [tools_request ?api],
         logged := logged ?st2 @ [(DEBUG, MakingRequest ''GET'' (url (tools_request ?api)))]\<rparr>)"
    using get_available_tools_accepted [of srv ?st2 ?api] a2 d by simp
  have w: "workflow fuel ?api srv name dry_run st =
     (Some (Inr ()), emit WARNING NoToolsFound
        (?st2\<lparr>sent := sent ?st2 @ [tools_request ?api],
         logged := logged ?st2 @ [(DEBUG, MakingRequest ''GET'' (url (tools_request ?api)))]\<rparr>))"
    using e by (simp add: workflow_def o g)
  have s1: "sent st1 = sent st @ (if dry_run then [] else [create_request ?api name])"
    using o by (rule obtain_standard_id_sent)
  show ?thesis
    by (simp add: main_def create_standard_def lg Let_def w s1)
qed

theorem empty_catalog_witness:
  "setup_logger example_settings example_environment None False = Inr 20 \<and>
   obtain_standard_id (CodacyAPI example_settings) empty_catalog ''std'' False st0 =
     (Inr (JStr ''s1''), snd (obtain_standard_id (CodacyAPI example_settings) empty_catalog ''std'' False st0)) \<and>
   accepted (empty_catalog 1) \<and>
   py_get (decoded (empty_catalog 1)) ''data'' (JArr []) = Inr (JArr []) \<and>
   \<not> truthy (JArr []) \<and>
   fst (main 1 example_settings example_environment empty_catalog ''std'' False False None st0) = Some 0 \<and>
   map http_method (sent (snd (create_standard 1 example_settings example_environment empty_catalog ''std'' False False None st0))) =
     [''POST'', ''GET''] \<and>
   fst (main 1 example_settings example_environment empty_catalog_dry ''std'' True False None st0) = Some 0 \<and>
   sent (snd (create_standard 1 example_settings example_environment empty_catalog_dry ''std'' True False None st0)) =
     [tools_request (CodacyAPI example_settings)]"
proof -
  let ?api = "CodacyAPI example_settings"
  let ?st1 = "snd (obtain_standard_id ?api empty_catalog ''std'' False st0)"
  have o: "obtain_standard_id ?api empty_catalog ''std'' False st0 = (Inr (JStr ''s1''), ?st1)"
    by (rule prod_eqI) (simp_all add: example_api empty_catalog_def run_defs)
  have n: "length (sent ?st1) = 1"
    by (simp add: example_api empty_catalog_def run_defs)
  have a: "accepted (empty_catalog (length (sent ?st1)))"
    by (simp add: n empty_catalog_def run_defs)
  have d: "py_get (decoded (empty_catalog (length (sent ?st1)))) ''data'' (JArr []) = Inr (JArr [])"
    by (simp add: n empty_catalog_def run_defs)
  have e: "\<not> truthy (JArr [])" by simp
  let ?std = "emit INFO WouldCreateStandard (emit INFO (CreatingStandard ''std'') st0)"
  have od: "obtain_standard_id ?api empty_catalog_dry ''std'' True st0 = (Inr (JStr ''dry-run-id''), ?std)"
    by (rule obtain_standard_id_dry)
  have ad: "accepted (empty_catalog_dry (length (sent ?std)))"
    by (simp add: empty_catalog_dry_def run_defs)
  have dd: "py_get (decoded (empty_catalog_dry (length (sent ?std)))) ''data'' (JArr []) = Inr (JArr [])"
    by (simp add: empty_catalog_dry_def run_defs)
  note wet = empty_catalog_returns_quietly [where cfg = example_settings and env = example_environment
      and output_path = None and verbose = False and fuel = 1, OF example_setup o a d e]
  note dry = empty_catalog_returns_quietly [where cfg = example_settings and env = example_environment
      and output_path = None and verbose = False and fuel = 1, OF example_setup od ad dd e]
  have 1: "accepted (empty_catalog 1)"
    using a by (simp only: n)
  have 2: "py_get (decoded (empty_catalog 1)) ''data'' (JArr []) = Inr (JArr [])"
    using d by (simp only: n)
  have 3: "fst (main 1 example_settings example_environment empty_catalog ''std'' False False None st0) = Some 0"
    using wet by blast
  have 4: "map http_method (sent (snd (create_standard 1 example_settings example_environment empty_catalog ''std'' False False None st0))) =
     [''POST'', ''GET'']"
    using wet by (simp add: create_request_def tools_request_def built_request_def st0_def)
  have 5: "fst (main 1 example_settings example_environment empty_catalog_dry ''std'' True False None st0) = Some 0"
    using dry by blast
  have 6: "sent (snd (create_standard 1 example_settings example_environment empty_catalog_dry ''std'' True False None st0)) =
     [tools_request (CodacyAPI example_settings)]"
    using dry by (simp add: st0_def)
  from example_setup o 1 2 e 3 4 5 6 show ?thesis
    by (intro conjI)
qed


lemma may_send_True: "may_send True = read_only"
  by (rule ext) (simp add: may_send_def)

lemma get_available_tools_sent:
  "get_available_tools api srv st = (r, st') \<Longrightarrow> sent st' = sent st @ [tools_request api]"
  using make_request_sent [of api srv "''GET''" "[Lit ''api/v3/tools'']" None None None st]
  by (auto simp: get_available_tools_def tools_request_def Let_def split: prod.splits sum.splits)

lemma workflow_dry:
  assumes w: "workflow fuel api srv name True st = (r, st')"
    and P: "\<And>l m. is_run_line True m \<Longrightarrow> P (l, m)"
  shows "extends read_only P (emit INFO WouldCreateStandard (emit INFO (CreatingStandard name) st)) st'"
    and "\<exists>rs. sent st' = sent st @ tools_request api # rs"
proof -
  let ?st1 = "emit INFO WouldCreateStandard (emit INFO (CreatingStandard name) st)"
  let ?st1' = "emit INFO FetchingTools ?st1"
  have Ploop: "\<And>l m. is_loop_line True m \<Longrightarrow> P (l, m)"
    by (rule P) (rule loop_line_run_line)
  have Papi: "\<And>l m. is_api_line m \<Longrightarrow> P (l, m)"
    by (rule Ploop, rule tool_line_loop_line, rule pattern_line_tool_line, rule api_line_pattern_line)
  obtain rt st2 where g: "get_available_tools api srv ?st1' = (rt, st2)"
    by fastforce
  have "extends read_only P ?st1' st2"
    by (rule get_available_tools_extends [OF g])
       (simp_all add: Papi read_only_def tools_request_def built_request_def)
  moreover have "extends read_only P ?st1 ?st1'"
    by (rule extends_emit) (simp add: P)
  ultimately have e2: "extends read_only P ?st1 st2" by (rule extends_trans [rotated])
  have s2: "sent st2 = sent st @ [tools_request api]"
    using get_available_tools_sent [OF g] by simp
  have e3: "extends read_only P st2 st'"
  proof (cases rt)
    case (Inl e)
    with w g have "st' = st2" by (simp add: workflow_def obtain_standard_id_dry)
    then show ?thesis by (simp add: extends_refl)
  next
    case (Inr tools)
    show ?thesis
    proof (cases "truthy tools")
      case False
      with w g Inr have "st' = emit WARNING NoToolsFound st2"
        by (simp add: workflow_def obtain_standard_id_dry)
      then show ?thesis by (simp add: extends_emit P)
    next
      case True
      show ?thesis
      proof (cases "py_iter tools")
        case (Inl e)
        with w g Inr True have "st' = st2" by (simp add: workflow_def obtain_standard_id_dry)
        then show ?thesis by (simp add: extends_refl)
      next
        case tl: (Inr tool_list)
        obtain rl st3 where l: "tool_loop fuel api srv (JStr ''dry-run-id'') True tool_list None st2 = (rl, st3)"
          by fastforce
        have "extends (may_send True) P st2 st3"
          by (rule tool_loop_extends [where P = P, OF _ l]) (rule Ploop)
        then have e: "extends read_only P st2 st3" by (simp only: may_send_True)
        from w g Inr True tl l have "st' = st3 \<or> st' = emit INFO ConfiguredStandard st3"
          by (auto simp: workflow_def obtain_standard_id_dry finish_standard_def
              split: option.splits sum.splits)
        then show ?thesis
        proof
          assume "st' = st3"
          with e show ?thesis by simp
        next
          assume "st' = emit INFO ConfiguredStandard st3"
          with e show ?thesis by (simp add: extends_emit_after P)
        qed
      qed
    qed
  qed
  from e2 e3 show "extends read_only P ?st1 st'" by (rule extends_trans)
  from e3 obtain rs where "sent st' = sent st2 @ rs" by (rule extendsE)
  with s2 show "\<exists>rs. sent st' = sent st @ tools_request api # rs" by simp
qed

lemma process_patterns_dry_readable:
  assumes "get_patterns fuel api srv sid uuid (JNum 100) st = (Some (Inr ps), st1)"
    and "list_all readable ps"
  shows "process_patterns fuel api srv sid uuid True st =
     (Some (Inr ()), st1\<lparr>logged := logged st1 @ map would_disable (filter is_selected ps)\<rparr>)"
  by (simp add: process_patterns_def assms(1) select_patterns_readable [OF assms(2)])

lemma get_patterns_pages:
  assumes w: "well_paged ps" and s: "serves srv (length (sent st)) ps" and f: "length ps \<le> fuel"
  shows "get_patterns fuel api srv sid u (JNum 100) st =
     (Some (Inr (concat (map fst ps))),
      st\<lparr>sent := sent st @ page_requests api sid u ps,
         logged := logged st @ replicate (length ps)
           (DEBUG, MakingRequest ''GET'' (url (patterns_request api sid u (JNum 100) (JStr []))))\<rparr>)"
proof -
  define n where "n = length ps - 1"
  from w have len: "length ps = Suc n"
    by (cases ps) (simp_all add: well_paged_def n_def)
  have a: "\<forall>k\<le>n. page_of (srv (length (sent st) + k)) = Some (fst (ps ! k), snd (ps ! k))"
    using s by (auto simp: serves_def list_all_iff len simp del: upt_Suc)
  have b: "\<forall>k<n. snd (ps ! k) \<noteq> None"
  proof (intro allI impI)
    fix k assume k: "k < n"
    from w have "list_all (\<lambda>p. snd p \<noteq> None) (butlast ps)" by (simp add: well_paged_def)
    moreover from k len have "k < length (butlast ps)" by simp
    ultimately have "snd (butlast ps ! k) \<noteq> None" by (simp add: list_all_length)
    with k len show "snd (ps ! k) \<noteq> None" by (simp add: nth_butlast)
  qed
  have c: "snd (ps ! n) = None"
  proof -
    from w have "ps \<noteq> []" and l: "snd (last ps) = None" by (simp_all add: well_paged_def)
    then have "last ps = ps ! (length ps - 1)" by (simp add: last_conv_nth)
    with l len show ?thesis by simp
  qed
  have d: "n < fuel" using f len by simp
  note run = pages_run [where items = "\<lambda>k. fst (ps ! k)" and cur = "\<lambda>k. snd (ps ! k)"
      and acc = "[]" and c = "JStr []", OF a b c d, of api sid u "JNum 100"]
  have m: "map (\<lambda>k. fst (ps ! k)) [0..<Suc n] = map fst ps"
    unfolding len [symmetric] by (rule nth_equalityI) simp_all
  let ?g = "get_patterns_loop fuel api srv sid u (JNum 100) [] (JStr []) st"
  from run have 1: "fst ?g = Some (Inr (concat (map fst ps)))"
    by (simp only: m append_Nil)
  from run have 2: "sent (snd ?g) = sent st @ page_requests api sid u ps"
    by (simp only: page_requests_def len)
  from run have 3: "logged (snd ?g) = logged st @ replicate (length ps)
           (DEBUG, MakingRequest ''GET'' (url (patterns_request api sid u (JNum 100) (JStr []))))"
    by (simp only: len)
  from run have 4: "slept (snd ?g) = slept st" by simp
  have "snd ?g = st\<lparr>sent := sent st @ page_requests api sid u ps,
         logged := logged st @ replicate (length ps)
           (DEBUG, MakingRequest ''GET'' (url (patterns_request api sid u (JNum 100) (JStr []))))\<rparr>"
    by (rule state.equality) (simp_all add: 2 3 4)
  with 1 show ?thesis
    unfolding get_patterns_def by (simp add: prod_eq_iff)
qed

lemma tool_body_dry_pages:
  assumes c: "complete tool" and w: "well_paged ps" and f: "length ps \<le> fuel"
    and s: "serves srv (length (sent st)) ps" and r: "list_all readable (concat (map fst ps))"
  shows "tool_body fuel api srv (JStr ''dry-run-id'') True tool bound st =
     (Some (Inr ()), Some (tool_field tool ''name''),
      st\<lparr>sent := sent st @ dry_requests api (tool, ps),
         logged := logged st @ dry_pass_lines api (tool, ps)\<rparr>)"
proof -
  from c obtain kvs where tool: "tool = JObj kvs" by (cases tool) (simp_all add: complete_def)
  let ?u = "tool_field tool ''uuid''" and ?n = "tool_field tool ''name''"
  have u: "py_get tool ''uuid'' JNull = Inr ?u" and n: "py_get tool ''name'' JNull = Inr ?n"
    by (simp_all add: tool)
  from c have t: "truthy ?u" "truthy ?n" by (simp_all add: complete_def)
  let ?st2 = "emit INFO (WouldEnableTool ?n) (emit INFO (ProcessingTool ?n) st)"
  from s have s2: "serves srv (length (sent ?st2)) ps" by simp
  note g = get_patterns_pages [OF w s2 f, of api "JStr ''dry-run-id''" ?u]
  note pp = process_patterns_dry_readable [OF g r]
  have tb: "tool_body fuel api srv (JStr ''dry-run-id'') True tool bound st =
      (case process_patterns fuel api srv (JStr ''dry-run-id'') ?u True ?st2 of
         (res, st3) \<Rightarrow> (res, Some ?n, st3))"
    using t by (simp add: tool_body_def u n Let_def del: tool_field.simps)
  show ?thesis
    unfolding tb pp using c by (simp add: emit_def del: tool_field.simps)
qed

lemma length_page_requests [simp]: "length (page_requests api sid u ps) = length ps"
  by (simp add: page_requests_def)

lemma tool_loop_dry_served:
  "dry_served fuel srv (length (sent st)) tps \<Longrightarrow>
   tool_loop fuel api srv (JStr ''dry-run-id'') True (map fst tps) bound st =
     (Some (Inr ()),
      st\<lparr>sent := sent st @ concat (map (dry_requests api) tps),
         logged := logged st @ concat (map (dry_pass_lines api) tps)\<rparr>)"
proof (induction tps arbitrary: bound st)
  case Nil
  then show ?case by simp
next
  case (Cons tp tps)
  obtain tool ps where tp: "tp = (tool, ps)" by (cases tp)
  from Cons.prems tp have d: "is_dict tool"
    and rest: "dry_served fuel srv (length (sent st) + length ps) tps"
    by simp_all
  show ?case
  proof (cases "complete tool")
    case True
    with Cons.prems tp have w: "well_paged ps" and f: "length ps \<le> fuel"
      and s: "serves srv (length (sent st)) ps" and r: "list_all readable (concat (map fst ps))"
      by simp_all
    let ?st1 = "st\<lparr>sent := sent st @ dry_requests api (tool, ps),
         logged := logged st @ dry_pass_lines api (tool, ps)\<rparr>"
    note b = tool_body_dry_pages [OF True w f s r, of api bound]
    from rest have "dry_served fuel srv (length (sent ?st1)) tps" by simp
    note ih = Cons.IH [OF this, of "Some (tool_field tool ''name'')"]
    show ?thesis
      unfolding tp by (simp add: b ih del: dry_requests.simps dry_pass_lines.simps)
  next
    case False
    with Cons.prems tp have ps: "ps = []" by simp
    from d obtain kvs where tool: "tool = JObj kvs" by (cases tool) simp_all
    let ?u = "tool_field tool ''uuid''" and ?n = "tool_field tool ''name''"
    have u: "py_get (JObj kvs) ''uuid'' JNull = Inr ?u" and n: "py_get (JObj kvs) ''name'' JNull = Inr ?n"
      by (simp_all add: tool)
    from False d have t: "\<not> truthy ?u \<or> \<not> truthy ?n" by (auto simp: complete_def)
    let ?st1 = "emit WARNING (SkippingTool tool) st"
    note b = tool_body_skip [OF u n t, of fuel api srv "JStr ''dry-run-id''" True bound st,
        folded tool]
    from rest ps have "dry_served fuel srv (length (sent ?st1)) tps" by simp
    note ih = Cons.IH [OF this, of "Some ?n"]
    have "tool_loop fuel api srv (JStr ''dry-run-id'') True (map fst (tp # tps)) bound st =
        tool_loop fuel api srv (JStr ''dry-run-id'') True (map fst tps) (Some ?n) ?st1"
      unfolding tp by (simp add: b del: tool_field.simps)
    then show ?thesis
      unfolding tp ih using False
      by (simp add: ps page_requests_def emit_def del: tool_field.simps)
  qed
qed

lemma workflow_dry_served:
  assumes a: "accepted (srv (length (sent st)))"
    and d: "py_get (decoded (srv (length (sent st)))) ''data'' (JArr []) = Inr (JArr (map fst tps))"
    and ne: "tps \<noteq> []"
    and s: "dry_served fuel srv (Suc (length (sent st))) tps"
  shows "workflow fuel api srv name True st =
     (Some (Inr ()),
      st\<lparr>sent := sent st @ tools_request api # concat (map (dry_requests api) tps),
         logged := logged st @
           [(INFO, CreatingStandard name), (INFO, WouldCreateStandard), (INFO, FetchingTools),
            (DEBUG, MakingRequest ''GET'' (url (tools_request api)))] @
           concat (map (dry_pass_lines api) tps) @ [(INFO, ConfiguredStandard)]\<rparr>)"
proof -
  define st1 where "st1 = emit INFO FetchingTools
                (emit INFO WouldCreateStandard (emit INFO (CreatingStandard name) st))"
  define st2 where "st2 = st1\<lparr>sent := sent st1 @ [tools_request api],
         logged := logged st1 @ [(DEBUG, MakingRequest ''GET'' (url (tools_request api)))]\<rparr>"
  define st3 where "st3 = st2\<lparr>sent := sent st2 @ concat (map (dry_requests api) tps),
               logged := logged st2 @ concat (map (dry_pass_lines api) tps)\<rparr>"
  from a have a1: "accepted (srv (length (sent st1)))" by (simp add: st1_def)
  have n1: "length (sent st1) = length (sent st)" by (simp add: st1_def)
  have g: "get_available_tools api srv st1 = (Inr (JArr (map fst tps)), st2)"
    using get_available_tools_accepted [where srv = srv and st = st1, OF a1] d
    by (simp add: st2_def n1)
  from s have "dry_served fuel srv (length (sent st2)) tps" by (simp add: st2_def n1)
  from tool_loop_dry_served [OF this, of api None]
  have l: "tool_loop fuel api srv (JStr ''dry-run-id'') True (map fst tps) None st2 =
      (Some (Inr ()), st3)"
    by (simp only: st3_def)
  have "workflow fuel api srv name True st = (Some (Inr ()), emit INFO ConfiguredStandard st3)"
    using ne
    by (simp add: workflow_def obtain_standard_id_dry st1_def [symmetric] g l finish_standard_def)
  then show ?thesis
    by (simp add: st3_def st2_def st1_def emit_def)
qed

lemma create_standard_dry:
  assumes lg: "setup_logger cfg env output_path verbose = Inr lvl"
  shows "extends read_only (\<lambda>(l, m). is_run_line True m)
           (emit INFO WouldCreateStandard (emit INFO (CreatingStandard name) st))
           (snd (create_standard fuel cfg env srv name True verbose output_path st))"
    and "\<exists>rs. sent (snd (create_standard fuel cfg env srv name True verbose output_path st)) =
           sent st @ tools_request (CodacyAPI cfg) # rs"
proof -
  let ?st1 = "emit INFO WouldCreateStandard (emit INFO (CreatingStandard name) st)"
  let ?c = "create_standard fuel cfg env srv name True verbose output_path st"
  obtain r st' where w: "workflow fuel (CodacyAPI cfg) srv name True st = (r, st')"
    by fastforce
  have e: "extends read_only (\<lambda>(l, m). is_run_line True m) ?st1 st'"
    by (rule workflow_dry(1) [where P = "\<lambda>(l, m). is_run_line True m", OF w]) simp
  have s: "\<exists>rs. sent st' = sent st @ tools_request (CodacyAPI cfg) # rs"
    by (rule workflow_dry(2) [where P = "\<lambda>(l, m). is_run_line True m", OF w]) simp
  have c: "snd ?c = st' \<or> (\<exists>e. snd ?c = emit ERROR (FailedToCreate e) st')"
    by (auto simp: create_standard_def lg w Let_def split: option.splits sum.splits)
  from c show "extends read_only (\<lambda>(l, m). is_run_line True m) ?st1 (snd ?c)"
  proof (elim disjE exE)
    assume "snd ?c = st'"
    with e show ?thesis by simp
  next
    fix err
    assume a: "snd ?c = emit ERROR (FailedToCreate err) st'"
    have "extends read_only (\<lambda>(l, m). is_run_line True m) ?st1 (emit ERROR (FailedToCreate err) st')"
      using e by (rule extends_emit_after) simp
    with a show ?thesis by simp
  qed
  from c s show "\<exists>rs. sent (snd ?c) = sent st @ tools_request (CodacyAPI cfg) # rs"
    by auto
qed

lemma create_standard_dry_reads:
  "\<exists>rs. sent (snd (create_standard fuel cfg env srv name True verbose output_path st)) = sent st @ rs \<and>
        list_all read_only rs"
proof (cases "setup_logger cfg env output_path verbose")
  case (Inl e)
  then show ?thesis by (simp add: create_standard_def)
next
  case (Inr lvl)
  let ?st1 = "emit INFO WouldCreateStandard (emit INFO (CreatingStandard name) st)"
  let ?c = "create_standard fuel cfg env srv name True verbose output_path st"
  from create_standard_dry(1) [OF Inr, of name st fuel srv]
  have "extends read_only (\<lambda>(l, m). is_run_line True m) ?st1 (snd ?c)" .
  then obtain rs where "sent (snd ?c) = sent ?st1 @ rs" and "list_all read_only rs"
    by (rule extendsE)
  then show ?thesis by simp
qed

lemma create_standard_dry_served:
  assumes lg: "setup_logger cfg env output_path verbose = Inr lvl"
    and a: "accepted (srv (length (sent st)))"
    and d: "py_get (decoded (srv (length (sent st)))) ''data'' (JArr []) = Inr (JArr (map fst tps))"
    and ne: "tps \<noteq> []"
    and s: "dry_served fuel srv (Suc (length (sent st))) tps"
  shows "create_standard fuel cfg env srv name True verbose output_path st =
     (Some Returned,
      st\<lparr>sent := sent st @ tools_request (CodacyAPI cfg) #
                   concat (map (dry_requests (CodacyAPI cfg)) tps),
         logged := logged st @
           [(INFO, CreatingStandard name), (INFO, WouldCreateStandard), (INFO, FetchingTools),
            (DEBUG, MakingRequest ''GET'' (url (tools_request (CodacyAPI cfg))))] @
           concat (map (dry_pass_lines (CodacyAPI cfg)) tps) @ [(INFO, ConfiguredStandard)]\<rparr>)"
  by (simp add: create_standard_def lg Let_def workflow_dry_served [OF a d ne s])

text \<open>
  Claim C4, as the code has it. In a dry run, whatever the service answers and whatever the
  fuel, every request sent is a \<open>GET\<close> without body. Once the logger is set up, the first
  request is the one for the tool catalog; the log starts with the line that announces the
  creation and the line \<open>[DRY RUN] Would create\<close>, and every later line is of a kind
  that a dry run may log (\<open>is_run_line True\<close>): none is a line that only a real run logs
  (\<open>Created coding standard with ID\<close>, \<open>Enabled tool\<close>, \<open>Disabled ... patterns\<close>,
  \<open>Promoting coding standard\<close>, \<open>Setting as default coding standard\<close>). When the catalog is a list of objects and the
  service answers the requests for the patterns of each complete tool, one tool after
  the other, with the pages of that tool (patterns that can be read, no more pages than
  the fuel), the run returns; it has sent the request for the catalog and then, tool by
  tool, one request for each page, and it has logged, after the four lines up to the
  request for the catalog: for each complete tool \<open>Processing tool\<close>,
  \<open>[DRY RUN] Would enable tool\<close>, one line for each request and one
  \<open>[DRY RUN] Would disable pattern\<close> line for each selected pattern of its pages; for
  each other tool the warning \<open>Skipping tool\<close>; and last \<open>Successfully configured\<close>,
  with no line about promoting the standard or making it the default. And whenever
  \<open>get_patterns\<close> returns patterns that can be read, \<open>process_patterns\<close> logs one
  \<open>[DRY RUN] Would disable pattern\<close> line for each selected pattern and sends nothing more.
\<close>

theorem dry_run_sends_only_reads:
  "(\<exists>rs. sent (snd (create_standard fuel cfg env srv name True verbose output_path st)) = sent st @ rs \<and>
         list_all read_only rs) \<and>
   (\<forall>lvl. setup_logger cfg env output_path verbose = Inr lvl \<longrightarrow>
      extends read_only (\<lambda>(l, m). is_run_line True m)
        (emit INFO WouldCreateStandard (emit INFO (CreatingStandard name) st))
        (snd (create_standard fuel cfg env srv name True verbose output_path st)) \<and>
      (\<exists>rs. sent (snd (create_standard fuel cfg env srv name True verbose output_path st)) =
              sent st @ tools_request (CodacyAPI cfg) # rs)) \<and>
   (\<forall>lvl tps.
      setup_logger cfg env output_path verbose = Inr lvl \<and>
      accepted (srv (length (sent st))) \<and>
      py_get (decoded (srv (length (sent st)))) ''data'' (JArr []) = Inr (JArr (map fst tps)) \<and>
      tps \<noteq> [] \<and> dry_served fuel srv (Suc (length (sent st))) tps \<longrightarrow>
      create_standard fuel cfg env srv name True verbose output_path st =
        (Some Returned,
         st\<lparr>sent := sent st @ tools_request (CodacyAPI cfg) #
                      concat (map (dry_requests (CodacyAPI cfg)) tps),
            logged := logged st @
              [(INFO, CreatingStandard name), (INFO, WouldCreateStandard), (INFO, FetchingTools),
               (DEBUG, MakingRequest ''GET'' (url (tools_request (CodacyAPI cfg))))] @
              concat (map (dry_pass_lines (CodacyAPI cfg)) tps) @
              [(INFO, ConfiguredStandard)]\<rparr>)) \<and>
   (\<forall>api sid u ps s s1.
      get_patterns fuel api srv sid u (JNum 100) s = (Some (Inr ps), s1) \<and> list_all readable ps \<longrightarrow>
      process_patterns fuel api srv sid u True s =
        (Some (Inr ()), s1\<lparr>logged := logged s1 @ map would_disable (filter is_selected ps)\<rparr>))"
proof -
  let ?c = "create_standard fuel cfg env srv name True verbose output_path st"
  have 1: "\<exists>rs. sent (snd ?c) = sent st @ rs \<and> list_all read_only rs"
    by (rule create_standard_dry_reads)
  have 2: "\<forall>lvl. setup_logger cfg env output_path verbose = Inr lvl \<longrightarrow>
      extends read_only (\<lambda>(l, m). is_run_line True m)
        (emit INFO WouldCreateStandard (emit INFO (CreatingStandard name) st)) (snd ?c) \<and>
      (\<exists>rs. sent (snd ?c) = sent st @ tools_request (CodacyAPI cfg) # rs)"
    using create_standard_dry by blast
  have 3: "\<forall>lvl tps.
      setup_logger cfg env output_path verbose = Inr lvl \<and>
      accepted (srv (length (sent st))) \<and>
      py_get (decoded (srv (length (sent st)))) ''data'' (JArr []) = Inr (JArr (map fst tps)) \<and>
      tps \<noteq> [] \<and> dry_served fuel srv (Suc (length (sent st))) tps \<longrightarrow>
      ?c =
        (Some Returned,
         st\<lparr>sent := sent st @ tools_request (CodacyAPI cfg) #
                      concat (map (dry_requests (CodacyAPI cfg)) tps),
            logged := logged st @
              [(INFO, CreatingStandard name), (INFO, WouldCreateStandard), (INFO, FetchingTools),
               (DEBUG, MakingRequest ''GET'' (url (tools_request (CodacyAPI cfg))))] @
              concat (map (dry_pass_lines (CodacyAPI cfg)) tps) @
              [(INFO, ConfiguredStandard)]\<rparr>)"
    using create_standard_dry_served by blast
  have 4: "\<forall>api sid u ps s s1.
      get_patterns fuel api srv sid u (JNum 100) s = (Some (Inr ps), s1) \<and> list_all readable ps \<longrightarrow>
      process_patterns fuel api srv sid u True s =
        (Some (Inr ()), s1\<lparr>logged := logged s1 @ map would_disable (filter is_selected ps)\<rparr>)"
    using process_patterns_dry_readable by blast
  from 1 2 3 4 show ?thesis by (intro conjI)
qed

lemmas pattern_defs =
  example_pattern_def pattern_id_severity_def lower_char_def char_of_eq_iff
  readable_def is_selected_def would_disable_def

theorem dry_run_witness:
  "setup_logger example_settings example_environment None False = Inr 20 \<and>
   accepted (one_tool_two_pages_dry (length (sent st0))) \<and>
   py_get (decoded (one_tool_two_pages_dry (length (sent st0)))) ''data'' (JArr []) =
     Inr (JArr (map fst
       [(example_tool ''u1'' ''T1'',
         [([example_pattern ''a'' ''Minor'', example_pattern ''b'' ''major''], Some (JStr ''c1'')),
          ([example_pattern ''c'' ''info''], None)])])) \<and>
   dry_served 2 one_tool_two_pages_dry (Suc (length (sent st0)))
     [(example_tool ''u1'' ''T1'',
       [([example_pattern ''a'' ''Minor'', example_pattern ''b'' ''major''], Some (JStr ''c1'')),
        ([example_pattern ''c'' ''info''], None)])] \<and>
   fst (create_standard 2 example_settings example_environment one_tool_two_pages_dry ''std'' True False None st0) = Some Returned \<and>
   sent (snd (create_standard 2 example_settings example_environment one_tool_two_pages_dry ''std'' True False None st0)) =
     [tools_request (CodacyAPI example_settings),
      patterns_request (CodacyAPI example_settings) (JStr ''dry-run-id'') (JStr ''u1'') (JNum 100) (JStr []),
      patterns_request (CodacyAPI example_settings) (JStr ''dry-run-id'') (JStr ''u1'') (JNum 100)
        (JStr ''c1'')] \<and>
   map snd (logged (snd (create_standard 2 example_settings example_environment one_tool_two_pages_dry ''std'' True False None st0))) =
     [CreatingStandard ''std'', WouldCreateStandard, FetchingTools,
      MakingRequest ''GET'' (url (tools_request (CodacyAPI example_settings))),
      ProcessingTool (JStr ''T1''), WouldEnableTool (JStr ''T1''),
      MakingRequest ''GET''
        (url (patterns_request (CodacyAPI example_settings) (JStr ''dry-run-id'') (JStr ''u1'')
                (JNum 100) (JStr []))),
      MakingRequest ''GET''
        (url (patterns_request (CodacyAPI example_settings) (JStr ''dry-run-id'') (JStr ''u1'')
                (JNum 100) (JStr []))),
      WouldDisablePattern (JStr ''a'') ''minor'', WouldDisablePattern (JStr ''c'') ''info'',
      ConfiguredStandard] \<and>
   list_all read_only
     (sent (snd (create_standard 2 example_settings example_environment one_tool_two_pages_dry ''std'' True False None st0))) \<and>
   fst (get_patterns 2 (CodacyAPI example_settings) two_pages (JStr ''s1'') (JStr ''u1'') (JNum 100) st0) =
     Some (Inr [example_pattern ''a'' ''Minor'', example_pattern ''b'' ''major'',
                example_pattern ''c'' ''info'']) \<and>
   list_all readable [example_pattern ''a'' ''Minor'', example_pattern ''b'' ''major'',
                      example_pattern ''c'' ''info''] \<and>
   logged (snd (process_patterns 2 (CodacyAPI example_settings) two_pages
                  (JStr ''s1'') (JStr ''u1'') True st0)) =
     logged (snd (get_patterns 2 (CodacyAPI example_settings) two_pages
                    (JStr ''s1'') (JStr ''u1'') (JNum 100) st0)) @
     [(INFO, WouldDisablePattern (JStr ''a'') ''minor''),
      (INFO, WouldDisablePattern (JStr ''c'') ''info'')]"
proof -
  let ?api = "CodacyAPI example_settings"
  let ?run = "create_standard 2 example_settings example_environment one_tool_two_pages_dry ''std'' True False None st0"
  let ?ps = "[example_pattern ''a'' ''Minor'', example_pattern ''b'' ''major'',
              example_pattern ''c'' ''info'']"
  let ?tps = "[(example_tool ''u1'' ''T1'',
       [([example_pattern ''a'' ''Minor'', example_pattern ''b'' ''major''], Some (JStr ''c1'')),
        ([example_pattern ''c'' ''info''], None)])]"
  let ?g = "get_patterns 2 ?api two_pages (JStr ''s1'') (JStr ''u1'') (JNum 100) st0"
  note run = dry_run_sends_only_reads [where name = "''std''" and st = st0 and fuel = 2
      and cfg = example_settings and env = example_environment and verbose = False
      and output_path = None and srv = one_tool_two_pages_dry]
  have h1: "accepted (one_tool_two_pages_dry (length (sent st0)))"
    by (simp add: one_tool_two_pages_dry_def run_defs)
  have h2: "py_get (decoded (one_tool_two_pages_dry (length (sent st0)))) ''data'' (JArr []) =
      Inr (JArr (map fst ?tps))"
    by (simp add: one_tool_two_pages_dry_def run_defs)
  have h3: "?tps \<noteq> []" by simp
  have h4: "dry_served 2 one_tool_two_pages_dry (Suc (length (sent st0))) ?tps"
    by (simp add: complete_def example_tool_def well_paged_def serves_def
        one_tool_two_pages_dry_def scripted_def page_of_page_response st0_def pattern_defs)
  from run [THEN conjunct2, THEN conjunct2, THEN conjunct1, rule_format, of 20 ?tps]
    example_setup h1 h2 h3 h4
  have eq: "?run =
        (Some Returned,
         st0\<lparr>sent := sent st0 @ tools_request ?api # concat (map (dry_requests ?api) ?tps),
            logged := logged st0 @
              [(INFO, CreatingStandard ''std''), (INFO, WouldCreateStandard), (INFO, FetchingTools),
               (DEBUG, MakingRequest ''GET'' (url (tools_request ?api)))] @
              concat (map (dry_pass_lines ?api) ?tps) @
              [(INFO, ConfiguredStandard)]\<rparr>)"
    by blast
  have 1: "fst ?run = Some Returned"
    by (simp only: eq fst_conv)
  have 2: "sent (snd ?run) =
     [tools_request ?api,
      patterns_request ?api (JStr ''dry-run-id'') (JStr ''u1'') (JNum 100) (JStr []),
      patterns_request ?api (JStr ''dry-run-id'') (JStr ''u1'') (JNum 100) (JStr ''c1'')]"
    unfolding eq by (simp add: st0_def page_requests_def example_tool_def)
  have 3: "map snd (logged (snd ?run)) =
     [CreatingStandard ''std'', WouldCreateStandard, FetchingTools,
      MakingRequest ''GET'' (url (tools_request ?api)),
      ProcessingTool (JStr ''T1''), WouldEnableTool (JStr ''T1''),
      MakingRequest ''GET''
        (url (patterns_request ?api (JStr ''dry-run-id'') (JStr ''u1'') (JNum 100) (JStr []))),
      MakingRequest ''GET''
        (url (patterns_request ?api (JStr ''dry-run-id'') (JStr ''u1'') (JNum 100) (JStr []))),
      WouldDisablePattern (JStr ''a'') ''minor'', WouldDisablePattern (JStr ''c'') ''info'',
      ConfiguredStandard]"
    unfolding eq
    by (simp add: st0_def complete_def example_tool_def pattern_defs numeral_2_eq_2)
  from run [THEN conjunct1] have 4: "list_all read_only (sent (snd ?run))"
    by (auto simp: st0_def)
  note parts = dry_run_sends_only_reads [where name = "''std''" and st = st0 and fuel = 2
      and cfg = example_settings and srv = two_pages]
  have g1: "fst ?g = Some (Inr ?ps)"
    by (simp add: example_api two_pages_def run_defs numeral_2_eq_2 example_pattern_def)
  have g: "?g = (Some (Inr ?ps), snd ?g)"
    by (rule prod_eqI) (simp_all only: g1 fst_conv snd_conv)
  have r: "list_all readable ?ps"
    by (simp add: pattern_defs)
  from parts [THEN conjunct2, THEN conjunct2, THEN conjunct2, rule_format,
      of ?api "JStr ''s1''" "JStr ''u1''" st0 ?ps "snd ?g", OF conjI [OF g r]]
  have 5: "logged (snd (process_patterns 2 ?api two_pages (JStr ''s1'') (JStr ''u1'') True st0)) =
      logged (snd ?g) @
      [(INFO, WouldDisablePattern (JStr ''a'') ''minor''),
       (INFO, WouldDisablePattern (JStr ''c'') ''info'')]"
    by (simp add: pattern_defs)
  from example_setup h1 h2 h4 1 2 3 4 g1 r 5 show ?thesis by (intro conjI)
qed

text \<open>
  A catalog with one tool that has no patterns. The real run changes the service four
  times (it creates the standard, enables the tool, promotes the standard and makes it the
  default); the dry run on the same catalog logs two \<open>[DRY RUN]\<close> lines, for the creation
  and for the tool, and nothing for the promotion or the default.
\<close>

theorem dry_run_is_silent_about_promote_and_default:
  "sent (snd (create_standard 1 example_settings example_environment one_tool ''std'' False False None st0)) =
     [create_request (CodacyAPI example_settings) ''std'',
      tools_request (CodacyAPI example_settings),
      patch_tool_request (CodacyAPI example_settings) (JStr ''s1'') (JStr ''u1'') [],
      patterns_request (CodacyAPI example_settings) (JStr ''s1'') (JStr ''u1'') (JNum 100) (JStr []),
      promote_request (CodacyAPI example_settings) (JStr ''s1''),
      set_default_request (CodacyAPI example_settings) (JStr ''s1'')] \<and>
   fst (create_standard 1 example_settings example_environment one_tool_dry ''std'' True False None st0) = Some Returned \<and>
   map snd (logged (snd (create_standard 1 example_settings example_environment one_tool_dry ''std'' True False None st0))) =
     [CreatingStandard ''std'', WouldCreateStandard, FetchingTools,
      MakingRequest ''GET'' (url (tools_request (CodacyAPI example_settings))),
      ProcessingTool (JStr ''T1''), WouldEnableTool (JStr ''T1''),
      MakingRequest ''GET''
        (url (patterns_request (CodacyAPI example_settings) (JStr ''dry-run-id'') (JStr ''u1'')
                (JNum 100) (JStr []))),
      ConfiguredStandard] \<and>
   dry_run_lines (logged (snd (create_standard 1 example_settings example_environment one_tool_dry ''std'' True False None st0))) =
     [WouldCreateStandard, WouldEnableTool (JStr ''T1'')]"
  by (simp add: example_api one_tool_def one_tool_dry_def run_defs
      create_request_def tools_request_def patch_tool_request_def patterns_request_def
      promote_request_def set_default_request_def built_request_def tool_endpoint_def
      standards_endpoint_def standard_endpoint_def)


subsection \<open>Exit status\<close>

lemma main_setup_fails:
  "setup_logger cfg env output_path verbose = Inl e \<Longrightarrow>
   create_standard fuel cfg env srv name dry_run verbose output_path st = (Some (Raised e), st) \<and>
   main fuel cfg env srv name dry_run verbose output_path st = (Some 1, st)"
  by (simp add: main_def create_standard_def)

lemma main_exit:
  "setup_logger cfg env output_path verbose = Inr lvl \<Longrightarrow>
   fst (main fuel cfg env srv name dry_run verbose output_path st) =
     (case fst (workflow fuel (CodacyAPI cfg) srv name dry_run st) of
        None \<Rightarrow> None
      | Some (Inl e) \<Rightarrow> Some 1
      | Some (Inr u) \<Rightarrow> Some 0)"
  by (simp add: main_def create_standard_def Let_def split: prod.split option.split sum.split)

lemma main_logs_failure:
  "setup_logger cfg env output_path verbose = Inr lvl \<Longrightarrow>
   fst (workflow fuel (CodacyAPI cfg) srv name dry_run st) = Some (Inl e) \<Longrightarrow>
   logged (snd (main fuel cfg env srv name dry_run verbose output_path st)) =
     logged (snd (workflow fuel (CodacyAPI cfg) srv name dry_run st)) @ [(ERROR, FailedToCreate e)]"
  by (cases "workflow fuel (CodacyAPI cfg) srv name dry_run st")
     (simp add: main_def create_standard_def Let_def)

lemma workflow_ends:
  assumes "pagination_ends fuel srv"
  shows "fst (workflow fuel api srv name dry_run st) \<noteq> None"
proof -
  have l: "\<And>sid tools st2 r st3. tool_loop fuel api srv sid dry_run tools None st2 = (r, st3) \<Longrightarrow> r \<noteq> None"
  proof -
    fix sid tools st2 r st3
    assume "tool_loop fuel api srv sid dry_run tools None st2 = (r, st3)"
    with tool_loop_ends [OF assms, of api sid dry_run tools None st2] show "r \<noteq> None" by simp
  qed
  show ?thesis
    by (auto simp: workflow_def split: prod.splits sum.splits option.splits dest: l)
qed

lemma main_ends:
  assumes "pagination_ends fuel srv"
  shows "fst (main fuel cfg env srv name dry_run verbose output_path st) \<noteq> None"
proof (cases "setup_logger cfg env output_path verbose")
  case (Inl e)
  then show ?thesis by (simp add: main_setup_fails)
next
  case (Inr lvl)
  from workflow_ends [OF assms, of "CodacyAPI cfg" name dry_run st] show ?thesis
    by (auto simp: main_exit [OF Inr] split: option.splits sum.splits)
qed

lemma make_request_raises:
  "\<not> accepted (srv (length (sent st))) \<Longrightarrow>
   \<exists>e st1. make_request api srv meth endpoint js dat ps st = (Inl e, st1)"
  by (simp add: make_request_refused)

lemma obtain_standard_id_refused:
  assumes "\<not> accepted (srv (length (sent st)))"
  shows "\<exists>e st1. obtain_standard_id api srv name False st = (Inl e, st1)"
proof -
  from assms have "\<not> accepted (srv (length (sent (emit INFO (CreatingStandard name) st))))"
    by simp
  from make_request_raises [where srv = srv and st = "emit INFO (CreatingStandard name) st", OF this]
  obtain e st1 where "create_coding_standard api srv name (emit INFO (CreatingStandard name) st) = (Inl e, st1)"
    unfolding create_coding_standard_def Let_def by blast
  then show ?thesis by (simp add: obtain_standard_id_def)
qed

lemma obtain_standard_id_no_id:
  assumes "accepted (srv (length (sent st)))"
    and "py_get (decoded (srv (length (sent st)))) ''data'' (JObj []) = Inr d"
    and "py_get d ''id'' JNull = Inr i" and "\<not> truthy i"
  shows "fst (obtain_standard_id api srv name False st) = Inl ValueError"
proof -
  let ?st0 = "emit INFO (CreatingStandard name) st"
  from assms(1) have a: "accepted (srv (length (sent ?st0)))" by simp
  have "fst (create_coding_standard api srv name ?st0) = Inr (decoded (srv (length (sent st))))"
    using make_request_accepted [where srv = srv and st = ?st0, OF a]
    by (simp add: create_coding_standard_def Let_def)
  then show ?thesis
    using assms(2-4)
    by (cases "create_coding_standard api srv name ?st0") (simp add: obtain_standard_id_def)
qed

lemma get_available_tools_refused:
  assumes "\<not> accepted (srv (length (sent st)))"
  shows "\<exists>e st1. get_available_tools api srv st = (Inl e, st1)"
proof -
  from make_request_raises [where srv = srv and st = st, OF assms]
  obtain e st1 where "make_request api srv ''GET'' [Lit ''api/v3/tools''] None None None st = (Inl e, st1)"
    by blast
  then show ?thesis by (simp add: get_available_tools_def)
qed

lemma finish_standard_result:
  "fst (finish_standard api srv sid dry_run st) = Inr () \<longleftrightarrow>
     dry_run \<or> (accepted (srv (length (sent st))) \<and> accepted (srv (Suc (length (sent st)))))"
proof (cases dry_run)
  case True
  then show ?thesis by (simp add: finish_standard_def)
next
  case False
  let ?st1 = "emit INFO PromotingStandard st"
  show ?thesis
  proof (cases "accepted (srv (length (sent st)))")
    case no: False
    then have "\<not> accepted (srv (length (sent ?st1)))" by simp
    from make_request_raises [where srv = srv and st = ?st1, OF this]
    obtain e st2 where "promote_draft api srv sid ?st1 = (Inl e, st2)"
      unfolding promote_draft_def Let_def by blast
    with False no show ?thesis by (simp add: finish_standard_def)
  next
    case yes: True
    then have a: "accepted (srv (length (sent ?st1)))" by simp
    obtain st2 where p: "promote_draft api srv sid ?st1 = (Inr (decoded (srv (length (sent st)))), st2)"
      and s2: "sent st2 = sent st @ [promote_request api sid]"
      using make_request_accepted [where srv = srv and st = ?st1, OF a]
      by (simp add: promote_draft_def Let_def promote_request_def standard_endpoint_def)
    let ?st3 = "emit INFO SettingDefault st2"
    have n: "length (sent ?st3) = Suc (length (sent st))" by (simp add: s2)
    show ?thesis
    proof (cases "accepted (srv (Suc (length (sent st))))")
      case no: False
      have "\<not> accepted (srv (length (sent ?st3)))" unfolding n by (rule no)
      from make_request_raises [where srv = srv and st = ?st3, OF this]
      obtain e st4 where "set_default api srv sid ?st3 = (Inl e, st4)"
        unfolding set_default_def Let_def by blast
      with False yes no p show ?thesis by (simp add: finish_standard_def)
    next
      case yes2: True
      have a3: "accepted (srv (length (sent ?st3)))" unfolding n by (rule yes2)
      have "\<exists>r st4. set_default api srv sid ?st3 = (Inr r, st4)"
        using make_request_accepted [where srv = srv and st = ?st3, OF a3]
        by (simp add: set_default_def Let_def)
      then obtain r st4 where "set_default api srv sid ?st3 = (Inr r, st4)" by blast
      with False yes yes2 p show ?thesis by (simp add: finish_standard_def)
    qed
  qed
qed


lemma exit_status_after_setup:
  assumes lg: "setup_logger cfg env output_path verbose = Inr lvl"
  shows "fst (main fuel cfg env srv name dry_run verbose output_path st) =
     (case fst (workflow fuel (CodacyAPI cfg) srv name dry_run st) of
        None \<Rightarrow> None
      | Some (Inl e) \<Rightarrow> Some 1
      | Some (Inr u) \<Rightarrow> Some 0) \<and>
   (\<forall>e. fst (workflow fuel (CodacyAPI cfg) srv name dry_run st) = Some (Inl e) \<longrightarrow>
      logged (snd (main fuel cfg env srv name dry_run verbose output_path st)) =
        logged (snd (workflow fuel (CodacyAPI cfg) srv name dry_run st)) @
          [(ERROR, FailedToCreate e)]) \<and>
   (\<not> dry_run \<and> \<not> accepted (srv (length (sent st))) \<longrightarrow>
      fst (main fuel cfg env srv name dry_run verbose output_path st) = Some 1) \<and>
   (\<forall>d i. \<not> dry_run \<and> accepted (srv (length (sent st))) \<and>
      py_get (decoded (srv (length (sent st)))) ''data'' (JObj []) = Inr d \<and>
      py_get d ''id'' JNull = Inr i \<and> \<not> truthy i \<longrightarrow>
      fst (main fuel cfg env srv name dry_run verbose output_path st) = Some 1 \<and>
      last (logged (snd (main fuel cfg env srv name dry_run verbose output_path st))) = (ERROR, FailedToCreate ValueError)) \<and>
   (\<forall>sid st1. obtain_standard_id (CodacyAPI cfg) srv name dry_run st = (Inr sid, st1) \<and>
      \<not> accepted (srv (length (sent st1))) \<longrightarrow>
      fst (main fuel cfg env srv name dry_run verbose output_path st) = Some 1) \<and>
   (\<forall>sid st1 tools st2 tool_list st3.
      obtain_standard_id (CodacyAPI cfg) srv name dry_run st = (Inr sid, st1) \<and>
      get_available_tools (CodacyAPI cfg) srv (emit INFO FetchingTools st1) = (Inr tools, st2) \<and>
      truthy tools \<and> py_iter tools = Inr tool_list \<and>
      tool_loop fuel (CodacyAPI cfg) srv sid dry_run tool_list None st2 = (Some (Inr ()), st3) \<longrightarrow>
      fst (main fuel cfg env srv name dry_run verbose output_path st) =
        (if dry_run \<or> (accepted (srv (length (sent st3))) \<and> accepted (srv (Suc (length (sent st3)))))
         then Some 0 else Some 1))"
proof -
  let ?api = "CodacyAPI cfg"
  let ?w = "workflow fuel ?api srv name dry_run st"
  let ?m = "main fuel cfg env srv name dry_run verbose output_path st"
  have 1: "fst ?m = (case fst ?w of None \<Rightarrow> None | Some (Inl e) \<Rightarrow> Some 1 | Some (Inr u) \<Rightarrow> Some 0)"
    by (rule main_exit [OF lg])
  have 2: "\<forall>e. fst ?w = Some (Inl e) \<longrightarrow> logged (snd ?m) = logged (snd ?w) @ [(ERROR, FailedToCreate e)]"
    using main_logs_failure [OF lg] by blast
  have 3: "\<not> dry_run \<and> \<not> accepted (srv (length (sent st))) \<longrightarrow> fst ?m = Some 1"
  proof
    assume a: "\<not> dry_run \<and> \<not> accepted (srv (length (sent st)))"
    then obtain e st1 where "obtain_standard_id ?api srv name False st = (Inl e, st1)"
      using obtain_standard_id_refused [of srv st ?api name] by blast
    with a have "fst ?w = Some (Inl e)" by (simp add: workflow_def)
    then show "fst ?m = Some 1" by (simp add: 1)
  qed
  have 4: "\<forall>d i. \<not> dry_run \<and> accepted (srv (length (sent st))) \<and>
      py_get (decoded (srv (length (sent st)))) ''data'' (JObj []) = Inr d \<and>
      py_get d ''id'' JNull = Inr i \<and> \<not> truthy i \<longrightarrow>
      fst ?m = Some 1 \<and> last (logged (snd ?m)) = (ERROR, FailedToCreate ValueError)"
  proof (intro allI impI)
    fix d i
    assume a: "\<not> dry_run \<and> accepted (srv (length (sent st))) \<and>
      py_get (decoded (srv (length (sent st)))) ''data'' (JObj []) = Inr d \<and>
      py_get d ''id'' JNull = Inr i \<and> \<not> truthy i"
    then have "fst (obtain_standard_id ?api srv name False st) = Inl ValueError"
      using obtain_standard_id_no_id [of srv st d i ?api name] by blast
    with a have w: "fst ?w = Some (Inl ValueError)"
      by (cases "obtain_standard_id ?api srv name False st") (simp add: workflow_def)
    from w have "fst ?m = Some 1" by (simp add: 1)
    moreover from main_logs_failure [OF lg w]
    have "last (logged (snd ?m)) = (ERROR, FailedToCreate ValueError)" by simp
    ultimately show "fst ?m = Some 1 \<and> last (logged (snd ?m)) = (ERROR, FailedToCreate ValueError)" ..
  qed
  have 5: "\<forall>sid st1. obtain_standard_id ?api srv name dry_run st = (Inr sid, st1) \<and>
      \<not> accepted (srv (length (sent st1))) \<longrightarrow> fst ?m = Some 1"
  proof (intro allI impI)
    fix sid st1
    assume a: "obtain_standard_id ?api srv name dry_run st = (Inr sid, st1) \<and>
      \<not> accepted (srv (length (sent st1)))"
    then have "\<not> accepted (srv (length (sent (emit INFO FetchingTools st1))))" by simp
    from get_available_tools_refused [where srv = srv and st = "emit INFO FetchingTools st1", OF this]
    obtain e st2 where "get_available_tools ?api srv (emit INFO FetchingTools st1) = (Inl e, st2)"
      by blast
    with a have "fst ?w = Some (Inl e)" by (simp add: workflow_def)
    then show "fst ?m = Some 1" by (simp add: 1)
  qed
  have 6: "\<forall>sid st1 tools st2 tool_list st3.
      obtain_standard_id ?api srv name dry_run st = (Inr sid, st1) \<and>
      get_available_tools ?api srv (emit INFO FetchingTools st1) = (Inr tools, st2) \<and>
      truthy tools \<and> py_iter tools = Inr tool_list \<and>
      tool_loop fuel ?api srv sid dry_run tool_list None st2 = (Some (Inr ()), st3) \<longrightarrow>
      fst ?m =
        (if dry_run \<or> (accepted (srv (length (sent st3))) \<and> accepted (srv (Suc (length (sent st3)))))
         then Some 0 else Some 1)"
  proof (intro allI impI)
    fix sid st1 tools st2 tool_list st3
    assume a: "obtain_standard_id ?api srv name dry_run st = (Inr sid, st1) \<and>
      get_available_tools ?api srv (emit INFO FetchingTools st1) = (Inr tools, st2) \<and>
      truthy tools \<and> py_iter tools = Inr tool_list \<and>
      tool_loop fuel ?api srv sid dry_run tool_list None st2 = (Some (Inr ()), st3)"
    then have w: "fst ?w = Some (fst (finish_standard ?api srv sid dry_run st3))"
      by (simp add: workflow_def split: prod.split)
    show "fst ?m =
        (if dry_run \<or> (accepted (srv (length (sent st3))) \<and> accepted (srv (Suc (length (sent st3)))))
         then Some 0 else Some 1)"
    proof (cases "fst (finish_standard ?api srv sid dry_run st3)")
      case (Inl e)
      then have "fst ?m = Some 1" by (simp add: 1 w)
      moreover from Inl have "\<not> (dry_run \<or> (accepted (srv (length (sent st3))) \<and>
          accepted (srv (Suc (length (sent st3))))))"
        using finish_standard_result [of ?api srv sid dry_run st3] by simp
      ultimately show ?thesis by (simp only: if_False)
    next
      case (Inr u)
      then have "fst ?m = Some 0" by (simp add: 1 w)
      moreover from Inr have "dry_run \<or> (accepted (srv (length (sent st3))) \<and>
          accepted (srv (Suc (length (sent st3)))))"
        using finish_standard_result [of ?api srv sid dry_run st3] by simp
      ultimately show ?thesis by (simp only: if_True)
    qed
  qed
  from 1 2 3 4 5 6 show ?thesis by (intro conjI)
qed


text \<open>
  Claim C8, as the code has it. The logger is set up before the body of the workflow is
  entered: when that raises (a log level that is no level of the logging module, a log
  file that cannot be opened), the exception leaves \<open>create_standard\<close> and the process
  exits with status 1; nothing has been logged or sent. Once the logger is set up, the
  process exits with status 1 exactly when an exception leaves the body of the workflow,
  and then the last line logged is the error line that reports it; otherwise (when the
  run ends at all) it exits with status 0. An exception leaves the body when the creation
  of the standard is refused, when the created standard has no id (\<open>ValueError\<close>), when
  the request for the catalog is refused, and, after the tool loop, when the promotion or
  the request that makes the standard the default is refused; when both are accepted, or
  in a dry run, the status is 0. On a service where every pagination ends within the
  fuel, the run ends.
\<close>

theorem exit_status_reports_failure:
  "(\<forall>e. setup_logger cfg env output_path verbose = Inl e \<longrightarrow>
      create_standard fuel cfg env srv name dry_run verbose output_path st = (Some (Raised e), st) \<and>
      main fuel cfg env srv name dry_run verbose output_path st = (Some 1, st)) \<and>
   (\<forall>lvl. setup_logger cfg env output_path verbose = Inr lvl \<longrightarrow>
      fst (main fuel cfg env srv name dry_run verbose output_path st) =
      (case fst (workflow fuel (CodacyAPI cfg) srv name dry_run st) of
      None \<Rightarrow> None
      | Some (Inl e) \<Rightarrow> Some 1
      | Some (Inr u) \<Rightarrow> Some 0) \<and>
      (\<forall>e. fst (workflow fuel (CodacyAPI cfg) srv name dry_run st) = Some (Inl e) \<longrightarrow>
      logged (snd (main fuel cfg env srv name dry_run verbose output_path st)) =
      logged (snd (workflow fuel (CodacyAPI cfg) srv name dry_run st)) @
      [(ERROR, FailedToCreate e)]) \<and>
      (\<not> dry_run \<and> \<not> accepted (srv (length (sent st))) \<longrightarrow>
      fst (main fuel cfg env srv name dry_run verbose output_path st) = Some 1) \<and>
      (\<forall>d i. \<not> dry_run \<and> accepted (srv (length (sent st))) \<and>
      py_get (decoded (srv (length (sent st)))) ''data'' (JObj []) = Inr d \<and>
      py_get d ''id'' JNull = Inr i \<and> \<not> truthy i \<longrightarrow>
      fst (main fuel cfg env srv name dry_run verbose output_path st) = Some 1 \<and>
      last (logged (snd (main fuel cfg env srv name dry_run verbose output_path st))) = (ERROR, FailedToCreate ValueError)) \<and>
      (\<forall>sid st1. obtain_standard_id (CodacyAPI cfg) srv name dry_run st = (Inr sid, st1) \<and>
      \<not> accepted (srv (length (sent st1))) \<longrightarrow>
      fst (main fuel cfg env srv name dry_run verbose output_path st) = Some 1) \<and>
      (\<forall>sid st1 tools st2 tool_list st3.
      obtain_standard_id (CodacyAPI cfg) srv name dry_run st = (Inr sid, st1) \<and>
      get_available_tools (CodacyAPI cfg) srv (emit INFO FetchingTools st1) = (Inr tools, st2) \<and>
      truthy tools \<and> py_iter tools = Inr tool_list \<and>
      tool_loop fuel (CodacyAPI cfg) srv sid dry_run tool_list None st2 = (Some (Inr ()), st3) \<longrightarrow>
      fst (main fuel cfg env srv name dry_run verbose output_path st) =
      (if dry_run \<or> (accepted (srv (length (sent st3))) \<and> accepted (srv (Suc (length (sent st3)))))
      then Some 0 else Some 1))) \<and>
   (pagination_ends fuel srv \<longrightarrow>
      fst (main fuel cfg env srv name dry_run verbose output_path st) \<noteq> None)"
proof -
  have 1: "\<forall>e. setup_logger cfg env output_path verbose = Inl e \<longrightarrow>
      create_standard fuel cfg env srv name dry_run verbose output_path st = (Some (Raised e), st) \<and>
      main fuel cfg env srv name dry_run verbose output_path st = (Some 1, st)"
    using main_setup_fails by blast
  have 2: "\<forall>lvl. setup_logger cfg env output_path verbose = Inr lvl \<longrightarrow>
      fst (main fuel cfg env srv name dry_run verbose output_path st) =
      (case fst (workflow fuel (CodacyAPI cfg) srv name dry_run st) of
      None \<Rightarrow> None
      | Some (Inl e) \<Rightarrow> Some 1
      | Some (Inr u) \<Rightarrow> Some 0) \<and>
      (\<forall>e. fst (workflow fuel (CodacyAPI cfg) srv name dry_run st) = Some (Inl e) \<longrightarrow>
      logged (snd (main fuel cfg env srv name dry_run verbose output_path st)) =
      logged (snd (workflow fuel (CodacyAPI cfg) srv name dry_run st)) @
      [(ERROR, FailedToCreate e)]) \<and>
      (\<not> dry_run \<and> \<not> accepted (srv (length (sent st))) \<longrightarrow>
      fst (main fuel cfg env srv name dry_run verbose output_path st) = Some 1) \<and>
      (\<forall>d i. \<not> dry_run \<and> accepted (srv (length (sent st))) \<and>
      py_get (decoded (srv (length (sent st)))) ''data'' (JObj []) = Inr d \<and>
      py_get d ''id'' JNull = Inr i \<and> \<not> truthy i \<longrightarrow>
      fst (main fuel cfg env srv name dry_run verbose output_path st) = Some 1 \<and>
      last (logged (snd (main fuel cfg env srv name dry_run verbose output_path st))) = (ERROR, FailedToCreate ValueError)) \<and>
      (\<forall>sid st1. obtain_standard_id (CodacyAPI cfg) srv name dry_run st = (Inr sid, st1) \<and>
      \<not> accepted (srv (length (sent st1))) \<longrightarrow>
      fst (main fuel cfg env srv name dry_run verbose output_path st) = Some 1) \<and>
      (\<forall>sid st1 tools st2 tool_list st3.
      obtain_standard_id (CodacyAPI cfg) srv name dry_run st = (Inr sid, st1) \<and>
      get_available_tools (CodacyAPI cfg) srv (emit INFO FetchingTools st1) = (Inr tools, st2) \<and>
      truthy tools \<and> py_iter tools = Inr tool_list \<and>
      tool_loop fuel (CodacyAPI cfg) srv sid dry_run tool_list None st2 = (Some (Inr ()), st3) \<longrightarrow>
      fst (main fuel cfg env srv name dry_run verbose output_path st) =
      (if dry_run \<or> (accepted (srv (length (sent st3))) \<and> accepted (srv (Suc (length (sent st3)))))
      then Some 0 else Some 1))"
    by (intro allI impI) (rule exit_status_after_setup)
  have 3: "pagination_ends fuel srv \<longrightarrow>
      fst (main fuel cfg env srv name dry_run verbose output_path st) \<noteq> None"
    using main_ends by blast
  from 1 2 3 show ?thesis by (intro conjI)
qed

theorem exit_status_witness:
  "setup_logger example_settings example_environment None False = Inr 20 \<and>
   \<not> accepted (create_refused (length (sent st0))) \<and>
   fst (main 1 example_settings example_environment create_refused ''std'' False False None st0) = Some 1 \<and>
   accepted (created_without_id (length (sent st0))) \<and>
   py_get (decoded (created_without_id (length (sent st0)))) ''data'' (JObj []) = Inr (JObj []) \<and>
   py_get (JObj []) ''id'' JNull = Inr JNull \<and> \<not> truthy JNull \<and>
   fst (main 1 example_settings example_environment created_without_id ''std'' False False None st0) = Some 1 \<and>
   last (logged (snd (main 1 example_settings example_environment created_without_id ''std'' False False None st0))) =
     (ERROR, FailedToCreate ValueError) \<and>
   fst (main 1 example_settings example_environment catalog_refused ''std'' False False None st0) = Some 1 \<and>
   fst (main 1 example_settings example_environment promote_refused ''std'' False False None st0) = Some 1 \<and>
   fst (main 1 example_settings example_environment one_tool ''std'' False False None st0) = Some 0 \<and>
   setup_logger lower_case_level example_environment None False = Inl TypeError \<and>
   main 1 lower_case_level example_environment one_tool ''std'' False False None st0 = (Some 1, st0) \<and>
   pagination_ends 1 one_tool \<and>
   fst (main 1 example_settings example_environment one_tool ''std'' True False None st0) \<noteq> None"
proof -
  let ?api = "CodacyAPI example_settings"
  note A = exit_status_reports_failure [where fuel = 1 and cfg = example_settings
      and env = example_environment and verbose = False and output_path = None
      and srv = create_refused and name = "''std''" and dry_run = False and st = st0,
      THEN conjunct2, THEN conjunct1, rule_format, OF example_setup]
  have a1: "\<not> accepted (create_refused (length (sent st0)))"
    by (simp add: create_refused_def run_defs)
  from A [THEN conjunct2, THEN conjunct2, THEN conjunct1] a1
  have a2: "fst (main 1 example_settings example_environment create_refused ''std'' False False None st0) = Some 1"
    by simp
  note C = exit_status_reports_failure [where fuel = 1 and cfg = example_settings
      and env = example_environment and verbose = False and output_path = None
      and srv = created_without_id and name = "''std''" and dry_run = False and st = st0,
      THEN conjunct2, THEN conjunct1, rule_format, OF example_setup]
  have c1: "accepted (created_without_id (length (sent st0)))"
    and c2: "py_get (decoded (created_without_id (length (sent st0)))) ''data'' (JObj []) = Inr (JObj [])"
    and c3: "py_get (JObj []) ''id'' JNull = Inr JNull" and c4: "\<not> truthy JNull"
    by (simp_all add: created_without_id_def run_defs)
  from C [THEN conjunct2, THEN conjunct2, THEN conjunct2, THEN conjunct1, rule_format,
      of "JObj []" JNull] c1 c2 c3 c4
  have c5: "fst (main 1 example_settings example_environment created_without_id ''std'' False False None st0) = Some 1"
    and c6: "last (logged (snd (main 1 example_settings example_environment created_without_id ''std'' False False None st0))) =
     (ERROR, FailedToCreate ValueError)"
    by simp_all
  note D = exit_status_reports_failure [where fuel = 1 and cfg = example_settings
      and env = example_environment and verbose = False and output_path = None
      and srv = catalog_refused and name = "''std''" and dry_run = False and st = st0,
      THEN conjunct2, THEN conjunct1, rule_format, OF example_setup]
  let ?d1 = "snd (obtain_standard_id ?api catalog_refused ''std'' False st0)"
  have d1: "obtain_standard_id ?api catalog_refused ''std'' False st0 = (Inr (JStr ''s1''), ?d1)"
    by (rule prod_eqI) (simp_all add: example_api catalog_refused_def run_defs)
  have d2: "\<not> accepted (catalog_refused (length (sent ?d1)))"
    by (simp add: example_api catalog_refused_def run_defs)
  from D [THEN conjunct2, THEN conjunct2, THEN conjunct2, THEN conjunct2, THEN conjunct1,
      rule_format, of "JStr ''s1''" ?d1] d1 d2
  have d3: "fst (main 1 example_settings example_environment catalog_refused ''std'' False False None st0) = Some 1"
    by blast
  note E = exit_status_reports_failure [where fuel = 1 and cfg = example_settings
      and env = example_environment and verbose = False and output_path = None
      and srv = promote_refused and name = "''std''" and dry_run = False and st = st0,
      THEN conjunct2, THEN conjunct1, rule_format, OF example_setup]
  let ?e1 = "snd (obtain_standard_id ?api promote_refused ''std'' False st0)"
  let ?e2 = "snd (get_available_tools ?api promote_refused (emit INFO FetchingTools ?e1))"
  let ?e3 = "snd (tool_loop 1 ?api promote_refused (JStr ''s1'') False [example_tool ''u1'' ''T1'']
                    None ?e2)"
  have e1: "obtain_standard_id ?api promote_refused ''std'' False st0 = (Inr (JStr ''s1''), ?e1)"
    by (rule prod_eqI) (simp_all add: example_api promote_refused_def run_defs)
  have e2: "get_available_tools ?api promote_refused (emit INFO FetchingTools ?e1) =
      (Inr (JArr [example_tool ''u1'' ''T1'']), ?e2)"
    by (rule prod_eqI) (simp_all add: example_api promote_refused_def run_defs)
  have e3: "truthy (JArr [example_tool ''u1'' ''T1''])"
    and e4: "py_iter (JArr [example_tool ''u1'' ''T1'']) = Inr [example_tool ''u1'' ''T1'']"
    by simp_all
  have e5: "tool_loop 1 ?api promote_refused (JStr ''s1'') False [example_tool ''u1'' ''T1'']
              None ?e2 = (Some (Inr ()), ?e3)"
    by (rule prod_eqI) (simp_all add: example_api promote_refused_def run_defs)
  have e6: "\<not> accepted (promote_refused (length (sent ?e3)))"
    by (simp add: example_api promote_refused_def run_defs)
  from E [THEN conjunct2, THEN conjunct2, THEN conjunct2, THEN conjunct2, THEN conjunct2,
      rule_format, of "JStr ''s1''" ?e1 "JArr [example_tool ''u1'' ''T1'']" ?e2
        "[example_tool ''u1'' ''T1'']" ?e3] e1 e2 e3 e4 e5 e6
  have e7: "fst (main 1 example_settings example_environment promote_refused ''std'' False False None st0) = Some 1"
    by simp
  note F = exit_status_reports_failure [where fuel = 1 and cfg = example_settings
      and env = example_environment and verbose = False and output_path = None
      and srv = one_tool and name = "''std''" and dry_run = False and st = st0,
      THEN conjunct2, THEN conjunct1, rule_format, OF example_setup]
  have "fst (workflow 1 ?api one_tool ''std'' False st0) = Some (Inr ())"
    by (simp add: example_api one_tool_def run_defs)
  with F [THEN conjunct1]
  have f1: "fst (main 1 example_settings example_environment one_tool ''std'' False False None st0) = Some 0"
    by simp
  note G = exit_status_reports_failure [where fuel = 1 and cfg = lower_case_level
      and env = example_environment and verbose = False and output_path = None
      and srv = one_tool and name = "''std''" and dry_run = False and st = st0]
  have g1: "setup_logger lower_case_level example_environment None False = Inl TypeError"
    by (simp add: setup_logger_def logging_level_def level_constants_def lower_case_level_def
        example_settings_def example_environment_def)
  from G [THEN conjunct1, rule_format, OF g1]
  have g2: "main 1 lower_case_level example_environment one_tool ''std'' False False None st0 =
      (Some 1, st0)"
    by (rule conjunct2)
  note H = exit_status_reports_failure [where fuel = 1 and cfg = example_settings
      and env = example_environment and verbose = False and output_path = None
      and srv = one_tool and name = "''std''" and dry_run = True and st = st0]
  have "list_all (\<lambda>out. \<not> continues out)
          [created_response, tools_response [example_tool ''u1'' ''T1''],
           HttpResponse 200 Empty, page_response [] None,
           HttpResponse 200 Empty, HttpResponse 200 Empty]"
    by (simp add: continues_def page_response_def created_response_def tools_response_def
        is_error_status_def)
  then have h1: "pagination_ends 1 one_tool"
    unfolding one_tool_def One_nat_def by (rule scripted_pagination_ends)
  from H [THEN conjunct2, THEN conjunct2] h1
  have h2: "fst (main 1 example_settings example_environment one_tool ''std'' True False None st0) \<noteq> None"
    by blast
  from example_setup a1 a2 c1 c2 c3 c4 c5 c6 d3 e7 f1 g1 g2 h1 h2 show ?thesis by (intro conjI)
qed

text \<open>
  Two runs that fail before the workflow starts: the log level is written in lower case,
  so that \<open>getattr(logging, 'info')\<close> is the function \<open>logging.info\<close> and \<open>setLevel\<close> raises
  \<open>TypeError\<close>; or the log file cannot be opened. The process exits with status 1, and
  nothing is logged and nothing is sent. With the level \<open>INFO\<close> and a log file that can be
  opened, the same run against the same service exits with status 0.
\<close>

theorem logger_setup_failure_exits_unlogged:
  "fst (main 1 lower_case_level example_environment one_tool ''std'' False False None st0) = Some 1 \<and>
   logged (snd (main 1 lower_case_level example_environment one_tool ''std'' False False None st0)) = [] \<and>
   sent (snd (main 1 lower_case_level example_environment one_tool ''std'' False False None st0)) = [] \<and>
   fst (main 1 example_settings unwritable_logs one_tool ''std'' False False None st0) = Some 1 \<and>
   logged (snd (main 1 example_settings unwritable_logs one_tool ''std'' False False None st0)) = [] \<and>
   sent (snd (main 1 example_settings unwritable_logs one_tool ''std'' False False None st0)) = [] \<and>
   fst (main 1 example_settings example_environment one_tool ''std'' False False None st0) = Some 0"
  by (simp add: main_def create_standard_def setup_logger_def logging_level_def
      level_constants_def lower_case_level_def unwritable_logs_def example_settings_def
      example_environment_def st0_def example_api [unfolded example_settings_def] one_tool_def
      workflow_def obtain_standard_id_def finish_standard_def
      create_coding_standard_def get_available_tools_def enable_tool_def update_patterns_def
      promote_draft_def set_default_def make_request_def requests_request_def
      tool_body_def process_patterns_def get_patterns_def get_patterns_loop.simps(2)
      emit_def sleep_def is_error_status_def Let_def scripted_def
      created_response_def tools_response_def page_response_def example_tool_def)


subsection \<open>The request primitive\<close>

lemma get_patterns_loop_sent:
  "\<exists>cs. sent (snd (get_patterns_loop fuel api srv sid uuid limit acc c st)) =
          sent st @ map (patterns_request api sid uuid limit) cs \<and> length cs \<le> fuel"
proof (induction fuel arbitrary: acc c st)
  case 0
  show ?case by (rule exI [of _ "[]"]) simp
next
  case (Suc fuel)
  obtain r1 st1 where m: "make_request api srv ''GET''
      [Lit ''api/v3/organizations/'', Lit (api_provider api), Lit ''/'',
       Lit (api_org_name api), Lit ''/coding-standards/'', Fmt sid,
       Lit ''/tools/'', Fmt uuid, Lit ''/patterns''] None None
      (Some ([(''limit'', limit)] @ (if truthy c then [(''cursor'', c)] else []))) st = (r1, st1)"
    by fastforce
  have s1: "sent st1 = sent st @ [patterns_request api sid uuid limit c]"
    using make_request_sent [of api srv "''GET''"
        "[Lit ''api/v3/organizations/'', Lit (api_provider api), Lit ''/'',
          Lit (api_org_name api), Lit ''/coding-standards/'', Fmt sid,
          Lit ''/tools/'', Fmt uuid, Lit ''/patterns'']" None None
        "Some ([(''limit'', limit)] @ (if truthy c then [(''cursor'', c)] else []))" st] m
    by (simp add: patterns_request_def tool_endpoint_def)
  let ?run = "get_patterns_loop (Suc fuel) api srv sid uuid limit acc c st"
  from m have "snd ?run = st1 \<or>
      (\<exists>acc' c'. snd ?run = snd (get_patterns_loop fuel api srv sid uuid limit acc' c' st1))"
    by (auto simp: get_patterns_loop.simps(2) Let_def split: sum.splits if_splits)
  then show ?case
  proof
    assume "snd ?run = st1"
    with s1 show ?thesis
      by (intro exI [of _ "[c]"]) simp
  next
    assume "\<exists>acc' c'. snd ?run = snd (get_patterns_loop fuel api srv sid uuid limit acc' c' st1)"
    then obtain acc' c' where r: "snd ?run = snd (get_patterns_loop fuel api srv sid uuid limit acc' c' st1)"
      by blast
    from Suc.IH [of acc' c' st1] obtain cs where
      "sent (snd (get_patterns_loop fuel api srv sid uuid limit acc' c' st1)) =
         sent st1 @ map (patterns_request api sid uuid limit) cs" "length cs \<le> fuel"
      by blast
    with r s1 show ?thesis
      by (intro exI [of _ "c # cs"]) simp
  qed
qed

lemma operations_sent:
  "sent (snd (create_coding_standard api srv name st)) = sent st @ [create_request api name]"
  "sent (snd (get_coding_standards api srv st)) = sent st @ [standards_request api]"
  "sent (snd (get_available_tools api srv st)) = sent st @ [tools_request api]"
  "sent (snd (enable_tool api srv sid uuid st)) = sent st @ [patch_tool_request api sid uuid []]"
  "sent (snd (update_patterns api srv sid uuid pats st)) = sent st @ [patch_tool_request api sid uuid pats]"
  "sent (snd (promote_draft api srv sid st)) = sent st @ [promote_request api sid]"
  "sent (snd (set_default api srv sid st)) = sent st @ [set_default_request api sid]"
proof -
  show "sent (snd (create_coding_standard api srv name st)) = sent st @ [create_request api name]"
    by (simp add: create_coding_standard_def Let_def make_request_sent create_request_def
        standards_endpoint_def)
  show "sent (snd (get_coding_standards api srv st)) = sent st @ [standards_request api]"
    using make_request_sent [of api srv "''GET''" "standards_endpoint api" None None None st]
    by (auto simp: get_coding_standards_def Let_def standards_request_def standards_endpoint_def
        split: prod.splits sum.splits)
  show "sent (snd (get_available_tools api srv st)) = sent st @ [tools_request api]"
    by (cases "get_available_tools api srv st") (simp add: get_available_tools_sent)
  show "sent (snd (enable_tool api srv sid uuid st)) = sent st @ [patch_tool_request api sid uuid []]"
    using make_request_sent [of api srv "''PATCH''" "tool_endpoint api sid uuid"
        "Some (JObj [(''enabled'', JBool True), (''patterns'', JArr [])])" None None st]
    by (auto simp: enable_tool_def Let_def patch_tool_request_def tool_endpoint_def
        split: prod.splits sum.splits)
  show "sent (snd (update_patterns api srv sid uuid pats st)) = sent st @ [patch_tool_request api sid uuid pats]"
    using make_request_sent [of api srv "''PATCH''" "tool_endpoint api sid uuid"
        "Some (JObj [(''enabled'', JBool True), (''patterns'', JArr pats)])" None None st]
    by (auto simp: update_patterns_def Let_def patch_tool_request_def tool_endpoint_def
        split: prod.splits sum.splits)
  show "sent (snd (promote_draft api srv sid st)) = sent st @ [promote_request api sid]"
    by (simp add: promote_draft_def Let_def make_request_sent promote_request_def
        standard_endpoint_def)
  show "sent (snd (set_default api srv sid st)) = sent st @ [set_default_request api sid]"
    by (simp add: set_default_def Let_def make_request_sent set_default_request_def
        standard_endpoint_def)
qed

lemma operations_requests:
  "list_all (\<lambda>rq. headers rq = api_headers api \<and> take 6 (url rq) = organization_prefix api)
     [create_request api name, standards_request api, patch_tool_request api sid uuid pats,
      patterns_request api sid uuid limit c, promote_request api sid, set_default_request api sid]"
  "headers (tools_request api) = api_headers api"
  "url (tools_request api) = [Lit (base_url api), Lit ''/'', Lit ''api/v3/tools'']"
  by (simp_all add: create_request_def standards_request_def patch_tool_request_def
      patterns_request_def promote_request_def set_default_request_def tools_request_def
      built_request_def organization_prefix_def standards_endpoint_def tool_endpoint_def
      standard_endpoint_def)

lemma CodacyAPI_fields:
  "map_of (api_headers (CodacyAPI cfg)) ''api-token'' = Some (api_token cfg)"
  "api_provider (CodacyAPI cfg) = provider cfg"
  "api_org_name (CodacyAPI cfg) = org_name cfg"
  by (simp_all add: CodacyAPI_def Let_def)

lemma make_request_results:
  "srv (length (sent st)) = TransportFailure \<Longrightarrow>
     fst (make_request api srv meth endpoint js dat ps st) = Inl ConnectionError"
  "srv (length (sent st)) = HttpResponse code (Json j) \<Longrightarrow> is_error_status code \<Longrightarrow>
     fst (make_request api srv meth endpoint js dat ps st) = Inl (HTTPError code (Json j))"
  "srv (length (sent st)) = HttpResponse code (Json j) \<Longrightarrow> \<not> is_error_status code \<Longrightarrow>
     fst (make_request api srv meth endpoint js dat ps st) = Inr j"
  "srv (length (sent st)) = HttpResponse code Empty \<Longrightarrow> \<not> is_error_status code \<Longrightarrow>
     fst (make_request api srv meth endpoint js dat ps st) = Inr (JObj [])"
  by (simp_all add: make_request_def requests_request_def Let_def)


text \<open>
  Claim C7, as the code has it. Every operation of the client sends its requests through
  \<open>_make_request\<close>, one for each call (\<open>get_patterns\<close>: one for each pass, at most the
  fuel), with the headers of the client, among them the API token, and with the structured
  body it is given. The path of every operation but one starts with
  \<open>api/v3/organizations/{provider}/{org_name}\<close>; \<open>get_available_tools\<close> asks for
  \<open>api/v3/tools\<close>. When the transport fails, \<open>_make_request\<close> raises an error without a
  status; on a status from 400 to 599 with a body that decodes it raises the \<open>HTTPError\<close>
  with the status and the body; on any other status it returns the decoded body, or the
  empty map for an empty body.
\<close>

theorem operations_share_the_request_primitive:
  "sent (snd (create_coding_standard api srv name st)) = sent st @ [create_request api name] \<and>
   sent (snd (get_coding_standards api srv st)) = sent st @ [standards_request api] \<and>
   sent (snd (get_available_tools api srv st)) = sent st @ [tools_request api] \<and>
   sent (snd (enable_tool api srv sid uuid st)) = sent st @ [patch_tool_request api sid uuid []] \<and>
   sent (snd (update_patterns api srv sid uuid pats st)) =
     sent st @ [patch_tool_request api sid uuid pats] \<and>
   sent (snd (promote_draft api srv sid st)) = sent st @ [promote_request api sid] \<and>
   sent (snd (set_default api srv sid st)) = sent st @ [set_default_request api sid] \<and>
   (\<exists>cs. sent (snd (get_patterns fuel api srv sid uuid limit st)) =
           sent st @ map (patterns_request api sid uuid limit) cs \<and> length cs \<le> fuel) \<and>
   sent (snd (make_request api srv meth endpoint js dat ps st)) =
     sent st @ [built_request api meth endpoint js dat ps] \<and>
   json_body (built_request api meth endpoint js dat ps) = js \<and>
   headers (built_request api meth endpoint js dat ps) = api_headers api \<and>
   map_of (api_headers (CodacyAPI cfg)) ''api-token'' = Some (api_token cfg) \<and>
   api_provider (CodacyAPI cfg) = provider cfg \<and> api_org_name (CodacyAPI cfg) = org_name cfg \<and>
   list_all (\<lambda>rq. headers rq = api_headers api \<and> take 6 (url rq) = organization_prefix api)
     [create_request api name, standards_request api, patch_tool_request api sid uuid pats,
      patterns_request api sid uuid limit c, promote_request api sid, set_default_request api sid] \<and>
   headers (tools_request api) = api_headers api \<and>
   url (tools_request api) = [Lit (base_url api), Lit ''/'', Lit ''api/v3/tools''] \<and>
   (srv (length (sent st)) = TransportFailure \<longrightarrow>
      fst (make_request api srv meth endpoint js dat ps st) = Inl ConnectionError) \<and>
   (\<forall>code j. srv (length (sent st)) = HttpResponse code (Json j) \<and> is_error_status code \<longrightarrow>
      fst (make_request api srv meth endpoint js dat ps st) = Inl (HTTPError code (Json j))) \<and>
   (\<forall>code j. srv (length (sent st)) = HttpResponse code (Json j) \<and> \<not> is_error_status code \<longrightarrow>
      fst (make_request api srv meth endpoint js dat ps st) = Inr j) \<and>
   (\<forall>code. srv (length (sent st)) = HttpResponse code Empty \<and> \<not> is_error_status code \<longrightarrow>
      fst (make_request api srv meth endpoint js dat ps st) = Inr (JObj []))"
proof -
  have g: "\<exists>cs. sent (snd (get_patterns fuel api srv sid uuid limit st)) =
           sent st @ map (patterns_request api sid uuid limit) cs \<and> length cs \<le> fuel"
    unfolding get_patterns_def by (rule get_patterns_loop_sent)
  have b: "json_body (built_request api meth endpoint js dat ps) = js"
    "headers (built_request api meth endpoint js dat ps) = api_headers api"
    by (simp_all add: built_request_def)
  have r: "srv (length (sent st)) = TransportFailure \<longrightarrow>
      fst (make_request api srv meth endpoint js dat ps st) = Inl ConnectionError"
    "\<forall>code j. srv (length (sent st)) = HttpResponse code (Json j) \<and> is_error_status code \<longrightarrow>
      fst (make_request api srv meth endpoint js dat ps st) = Inl (HTTPError code (Json j))"
    "\<forall>code j. srv (length (sent st)) = HttpResponse code (Json j) \<and> \<not> is_error_status code \<longrightarrow>
      fst (make_request api srv meth endpoint js dat ps st) = Inr j"
    "\<forall>code. srv (length (sent st)) = HttpResponse code Empty \<and> \<not> is_error_status code \<longrightarrow>
      fst (make_request api srv meth endpoint js dat ps st) = Inr (JObj [])"
    by (simp_all add: make_request_results)
  show ?thesis
    by (intro conjI;
        (rule g b r operations_sent make_request_sent CodacyAPI_fields operations_requests))
qed

theorem request_primitive_witness:
  "server_error = HttpResponse 500 (Json (JObj [(''error'', JStr ''boom'')])) \<and>
   is_error_status 500 \<and>
   fst (make_request (CodacyAPI example_settings) (scripted [server_error]) ''GET''
          [Lit ''api/v3/tools''] None None None st0) =
     Inl (HTTPError 500 (Json (JObj [(''error'', JStr ''boom'')]))) \<and>
   \<not> is_error_status 201 \<and>
   fst (make_request (CodacyAPI example_settings) (scripted [created_response]) ''POST''
          (standards_endpoint (CodacyAPI example_settings)) (Some (JObj [])) None None st0) =
     Inr (JObj [(''data'', JObj [(''id'', JStr ''s1'')])]) \<and>
   \<not> is_error_status 304 \<and>
   fst (make_request (CodacyAPI example_settings) not_modified ''GET''
          [Lit ''api/v3/tools''] None None None st0) = Inr (JObj []) \<and>
   fst (make_request (CodacyAPI example_settings) unreachable ''GET''
          [Lit ''api/v3/tools''] None None None st0) = Inl ConnectionError"
proof -
  let ?api = "CodacyAPI example_settings"
  note T = operations_share_the_request_primitive [where api = ?api and st = st0
      and meth = "''GET''" and endpoint = "[Lit ''api/v3/tools'']" and js = None and dat = None
      and ps = None]
  have e: "server_error = HttpResponse 500 (Json (JObj [(''error'', JStr ''boom'')]))"
    by (simp add: server_error_def)
  have s: "is_error_status 500" "\<not> is_error_status 201" "\<not> is_error_status 304"
    by (simp_all add: is_error_status_def)
  have 1: "fst (make_request ?api (scripted [server_error]) ''GET''
          [Lit ''api/v3/tools''] None None None st0) =
     Inl (HTTPError 500 (Json (JObj [(''error'', JStr ''boom'')])))"
    using T [where srv = "scripted [server_error]", THEN conjunct2, THEN conjunct2, THEN conjunct2, THEN conjunct2, THEN conjunct2, THEN conjunct2, THEN conjunct2, THEN conjunct2, THEN conjunct2, THEN conjunct2, THEN conjunct2, THEN conjunct2, THEN conjunct2, THEN conjunct2, THEN conjunct2, THEN conjunct2, THEN conjunct2, THEN conjunct2, THEN conjunct1,
        rule_format, of 500 "JObj [(''error'', JStr ''boom'')]"] s
    by (simp add: scripted_def st0_def e)
  have 2: "fst (make_request ?api (scripted [created_response]) ''POST''
          (standards_endpoint ?api) (Some (JObj [])) None None st0) =
     Inr (JObj [(''data'', JObj [(''id'', JStr ''s1'')])])"
    using operations_share_the_request_primitive [where api = ?api and st = st0
      and meth = "''POST''" and endpoint = "standards_endpoint ?api" and js = "Some (JObj [])"
      and dat = None and ps = None and srv = "scripted [created_response]",
        THEN conjunct2, THEN conjunct2, THEN conjunct2, THEN conjunct2, THEN conjunct2, THEN conjunct2, THEN conjunct2, THEN conjunct2, THEN conjunct2, THEN conjunct2, THEN conjunct2, THEN conjunct2, THEN conjunct2, THEN conjunct2, THEN conjunct2, THEN conjunct2, THEN conjunct2, THEN conjunct2, THEN conjunct2, THEN conjunct1,
        rule_format, of 201 "JObj [(''data'', JObj [(''id'', JStr ''s1'')])]"] s
    by (simp add: scripted_def st0_def created_response_def)
  have 3: "fst (make_request ?api not_modified ''GET''
          [Lit ''api/v3/tools''] None None None st0) = Inr (JObj [])"
    using T [where srv = not_modified, THEN conjunct2, THEN conjunct2, THEN conjunct2, THEN conjunct2, THEN conjunct2, THEN conjunct2, THEN conjunct2, THEN conjunct2, THEN conjunct2, THEN conjunct2, THEN conjunct2, THEN conjunct2, THEN conjunct2, THEN conjunct2, THEN conjunct2, THEN conjunct2, THEN conjunct2, THEN conjunct2, THEN conjunct2, THEN conjunct2,
        rule_format, of 304] s
    by (simp add: scripted_def st0_def not_modified_def)
  have 4: "fst (make_request ?api unreachable ''GET''
          [Lit ''api/v3/tools''] None None None st0) = Inl ConnectionError"
    using T [where srv = unreachable, THEN conjunct2, THEN conjunct2, THEN conjunct2, THEN conjunct2, THEN conjunct2, THEN conjunct2, THEN conjunct2, THEN conjunct2, THEN conjunct2, THEN conjunct2, THEN conjunct2, THEN conjunct2, THEN conjunct2, THEN conjunct2, THEN conjunct2, THEN conjunct2, THEN conjunct2, THEN conjunct1]
    by (simp add: scripted_def st0_def unreachable_def)
  from e s(1) 1 s(2) 2 s(3) 3 4 show ?thesis by (intro conjI)
qed

text \<open>
  The request of \<open>get_available_tools\<close> has no organization or provider in its path; a
  response with status 304 is returned, not raised; the error raised when the service
  cannot be reached carries no status.
\<close>

theorem tools_request_has_no_organization:
  "sent (snd (get_available_tools (CodacyAPI example_settings) empty_catalog_dry st0)) =
     [\<lparr>http_method = ''GET'',
       url = [Lit ''https://app.codacy.com'', Lit ''/'', Lit ''api/v3/tools''],
       headers = api_headers (CodacyAPI example_settings),
       json_body = None, data = None, params = None\<rparr>] \<and>
   organization_prefix (CodacyAPI example_settings) =
     [Lit ''https://app.codacy.com'', Lit ''/'', Lit ''api/v3/organizations/'', Lit ''gh'',
      Lit ''/'', Lit ''acme''] \<and>
   fst (make_request (CodacyAPI example_settings) not_modified ''GET''
          [Lit ''api/v3/tools''] None None None st0) = Inr (JObj []) \<and>
   fst (make_request (CodacyAPI example_settings) unreachable ''GET''
          [Lit ''api/v3/tools''] None None None st0) = Inl ConnectionError"
  by (simp add: example_api empty_catalog_dry_def not_modified_def unreachable_def
      organization_prefix_def run_defs)

end
